theory Spec2Isabelle
  imports Complex_Main
begin

section \<open>JavaScript values\<close>

subsection \<open>Numbers\<close>

text \<open>
  A JavaScript number is an IEEE-754 double: a finite value, one of the two zeros, one of the
  two infinities or NaN. \<open>Fin 0\<close> is the positive zero, \<open>NegZero\<close> the negative one; a
  finite value is carried as the rational it denotes.
\<close>

datatype jsnum = Fin rat | NegZero | PInf | NInf | NaN

definition pow2 :: "int \<Rightarrow> rat" where
  "pow2 e = (if 0 \<le> e then 2 ^ nat e else 1 / 2 ^ nat (- e))"

function bit_length :: "int \<Rightarrow> int" where
  "bit_length n = (if n \<le> 0 then 0 else 1 + bit_length (n div 2))"
  by pat_completeness auto
termination
  by (relation "measure nat") auto

declare bit_length.simps [simp del]

text \<open>\<open>ilog2 a\<close> is the integer part of the binary logarithm of a positive rational.\<close>

definition ilog2 :: "rat \<Rightarrow> int" where
  "ilog2 a = (if 1 \<le> a then bit_length \<lfloor>a\<rfloor> - 1
              else - bit_length (\<lceil>1 / a\<rceil> - 1))"

definition round_half_even :: "rat \<Rightarrow> int" where
  "round_half_even x =
     (let f = \<lfloor>x\<rfloor>; r = x - of_int f
      in if r < 1 / 2 then f else if 1 / 2 < r then f + 1 else if even f then f else f + 1)"

text \<open>
  Rounding of an exact non-zero result to the nearest double, ties to even: 53 bits of
  mantissa, gradual underflow below \<open>2 ^ - 1022\<close>, overflow to the infinity of the same sign.
\<close>

definition round_double :: "rat \<Rightarrow> jsnum" where
  "round_double q =
     (let a = \<bar>q\<bar>;
          e = max (ilog2 a - 52) (- 1074);
          m = round_half_even (a / pow2 e);
          r = of_int m * pow2 e
      in if 1024 < e + bit_length m then (if q < 0 then NInf else PInf)
         else if m = 0 then (if q < 0 then NegZero else Fin 0)
         else Fin (if q < 0 then - r else r))"

fun num_val :: "jsnum \<Rightarrow> rat" where
  "num_val (Fin r) = r"
| "num_val _ = 0"

fun is_negative :: "jsnum \<Rightarrow> bool" where
  "is_negative (Fin r) = (r < 0)"
| "is_negative NegZero = True"
| "is_negative NInf = True"
| "is_negative _ = False"

definition is_inf :: "jsnum \<Rightarrow> bool" where
  "is_inf x = (x = PInf \<or> x = NInf)"

definition is_zero :: "jsnum \<Rightarrow> bool" where
  "is_zero x = (x = Fin 0 \<or> x = NegZero)"

definition signed_zero :: "bool \<Rightarrow> jsnum" where
  "signed_zero neg = (if neg then NegZero else Fin 0)"

definition signed_inf :: "bool \<Rightarrow> jsnum" where
  "signed_inf neg = (if neg then NInf else PInf)"

text \<open>The operators \<open>*\<close>, \<open>/\<close> and \<open>-\<close> on numbers.\<close>

definition js_mul :: "jsnum \<Rightarrow> jsnum \<Rightarrow> jsnum" where
  "js_mul x y =
     (if x = NaN \<or> y = NaN then NaN
      else if is_inf x \<or> is_inf y then
        (if is_zero x \<or> is_zero y then NaN else signed_inf (is_negative x \<noteq> is_negative y))
      else if is_zero x \<or> is_zero y then signed_zero (is_negative x \<noteq> is_negative y)
      else round_double (num_val x * num_val y))"

definition js_div :: "jsnum \<Rightarrow> jsnum \<Rightarrow> jsnum" where
  "js_div x y =
     (if x = NaN \<or> y = NaN then NaN
      else if is_inf x then
        (if is_inf y then NaN else signed_inf (is_negative x \<noteq> is_negative y))
      else if is_inf y then signed_zero (is_negative x \<noteq> is_negative y)
      else if is_zero y then
        (if is_zero x then NaN else signed_inf (is_negative x \<noteq> is_negative y))
      else if is_zero x then signed_zero (is_negative x \<noteq> is_negative y)
      else round_double (num_val x / num_val y))"

definition js_sub :: "jsnum \<Rightarrow> jsnum \<Rightarrow> jsnum" where
  "js_sub x y =
     (if x = NaN \<or> y = NaN then NaN
      else if is_inf x then (if y = x then NaN else x)
      else if is_inf y then signed_inf (y = PInf)
      else if num_val x - num_val y = 0 then
        (if x = NegZero \<and> y \<noteq> NegZero then NegZero else Fin 0)
      else round_double (num_val x - num_val y))"

text \<open>\<open>Number.isFinite\<close>, and the truth value of a number in a condition.\<close>

definition isFinite :: "jsnum \<Rightarrow> bool" where
  "isFinite x = (case x of Fin _ \<Rightarrow> True | NegZero \<Rightarrow> True | _ \<Rightarrow> False)"

definition truthy_num :: "jsnum \<Rightarrow> bool" where
  "truthy_num x = (x \<noteq> NaN \<and> \<not> is_zero x)"

subsection \<open>Values\<close>

text \<open>
  The values that JSON payloads and loosely typed fields can hold. An object is the list of
  its own enumerable properties in enumeration order, with distinct keys.
\<close>

datatype jsval =
    JUndefined
  | JNull
  | JBool bool
  | JNumber jsnum
  | JString string
  | JArray "jsval list"
  | JObject "(string \<times> jsval) list"

text \<open>
  \<open>Array.from(new Set(xs))\<close>: the elements of \<open>xs\<close> in order of first occurrence.
\<close>

definition set_add :: "'a list \<Rightarrow> 'a \<Rightarrow> 'a list" where
  "set_add s x = (if x \<in> set s then s else s @ [x])"

definition array_from_set :: "'a list \<Rightarrow> 'a list" where
  "array_from_set xs = foldl set_add [] xs"

section \<open>Data model (types.ts)\<close>

text \<open>
  The fields of a \<open>Bar\<close> are \<open>t\<close>, \<open>o\<close>, \<open>h\<close>, \<open>l\<close>, \<open>c\<close>, \<open>v\<close>; an optional field is
  \<open>None\<close> when it is \<open>undefined\<close>.
\<close>

record bar =
  bar_t :: string
  bar_o :: "jsnum option"
  bar_h :: "jsnum option"
  bar_l :: "jsnum option"
  bar_c :: jsnum
  bar_v :: "jsnum option"

record price_history =
  ph_symbol :: string
  ph_interval :: string
  ph_bars :: "bar list"
  ph_adjusted :: "bool option"
  ph_dataSources :: "string list"
  ph_sourceSymbol :: "string option"

record point =
  pt_t :: string
  pt_v :: jsnum

record compare_series =
  cs_symbol :: string
  cs_points :: "point list"

record rebased =
  rb_dates :: "string list"
  rb_table :: "compare_series list"
  rb_sources :: "string list"

section \<open>Reconciliation and rebasing (utils/normalize.ts)\<close>

subsection \<open>alignAndRebase\<close>

text \<open>The callback of the \<open>reduce\<close> that computes \<open>commonDates\<close>, with initial value \<open>[]\<close>.\<close>

definition commonDates_step :: "string list \<Rightarrow> price_history \<Rightarrow> string list" where
  "commonDates_step acc ph =
     (let dates = map bar_t (ph_bars ph)
      in if length acc = 0 then dates else filter (\<lambda>d. d \<in> set dates) acc)"

text \<open>\<open>new Map(ph.bars.map((b) => [b.t, b.c]))\<close>: a later bar of the same date replaces an earlier one.\<close>

definition bar_map :: "bar list \<Rightarrow> (string \<rightharpoonup> jsnum)" where
  "bar_map bs = foldl (\<lambda>m b. m(bar_t b \<mapsto> bar_c b)) Map.empty bs"

text \<open>
  \<open>map.get(commonDates[0]) ?? 1\<close>: with no common date the key is \<open>undefined\<close>, which no bar
  carries, so the baseline is 1.
\<close>

definition baseline_of :: "(string \<rightharpoonup> jsnum) \<Rightarrow> string list \<Rightarrow> jsnum" where
  "baseline_of m commonDates =
     (case commonDates of
        [] \<Rightarrow> Fin 1
      | d # _ \<Rightarrow> (case m d of None \<Rightarrow> Fin 1 | Some p \<Rightarrow> p))"

definition rebase_point :: "(string \<rightharpoonup> jsnum) \<Rightarrow> jsnum \<Rightarrow> string \<Rightarrow> point" where
  "rebase_point m baseline d =
     \<lparr>pt_t = d,
      pt_v = (case m d of
                None \<Rightarrow> NaN
              | Some price \<Rightarrow>
                  if truthy_num price then js_mul (js_div price baseline) (Fin 100) else NaN)\<rparr>"

definition rebase_series :: "string list \<Rightarrow> price_history \<Rightarrow> compare_series" where
  "rebase_series commonDates ph =
     (let m = bar_map (ph_bars ph);
          baseline = baseline_of m commonDates;
          points = map (rebase_point m baseline) commonDates
      in \<lparr>cs_symbol = ph_symbol ph, cs_points = points\<rparr>)"

definition alignAndRebase :: "price_history list \<Rightarrow> rebased" where
  "alignAndRebase series =
     (if length series = 0 then \<lparr>rb_dates = [], rb_table = [], rb_sources = []\<rparr>
      else
        let commonDates = foldl commonDates_step [] series;
            table = map (rebase_series commonDates) series;
            sources = array_from_set (concat (map ph_dataSources series))
        in \<lparr>rb_dates = commonDates, rb_table = table, rb_sources = sources\<rparr>)"

subsection \<open>reconcileOverview\<close>

text \<open>
  A fragment is a \<open>Partial<EtfOverview>\<close>: \<open>frag_rest\<close> lists its own properties other than
  \<open>dataSources\<close> (the \<open>rest\<close> of the destructuring), and \<open>frag_dataSources\<close> is the array when
  \<open>dataSources\<close> is one. A \<open>null\<close> or \<open>undefined\<close> fragment is \<open>None\<close>.
\<close>

record fragment =
  frag_rest :: "(string \<times> jsval) list"
  frag_dataSources :: "string list option"

text \<open>
  The merged overview: its own properties other than \<open>dataSources\<close>, and the data sources.
\<close>

record etf_overview =
  ov_fields :: "string \<rightharpoonup> jsval"
  ov_dataSources :: "string list"

text \<open>The properties every object inherits from \<open>Object.prototype\<close>.\<close>

definition object_prototype_keys :: "string list" where
  "object_prototype_keys =
     [''constructor'', ''__defineGetter__'', ''__defineSetter__'', ''hasOwnProperty'',
      ''__lookupGetter__'', ''__lookupSetter__'', ''isPrototypeOf'', ''propertyIsEnumerable'',
      ''toString'', ''valueOf'', ''__proto__'', ''toLocaleString'']"

text \<open>\<open>merged[key] === undefined\<close>.\<close>

definition merged_undefined :: "etf_overview \<Rightarrow> string \<Rightarrow> bool" where
  "merged_undefined merged key =
     (case ov_fields merged key of
        Some v \<Rightarrow> v = JUndefined
      | None \<Rightarrow> key \<noteq> ''dataSources'' \<and> key \<notin> set object_prototype_keys)"

definition merge_entry :: "etf_overview \<Rightarrow> string \<times> jsval \<Rightarrow> etf_overview" where
  "merge_entry merged kv =
     (case kv of (key, value) \<Rightarrow>
        if value = JUndefined \<or> value = JNull then merged
        else if merged_undefined merged key
          then merged\<lparr>ov_fields := (ov_fields merged)(key \<mapsto> value)\<rparr>
          else merged)"

definition merge_fragment :: "etf_overview \<Rightarrow> fragment option \<Rightarrow> etf_overview" where
  "merge_fragment merged fragment =
     (case fragment of
        None \<Rightarrow> merged
      | Some f \<Rightarrow>
          let merged' = foldl merge_entry merged (frag_rest f)
          in (case frag_dataSources f of
                None \<Rightarrow> merged'
              | Some ds \<Rightarrow> merged'\<lparr>ov_dataSources := ov_dataSources merged' @ ds\<rparr>))"

definition reconcileOverview :: "string \<Rightarrow> fragment option list \<Rightarrow> etf_overview" where
  "reconcileOverview symbol fragments =
     (let merged = foldl merge_fragment
                     \<lparr>ov_fields = [''symbol'' \<mapsto> JString symbol], ov_dataSources = []\<rparr>
                     fragments
      in merged\<lparr>ov_dataSources := array_from_set (ov_dataSources merged)\<rparr>)"

text \<open>
  The specification's reading of the merge: the first value of a field, in fragment order,
  that is neither \<open>null\<close> nor \<open>undefined\<close>.
\<close>

definition usable :: "string \<Rightarrow> string \<times> jsval \<Rightarrow> bool" where
  "usable k kv = (fst kv = k \<and> snd kv \<noteq> JUndefined \<and> snd kv \<noteq> JNull)"

fun first_non_null :: "string \<Rightarrow> fragment option list \<Rightarrow> jsval option" where
  "first_non_null k [] = None"
| "first_non_null k (None # fs) = first_non_null k fs"
| "first_non_null k (Some f # fs) =
     (case find (usable k) (frag_rest f) of
        Some kv \<Rightarrow> Some (snd kv)
      | None \<Rightarrow> first_non_null k fs)"

section \<open>Symbol extraction (utils/tickers.ts)\<close>

subsection \<open>Characters\<close>

text \<open>
  A string is the list of its characters. The regular expressions of this module have no
  \<open>u\<close> flag and classify ASCII characters only: every other character is neither a word
  character nor a letter of \<open>[A-Z]\<close>.
\<close>

definition upper_letters :: string where
  "upper_letters = ''ABCDEFGHIJKLMNOPQRSTUVWXYZ''"

definition lower_letters :: string where
  "lower_letters = ''abcdefghijklmnopqrstuvwxyz''"

definition digit_chars :: string where
  "digit_chars = ''0123456789''"

text \<open>The classes \<open>[A-Z]\<close> and \<open>\w\<close>.\<close>

definition is_upper :: "char \<Rightarrow> bool" where
  "is_upper c = (c \<in> set upper_letters)"

definition is_word_char :: "char \<Rightarrow> bool" where
  "is_word_char c = (c \<in> set (upper_letters @ lower_letters @ digit_chars @ ''_''))"

text \<open>
  \<open>toUpperCase\<close> on ASCII text. It is applied to tokens made of word characters and dots
  only, where it changes exactly the letters \<open>a\<close> to \<open>z\<close>.
\<close>

definition toUpperCase_char :: "char \<Rightarrow> char" where
  "toUpperCase_char c =
     (case map_of (zip lower_letters upper_letters) c of Some u \<Rightarrow> u | None \<Rightarrow> c)"

definition toUpperCase :: "string \<Rightarrow> string" where
  "toUpperCase s = map toUpperCase_char s"

subsection \<open>Tables\<close>

text \<open>
  The entry after \<open>PUOI\<close> is not ASCII in the source file; it is listed as the bytes of
  the file.
\<close>

definition STOP_WORDS :: "string list" where
  "STOP_WORDS =
     [''ETF'', ''ETFS'', ''INDICE'', ''INDEX'', ''SP'', ''USA'', ''USD'', ''EUR'', ''CHF'',
      ''MR'', ''RIP'', ''FIRE'', ''VS'', ''E'', ''DI'', ''DEL'', ''DELLA'', ''DEI'', ''DEGLI'',
      ''DAL'', ''DALLA'', ''CON'', ''PER'', ''NEL'', ''NELLA'', ''NEI'', ''NELLE'', ''GLI'',
      ''LE'', ''IL'', ''LO'', ''LA'', ''UNA'', ''UNO'', ''UN'', ''ANCHE'', ''GRAFICO'',
      ''GRAFICI'', ''SNAPSHOT'', ''COMPARA'', ''CONFRONTA'', ''CHECK'', ''PUOI'',
      ''PU'' @ [CHR 0xC3, CHR 0x83, CHR 0xE2, CHR 0x80, CHR 0x99],
      ''DAMMI'', ''DARMI'', ''DAMI'', ''DARTI'', ''CHIEDO'', ''VOGLIO'', ''PANORAMICA'',
      ''AGGIORNATA'', ''CONFRONTO'', ''ULTIMI'', ''MESI'', ''MAGARI'', ''INCLUDENDO'',
      ''ANDAMENTO'', ''ORA'', ''STO'', ''PREPARANDO'', ''GENERANDO'', ''RISULTATI'',
      ''ISSUER'', ''BENCHMARK'', ''CATEGORIA'', ''TER'', ''TOP'', ''HOLDINGS'',
      ''PERFORMANCE'', ''NUOVO'', ''NUOVAMENTE'', ''PREGO'']"

definition PHRASE_ALIAS_MAP :: "(string \<times> string) list" where
  "PHRASE_ALIAS_MAP =
     [(''S&P 500'', ''SP500''),
      (''S&P500'', ''SP500''),
      (''S & P 500'', ''SP500''),
      (''SP 500'', ''SP500''),
      (''SNP 500'', ''SP500''),
      (''NASDAQ 100'', ''NASDAQ100''),
      (''NASDAQ-100'', ''NASDAQ100''),
      (''NASDAQ COMPOSITE'', ''NASDAQ''),
      (''NASDAQ'', ''NASDAQ''),
      (''DOW JONES'', ''DOWJONES''),
      (''DOW 30'', ''DOW30'')]"

definition PRIMARY_ALIAS_MAP :: "(string \<times> string) list" where
  "PRIMARY_ALIAS_MAP =
     [(''SP500'', ''SPY''),
      (''S&P500'', ''SPY''),
      (''S&P'', ''SPY''),
      (''SPX'', ''SPY''),
      (''SNP'', ''SPY''),
      (''GSPC'', ''SPY''),
      (''NASDAQ'', ''QQQ''),
      (''NASDAQ100'', ''QQQ''),
      (''NAS100'', ''QQQ''),
      (''NDX'', ''QQQ''),
      (''IXIC'', ''QQQ''),
      (''DOWJONES'', ''DIA''),
      (''DOW'', ''DIA''),
      (''DJIA'', ''DIA''),
      (''DOW30'', ''DIA'')]"

subsection \<open>Regular expressions\<close>

text \<open>
  A backtracking matcher in continuation-passing style. A matcher is run at a position of
  the subject, given as the character before the position (if any), the text from the
  position on, and the number of characters matched so far; it answers the length of the
  match, or \<open>None\<close> when every alternative has failed.
\<close>

type_synonym rx = "char option \<Rightarrow> string \<Rightarrow> nat \<Rightarrow> nat option"

definition rx_end :: rx where
  "rx_end prev rest n = Some n"

text \<open>\<open>\b\<close>: exactly one of the two neighbours of the position is a word character.\<close>

definition at_word_boundary :: "char option \<Rightarrow> string \<Rightarrow> bool" where
  "at_word_boundary prev rest =
     ((case prev of None \<Rightarrow> False | Some c \<Rightarrow> is_word_char c) \<noteq>
      (case rest of [] \<Rightarrow> False | c # _ \<Rightarrow> is_word_char c))"

definition rx_word_boundary :: "rx \<Rightarrow> rx" where
  "rx_word_boundary k prev rest n = (if at_word_boundary prev rest then k prev rest n else None)"

text \<open>One character of a class.\<close>

definition rx_class :: "(char \<Rightarrow> bool) \<Rightarrow> rx \<Rightarrow> rx" where
  "rx_class P k prev rest n =
     (case rest of [] \<Rightarrow> None | c # cs \<Rightarrow> if P c then k (Some c) cs (Suc n) else None)"

text \<open>
  The greedy quantifier \<open>{lo,hi}\<close>: one more repetition is tried first, and the
  continuation is tried at the present position only when that fails and \<open>lo\<close>
  repetitions have been made.
\<close>

fun rx_repeat :: "nat \<Rightarrow> nat \<Rightarrow> (rx \<Rightarrow> rx) \<Rightarrow> rx \<Rightarrow> rx" where
  "rx_repeat lo 0 m k = k"
| "rx_repeat lo (Suc hi) m k =
     (\<lambda>prev rest n.
        case m (rx_repeat (lo - 1) hi m k) prev rest n of
          Some r \<Rightarrow> Some r
        | None \<Rightarrow> if lo = 0 then k prev rest n else None)"

text \<open>The greedy optional group \<open>(?: ... )?\<close>.\<close>

definition rx_optional :: "(rx \<Rightarrow> rx) \<Rightarrow> rx \<Rightarrow> rx" where
  "rx_optional m k prev rest n =
     (case m k prev rest n of Some r \<Rightarrow> Some r | None \<Rightarrow> k prev rest n)"

text \<open>\<open>TICKER_REGEX = /\b[A-Z]{2,6}(?:\.[A-Z]{1,3})?\b/g\<close>.\<close>

definition TICKER_REGEX :: rx where
  "TICKER_REGEX =
     rx_word_boundary
       (rx_repeat 2 6 (rx_class is_upper)
          (rx_optional
             (\<lambda>k. rx_class (\<lambda>c. c = CHR ''.'') (rx_repeat 1 3 (rx_class is_upper) k))
             (rx_word_boundary rx_end)))"

text \<open>
  \<open>text.match(re)\<close> for a global \<open>re\<close>: the list of all matches, each search starting
  where the previous match ended (one character further after an empty match), and moving
  on by one character where the expression does not match. At the end of the text only the
  empty string can match. The result \<open>null\<close> for no match is the empty list.
\<close>

function match_all :: "rx \<Rightarrow> char option \<Rightarrow> string \<Rightarrow> string list" where
  "match_all re prev rest =
     (case rest of
        [] \<Rightarrow> (case re prev [] 0 of None \<Rightarrow> [] | Some n \<Rightarrow> [[]])
      | c # cs \<Rightarrow>
          (case re prev rest 0 of
             None \<Rightarrow> match_all re (Some c) cs
           | Some n \<Rightarrow>
               if n = 0 then [] # match_all re (Some c) cs
               else take n rest # match_all re (Some (last (take n rest))) (drop n rest)))"
  by pat_completeness auto
termination
  by (relation "measure (\<lambda>(re, prev, rest). length rest)") auto

declare match_all.simps [simp del]

definition string_match :: "string \<Rightarrow> rx \<Rightarrow> string list" where
  "string_match text re = match_all re None text"

text \<open>
  \<open>text.replace(new RegExp(escapeRegExp(phrase), "gi"), replacement)\<close>: the escaped
  pattern matches the characters of \<open>phrase\<close> literally, letters without regard to case;
  the occurrences are replaced from left to right without overlap. The replacements of
  this module contain no \<open>$\<close>.
\<close>

definition ci_prefix :: "string \<Rightarrow> string \<Rightarrow> bool" where
  "ci_prefix phrase text =
     (length phrase \<le> length text \<and>
      toUpperCase (take (length phrase) text) = toUpperCase phrase)"

function replace_all_ci :: "string \<Rightarrow> string \<Rightarrow> string \<Rightarrow> string" where
  "replace_all_ci phrase replacement text =
     (if phrase = [] then concat (map (\<lambda>c. replacement @ [c]) text) @ replacement
      else case text of
        [] \<Rightarrow> []
      | c # cs \<Rightarrow>
          if ci_prefix phrase text
          then replacement @ replace_all_ci phrase replacement (drop (length phrase) text)
          else c # replace_all_ci phrase replacement cs)"
  by pat_completeness auto
termination
  by (relation "measure (\<lambda>(phrase, replacement, text). length text)") auto

declare replace_all_ci.simps [simp del]

subsection \<open>extractFromText\<close>

definition normalizePhrases :: "string \<Rightarrow> string" where
  "normalizePhrases text =
     foldl (\<lambda>normalized (phrase, replacement).
              replace_all_ci phrase ('' '' @ replacement @ '' '') normalized)
       text PHRASE_ALIAS_MAP"

text \<open>
  \<open>PRIMARY_ALIAS_MAP[upper] ?? upper\<close>, and the body of the loop over the matches:
  \<open>None\<close> where the source says \<open>continue\<close>, and otherwise the symbol that is added to
  the set. \<open>upper\<close> has no lower-case letter, so the lookup in \<open>PRIMARY_ALIAS_MAP\<close> never
  meets an inherited property.
\<close>

definition primary_alias :: "string \<Rightarrow> string" where
  "primary_alias upper =
     (case map_of PRIMARY_ALIAS_MAP upper of Some a \<Rightarrow> a | None \<Rightarrow> upper)"

definition extract_token :: "string \<Rightarrow> string option" where
  "extract_token raw =
     (let token = filter (\<lambda>c. is_word_char c \<or> c = CHR ''.'') raw
      in if token = [] \<or> length token < 3 then None
         else
           let upper = toUpperCase token
           in if upper \<in> set STOP_WORDS then None
              else
                let normalized = primary_alias upper
                in if normalized \<in> set STOP_WORDS then None else Some normalized)"

definition add_match :: "string list \<Rightarrow> string \<Rightarrow> string list" where
  "add_match target raw =
     (case extract_token raw of None \<Rightarrow> target | Some normalized \<Rightarrow> set_add target normalized)"

text \<open>The set \<open>target\<close> is the list of its elements in insertion order.\<close>

definition extractFromText :: "string list \<Rightarrow> string \<Rightarrow> string list" where
  "extractFromText target text =
     (if text = [] then target
      else foldl add_match target (string_match (normalizePhrases text) TICKER_REGEX))"

subsection \<open>collectSymbols\<close>

fun addCandidate :: "string list \<Rightarrow> jsval \<Rightarrow> string list" where
  "addCandidate s JUndefined = s"
| "addCandidate s JNull = s"
| "addCandidate s (JBool b) = s"
| "addCandidate s (JNumber x) = s"
| "addCandidate s (JString v) = extractFromText s v"
| "addCandidate s (JArray vs) = foldl addCandidate s vs"
| "addCandidate s (JObject kvs) = foldl addCandidate s (map snd kvs)"

definition normalizeSymbol :: "string \<Rightarrow> string option" where
  "normalizeSymbol candidate =
     (let token = filter (\<lambda>c. is_word_char c \<or> c = CHR ''.'') candidate
      in if token = [] \<or> length token < 2 then None
         else
           let upper = toUpperCase token
           in if upper \<in> set STOP_WORDS then None else Some upper)"

text \<open>The callers pass the integers 1 and 6 as \<open>limit\<close>, or nothing.\<close>

definition limitResult :: "string list \<Rightarrow> int option \<Rightarrow> string list" where
  "limitResult s limit =
     (case limit of
        None \<Rightarrow> s
      | Some l \<Rightarrow> if 0 < l then take (nat l) s else s)"

definition add_fallback :: "string list \<Rightarrow> string \<Rightarrow> string list" where
  "add_fallback s symbol =
     (case normalizeSymbol symbol of None \<Rightarrow> s | Some normalized \<Rightarrow> set_add s normalized)"

record message_content =
  mc_symbol :: jsval
  mc_symbols :: jsval
  mc_text :: "string option"

definition collectSymbols ::
  "message_content option \<Rightarrow> string list option \<Rightarrow> int option \<Rightarrow> string list" where
  "collectSymbols content fallbackSymbols limit =
     (let messageSymbols =
            (case content of
               None \<Rightarrow> []
             | Some c \<Rightarrow>
                 let s1 = addCandidate [] (mc_symbol c);
                     s2 = addCandidate s1 (mc_symbols c)
                 in (case mc_text c of None \<Rightarrow> s2 | Some t \<Rightarrow> extractFromText s2 t))
      in if 0 < length messageSymbols then
           limitResult
             (case fallbackSymbols of
                None \<Rightarrow> messageSymbols
              | Some fs \<Rightarrow> foldl add_fallback messageSymbols fs)
             limit
         else
           limitResult
             (case fallbackSymbols of None \<Rightarrow> [] | Some fs \<Rightarrow> foldl add_fallback [] fs)
             limit)"

text \<open>Extraction from a message that carries a text and nothing else.\<close>

definition text_message :: "string \<Rightarrow> message_content" where
  "text_message text = \<lparr>mc_symbol = JUndefined, mc_symbols = JUndefined, mc_text = Some text\<rparr>"

definition symbols_of_text :: "string \<Rightarrow> string list" where
  "symbols_of_text text = collectSymbols (Some (text_message text)) None None"

text \<open>\<open>xs.join(" ")\<close>.\<close>

fun join_space :: "string list \<Rightarrow> string" where
  "join_space [] = []"
| "join_space [x] = x"
| "join_space (x # y # ys) = x @ '' '' @ join_space (y # ys)"

section \<open>Errors and loosely typed values\<close>

text \<open>
  What a \<open>throw\<close> carries, or a rejected promise: an \<open>Error\<close> object with its message, or
  any other value \<open>v\<close>, given by the string \<open>String(v)\<close>.
\<close>

datatype js_error = Error string | Thrown string

text \<open>
  The \<open>TypeError\<close> of a property read on \<open>null\<close> or \<open>undefined\<close>. The text of its message
  is the engine's.
\<close>

definition type_error :: js_error where
  "type_error = Error ''Cannot read properties of null''"

definition js_truthy :: "jsval \<Rightarrow> bool" where
  "js_truthy v =
     (case v of
        JUndefined \<Rightarrow> False
      | JNull \<Rightarrow> False
      | JBool b \<Rightarrow> b
      | JNumber x \<Rightarrow> truthy_num x
      | JString s \<Rightarrow> s \<noteq> []
      | JArray _ \<Rightarrow> True
      | JObject _ \<Rightarrow> True)"

text \<open>
  \<open>v[k]\<close> for a key \<open>k\<close> that is no array index, not \<open>length\<close> and not inherited (the keys
  read in this repository are such): a property read on \<open>null\<close> or \<open>undefined\<close> throws, an
  object gives the value of its property, and any other value gives \<open>undefined\<close>.
\<close>

definition js_get :: "jsval \<Rightarrow> string \<Rightarrow> jsval" where
  "js_get v k =
     (case v of
        JObject kvs \<Rightarrow> (case map_of kvs k of Some x \<Rightarrow> x | None \<Rightarrow> JUndefined)
      | _ \<Rightarrow> JUndefined)"

definition js_prop :: "jsval \<Rightarrow> string \<Rightarrow> js_error + jsval" where
  "js_prop v k = (if v = JNull \<or> v = JUndefined then Inl type_error else Inr (js_get v k))"

text \<open>\<open>a || b\<close>.\<close>

definition js_or :: "jsval \<Rightarrow> jsval \<Rightarrow> jsval" where
  "js_or a b = (if js_truthy a then a else b)"

text \<open>
  The decimal digits of an integer that is not negative, and of a natural number as
  \<open>String(n)\<close> writes an array index.
\<close>

function digits_of_int :: "int \<Rightarrow> string" where
  "digits_of_int n =
     (if n < 10 then [digit_chars ! nat n]
      else digits_of_int (n div 10) @ [digit_chars ! nat (n mod 10)])"
  by pat_completeness auto
termination
  by (relation "measure nat") auto

declare digits_of_int.simps [simp del]

definition digits_of_nat :: "nat \<Rightarrow> string" where
  "digits_of_nat n = digits_of_int (int n)"

text \<open>\<open>Object.entries(v)\<close> for an object or an array.\<close>

definition entries_of :: "jsval \<Rightarrow> (string \<times> jsval) list" where
  "entries_of v =
     (case v of
        JObject kvs \<Rightarrow> kvs
      | JArray xs \<Rightarrow> zip (map digits_of_nat [0..<length xs]) xs
      | _ \<Rightarrow> [])"

text \<open>
  \<open>xs.sort(compare)\<close> for a consistent comparison function: the sort is stable, so the
  result is the list sorted by insertion, an element going before the first one that it
  does not follow.
\<close>

fun sort_insert :: "('a \<Rightarrow> 'a \<Rightarrow> int) \<Rightarrow> 'a \<Rightarrow> 'a list \<Rightarrow> 'a list" where
  "sort_insert compare x [] = [x]"
| "sort_insert compare x (y # ys) =
     (if compare x y \<le> 0 then x # y # ys else y # sort_insert compare x ys)"

definition js_sort :: "('a \<Rightarrow> 'a \<Rightarrow> int) \<Rightarrow> 'a list \<Rightarrow> 'a list" where
  "js_sort compare xs = foldr (sort_insert compare) xs []"

text \<open>\<open>xs.map(f)\<close> for a callback that may throw: the first exception ends the loop.\<close>

fun map_throwing :: "('a \<Rightarrow> js_error + 'b) \<Rightarrow> 'a list \<Rightarrow> js_error + 'b list" where
  "map_throwing f [] = Inr []"
| "map_throwing f (x # xs) =
     (case f x of
        Inl e \<Rightarrow> Inl e
      | Inr y \<Rightarrow> (case map_throwing f xs of Inl e \<Rightarrow> Inl e | Inr ys \<Rightarrow> Inr (y # ys)))"

text \<open>
  The other \<open>TypeError\<close>s of this development: a call of a value that is no function, and
  the conversion to a primitive value of an object that has none. The texts of their
  messages are the engine's.
\<close>

definition not_a_function :: js_error where
  "not_a_function = Error ''is not a function''"

definition not_primitive :: js_error where
  "not_primitive = Error ''Cannot convert object to primitive value''"

text \<open>The next step of a computation that may have thrown.\<close>

definition and_then :: "js_error + 'a \<Rightarrow> ('a \<Rightarrow> js_error + 'b) \<Rightarrow> js_error + 'b" where
  "and_then r f = (case r of Inl e \<Rightarrow> Inl e | Inr x \<Rightarrow> f x)"

text \<open>\<open>a ?? b\<close>.\<close>

definition js_nullish :: "jsval \<Rightarrow> jsval \<Rightarrow> jsval" where
  "js_nullish a b = (if a = JNull \<or> a = JUndefined then b else a)"

text \<open>
  \<open>v.length === 0\<close> and \<open>v[0]\<close> for a value that is neither \<open>null\<close> nor \<open>undefined\<close>, and
  \<open>Object.keys(v).length === 0\<close>. The first element of a string is the string of its first
  character.
\<close>

definition js_length_is_0 :: "jsval \<Rightarrow> bool" where
  "js_length_is_0 v =
     (case v of
        JArray xs \<Rightarrow> xs = []
      | JString s \<Rightarrow> s = []
      | JObject kvs \<Rightarrow>
          map_of kvs ''length'' = Some (JNumber (Fin 0)) \<or>
          map_of kvs ''length'' = Some (JNumber NegZero)
      | _ \<Rightarrow> False)"

definition js_first :: "jsval \<Rightarrow> jsval" where
  "js_first v =
     (case v of
        JArray xs \<Rightarrow> (case xs of [] \<Rightarrow> JUndefined | x # _ \<Rightarrow> x)
      | JString s \<Rightarrow> (case s of [] \<Rightarrow> JUndefined | c # _ \<Rightarrow> JString [c])
      | JObject kvs \<Rightarrow> (case map_of kvs ''0'' of Some x \<Rightarrow> x | None \<Rightarrow> JUndefined)
      | _ \<Rightarrow> JUndefined)"

definition js_no_keys :: "jsval \<Rightarrow> bool" where
  "js_no_keys v =
     (case v of
        JObject kvs \<Rightarrow> kvs = []
      | JArray xs \<Rightarrow> xs = []
      | JString s \<Rightarrow> s = []
      | _ \<Rightarrow> True)"

section \<open>Providers\<close>

subsection \<open>Settings (settings.ts)\<close>

record rip2etf_settings =
  ALPHAVANTAGE_API_KEY :: string
  FMP_API_KEY :: string
  FINNHUB_API_KEY :: string
  FRED_API_KEY :: string
  DEBUG :: bool
  ENABLE_ALPHA_VANTAGE :: bool
  ENABLE_FMP :: bool
  ENABLE_FINNHUB :: bool

subsection \<open>alphaVantageDaily (providers/alphaVantage.ts)\<close>

text \<open>
  The callback of the \<open>map\<close> over the entries of the series. Reading a property of
  \<open>values\<close> throws when \<open>values\<close> is \<open>null\<close>. \<open>parseFloat\<close> is the built-in function, on
  the value read: it converts its argument to a string first, which throws for an object
  that has no primitive value. The fields are computed in the order of the source, and the
  first exception ends the callback.
\<close>

definition av_bar :: "(jsval \<Rightarrow> js_error + jsnum) \<Rightarrow> string \<times> jsval \<Rightarrow> js_error + bar" where
  "av_bar parseFloat entry =
     (case entry of (date, values) \<Rightarrow>
        and_then (js_prop values ''1. open'') (\<lambda>opened.
        and_then (parseFloat opened) (\<lambda>bo.
        and_then (parseFloat (js_get values ''2. high'')) (\<lambda>bh.
        and_then (parseFloat (js_get values ''3. low'')) (\<lambda>bl.
        and_then (parseFloat (js_get values ''4. close'')) (\<lambda>bc.
        and_then (parseFloat (js_get values ''6. volume'')) (\<lambda>bv.
          Inr \<lparr>bar_t = date, bar_o = Some bo, bar_h = Some bh, bar_l = Some bl, bar_c = bc,
               bar_v = Some bv\<rparr>)))))))"

text \<open>
  \<open>response\<close> is the outcome of \<open>getJSON(url)\<close>: \<open>Inl\<close> when the promise is rejected (the
  request fails, the status is not ok, or the body is no JSON), \<open>Inr\<close> the parsed body
  otherwise. \<open>localeCompare\<close> is the built-in comparison of strings. The result is \<open>Inl\<close>
  when the promise of \<open>alphaVantageDaily\<close> is rejected, and \<open>Inr None\<close> when it resolves to
  \<open>null\<close>. The two operands of a condition \<open>a || b\<close> are tested one after the other.
\<close>

text \<open>\<open>typeof v === "object"\<close> for a value that is not \<open>null\<close>.\<close>

definition typeof_object :: "jsval \<Rightarrow> bool" where
  "typeof_object v = (case v of JObject _ \<Rightarrow> True | JArray _ \<Rightarrow> True | _ \<Rightarrow> False)"

definition alphaVantageDaily ::
  "rip2etf_settings \<Rightarrow> (js_error + jsval) \<Rightarrow> (jsval \<Rightarrow> js_error + jsnum) \<Rightarrow>
   (string \<Rightarrow> string \<Rightarrow> int) \<Rightarrow> string \<Rightarrow> js_error + price_history option" where
  "alphaVantageDaily settings response parseFloat localeCompare symbol =
     (if \<not> ENABLE_ALPHA_VANTAGE settings then Inr None
      else if ALPHAVANTAGE_API_KEY settings = [] then Inr None
      else
        let json = (case response of
                      Inl _ \<Rightarrow> JObject []
                    | Inr j \<Rightarrow> if j = JNull \<or> j = JUndefined then JObject [] else j);
            message = (if js_truthy json
                       then js_or (js_or (js_get json ''Information'') (js_get json ''Note''))
                              (js_get json ''Error Message'')
                       else json)
        in if js_truthy message then Inr None
           else
             let series = js_get json ''Time Series (Daily)''
             in if \<not> js_truthy series then Inr None
                else if \<not> typeof_object series then Inr None
                else
                  (case map_throwing (av_bar parseFloat) (entries_of series) of
                     Inl e \<Rightarrow> Inl e
                   | Inr parsed \<Rightarrow>
                       let bars = js_sort (\<lambda>a b. localeCompare (bar_t a) (bar_t b))
                                    (filter (\<lambda>bar. isFinite (bar_c bar)) parsed)
                       in Inr (Some \<lparr>ph_symbol = symbol, ph_interval = ''1d'', ph_bars = bars,
                                    ph_adjusted = Some True, ph_dataSources = [''alphaVantage''],
                                    ph_sourceSymbol = None\<rparr>)))"

subsection \<open>stooqDaily (providers/stooq.ts)\<close>

definition toLowerCase_char :: "char \<Rightarrow> char" where
  "toLowerCase_char c =
     (case map_of (zip upper_letters lower_letters) c of Some l \<Rightarrow> l | None \<Rightarrow> c)"

text \<open>\<open>toLowerCase\<close> on ASCII text.\<close>

definition toLowerCase :: "string \<Rightarrow> string" where
  "toLowerCase s = map toLowerCase_char s"

definition SUFFIXES :: "string list" where
  "SUFFIXES = ['''', ''.us'', ''.de'', ''.uk'', ''.ln'', ''.pa'', ''.hk'', ''.jp'']"

definition explicit_variants :: "(string \<times> string list) list" where
  "explicit_variants =
     [(''voo'', [''voo.us'', ''voo'']),
      (''vwce'', [''vwce.de'', ''vwce'']),
      (''spy'', [''spy.us'', ''spy'']),
      (''iwda'', [''iwda'', ''iwda.de'', ''iwda.nl'']),
      (''qqq'', [''qqq.us'', ''qqq''])]"

text \<open>
  \<open>explicit[base]\<close> is an inherited property when \<open>base\<close> names one; that value is not
  iterable, and \<open>new Set\<close> of it throws.
\<close>

definition buildTickerVariants :: "string \<Rightarrow> js_error + string list" where
  "buildTickerVariants symbol =
     (let base = toLowerCase symbol
      in case map_of explicit_variants base of
           Some variants \<Rightarrow> Inr (array_from_set variants)
         | None \<Rightarrow>
             if base \<in> set object_prototype_keys then Inl type_error
             else Inr (array_from_set (map (\<lambda>suffix. base @ suffix) SUFFIXES)))"

text \<open>The string functions of the CSV reader.\<close>

definition startsWith :: "string \<Rightarrow> string \<Rightarrow> bool" where
  "startsWith s p = (length p \<le> length s \<and> take (length p) s = p)"

fun includes_str :: "string \<Rightarrow> string \<Rightarrow> bool" where
  "includes_str [] p = (p = [])"
| "includes_str (c # cs) p = (startsWith (c # cs) p \<or> includes_str cs p)"

text \<open>\<open>/No data/i.test(s)\<close>.\<close>

fun test_no_data :: "string \<Rightarrow> bool" where
  "test_no_data [] = False"
| "test_no_data (c # cs) = (ci_prefix ''No data'' (c # cs) \<or> test_no_data cs)"

text \<open>
  \<open>trim\<close> removes white space and line terminators at both ends; the texts are ASCII.
\<close>

definition is_space :: "char \<Rightarrow> bool" where
  "is_space c = (c \<in> set [CHR 0x09, CHR 0x0A, CHR 0x0B, CHR 0x0C, CHR 0x0D, CHR 0x20])"

definition trim :: "string \<Rightarrow> string" where
  "trim s = rev (dropWhile is_space (rev (dropWhile is_space s)))"

text \<open>\<open>s.split(sep)\<close> for a separator of one character: never the empty list.\<close>

fun split_on :: "char \<Rightarrow> string \<Rightarrow> string list" where
  "split_on sep [] = [[]]"
| "split_on sep (c # cs) =
     (if c = sep then [] # split_on sep cs
      else (case split_on sep cs of [] \<Rightarrow> [[c]] | piece # pieces \<Rightarrow> (c # piece) # pieces))"

text \<open>The element of index \<open>i\<close> of the destructured array, \<open>undefined\<close> beyond its end.\<close>

definition field_at :: "string list \<Rightarrow> nat \<Rightarrow> jsval" where
  "field_at cells i = (if i < length cells then JString (cells ! i) else JUndefined)"

definition stooq_bar :: "(jsval \<Rightarrow> jsnum) \<Rightarrow> string \<Rightarrow> bar" where
  "stooq_bar parseFloat line =
     (let cells = split_on CHR '','' line
      in \<lparr>bar_t = (case cells of [] \<Rightarrow> [] | date # _ \<Rightarrow> date),
          bar_o = Some (parseFloat (field_at cells 1)),
          bar_h = Some (parseFloat (field_at cells 2)),
          bar_l = Some (parseFloat (field_at cells 3)),
          bar_c = parseFloat (field_at cells 4),
          bar_v = (if js_truthy (field_at cells 5)
                   then Some (parseFloat (field_at cells 5)) else None)\<rparr>)"

text \<open>
  The body of the loop for one candidate, given the text that \<open>getText\<close> returned:
  \<open>None\<close> where the source says \<open>continue\<close>.
\<close>

definition stooq_parse ::
  "(jsval \<Rightarrow> jsnum) \<Rightarrow> string \<Rightarrow> string \<Rightarrow> string \<Rightarrow> price_history option" where
  "stooq_parse parseFloat symbol candidate csv =
     (if csv = [] \<or> \<not> includes_str csv ''Date'' \<or> test_no_data csv then None
      else
        (case split_on CHR 0x0A (trim csv) of
           [] \<Rightarrow> None
         | header # lines \<Rightarrow>
             if header = [] \<or> \<not> startsWith header ''Date'' then None
             else
               let bars = filter (\<lambda>bar. isFinite (bar_c bar)) (map (stooq_bar parseFloat) lines)
               in if length bars = 0 then None
                  else Some \<lparr>ph_symbol = symbol, ph_interval = ''1d'', ph_bars = bars,
                             ph_adjusted = Some False, ph_dataSources = [''stooq''],
                             ph_sourceSymbol = Some candidate\<rparr>))"

text \<open>
  The loop over the candidates. \<open>getText\<close> gives, for a candidate, the outcome of the
  request for its URL: \<open>Inl\<close> when the promise is rejected, which the loop catches.
\<close>

fun stooq_loop ::
  "(string \<Rightarrow> js_error + string) \<Rightarrow> (jsval \<Rightarrow> jsnum) \<Rightarrow> string \<Rightarrow> string list \<Rightarrow>
   price_history option" where
  "stooq_loop getText parseFloat symbol [] = None"
| "stooq_loop getText parseFloat symbol (candidate # candidates) =
     (case getText candidate of
        Inl _ \<Rightarrow> stooq_loop getText parseFloat symbol candidates
      | Inr csv \<Rightarrow>
          (case stooq_parse parseFloat symbol candidate csv of
             None \<Rightarrow> stooq_loop getText parseFloat symbol candidates
           | Some priceHistory \<Rightarrow> Some priceHistory))"

definition stooqDaily ::
  "(string \<Rightarrow> js_error + string) \<Rightarrow> (jsval \<Rightarrow> jsnum) \<Rightarrow> string \<Rightarrow>
   js_error + price_history option" where
  "stooqDaily getText parseFloat symbol =
     (case buildTickerVariants symbol of
        Inl e \<Rightarrow> Inl e
      | Inr candidates \<Rightarrow> Inr (stooq_loop getText parseFloat symbol candidates))"

subsection \<open>fmpEtfProfile and fmpEtfHoldings (providers/fmp.ts)\<close>

text \<open>
  \<open>v ? Number(v) : undefined\<close>. \<open>Number\<close> is the built-in conversion, which throws for an
  object that has no primitive value.
\<close>

definition optional_number ::
  "(jsval \<Rightarrow> js_error + jsnum) \<Rightarrow> jsval \<Rightarrow> js_error + jsnum option" where
  "optional_number Number v =
     (if js_truthy v then and_then (Number v) (\<lambda>x. Inr (Some x)) else Inr None)"

definition number_or_undefined :: "jsnum option \<Rightarrow> jsval" where
  "number_or_undefined x = (case x of None \<Rightarrow> JUndefined | Some n \<Rightarrow> JNumber n)"

text \<open>
  \<open>response\<close> is the outcome of \<open>getJSON(url)\<close>, which the \<open>catch\<close> turns into \<open>null\<close> when
  the promise is rejected. The body is meant to be an array of profiles, and nothing checks
  that it is one: \<open>response[0]\<close> is \<open>undefined\<close> for a body that is an object or a number,
  and reading \<open>companyName\<close> from it throws. The properties of the fragment are in the
  order of the source.
\<close>

definition fmpEtfProfile ::
  "rip2etf_settings \<Rightarrow> (js_error + jsval) \<Rightarrow> (jsval \<Rightarrow> js_error + jsnum) \<Rightarrow>
   js_error + fragment option" where
  "fmpEtfProfile settings response Number =
     (if \<not> ENABLE_FMP settings then Inr None
      else if FMP_API_KEY settings = [] then Inr None
      else
        let response = (case response of Inl _ \<Rightarrow> JNull | Inr j \<Rightarrow> j)
        in if \<not> js_truthy response then Inr None
           else if js_length_is_0 response then Inr None
           else
             let profile = js_first response
             in and_then (js_prop profile ''companyName'') (\<lambda>companyName.
                and_then (optional_number Number (js_get profile ''expensesRatio''))
                  (\<lambda>expenseRatio.
                and_then (optional_number Number (js_get profile ''mktCap'')) (\<lambda>aumUSD.
                  Inr (Some
                    \<lparr>frag_rest =
                       [(''name'', js_nullish (js_nullish companyName (js_get profile ''name''))
                                    (js_get profile ''symbol'')),
                        (''issuer'', js_nullish (js_get profile ''industry'') companyName),
                        (''category'', js_get profile ''sector''),
                        (''expenseRatio'', number_or_undefined expenseRatio),
                        (''inceptionDate'', js_get profile ''ipoDate''),
                        (''domicile'', js_get profile ''country''),
                        (''benchmark'', js_get profile ''exchangeShortName''),
                        (''aumUSD'', number_or_undefined aumUSD)],
                     frag_dataSources = Some [''fmp'']\<rparr>)))))"

text \<open>The fields of a \<open>Holding\<close> and of an \<open>EtfHoldings\<close>.\<close>

record holding =
  h_symbol :: jsval
  h_name :: jsval
  h_weightPct :: "jsnum option"
  h_shares :: "jsnum option"
  h_marketValueUSD :: "jsnum option"

record etf_holdings =
  eh_symbol :: string
  eh_asOf :: jsval
  eh_topHoldings :: "holding list"
  eh_allHoldings :: "holding list option"
  eh_dataSources :: "string list"

text \<open>The callback of the \<open>map\<close> over the rows: a row that is \<open>null\<close> makes it throw.\<close>

definition fmp_holding :: "(jsval \<Rightarrow> js_error + jsnum) \<Rightarrow> jsval \<Rightarrow> js_error + holding" where
  "fmp_holding Number row =
     and_then (js_prop row ''assetSymbol'') (\<lambda>assetSymbol.
     and_then (optional_number Number (js_get row ''weightPercentage'')) (\<lambda>weightPct.
     and_then (optional_number Number (js_get row ''sharesNumber'')) (\<lambda>shares.
     and_then (optional_number Number (js_get row ''marketValue'')) (\<lambda>marketValueUSD.
       Inr \<lparr>h_symbol = js_nullish (js_nullish assetSymbol (js_get row ''symbol'')) JUndefined,
            h_name = js_nullish (js_nullish (js_get row ''assetName'') (js_get row ''name''))
                       (JString []),
            h_weightPct = weightPct, h_shares = shares,
            h_marketValueUSD = marketValueUSD\<rparr>))))"

text \<open>
  Only an array has the method \<open>map\<close>: for any other body that passes the test of the
  length, \<open>data.map\<close> is no function and the call throws.
\<close>

definition fmpEtfHoldings ::
  "rip2etf_settings \<Rightarrow> (js_error + jsval) \<Rightarrow> (jsval \<Rightarrow> js_error + jsnum) \<Rightarrow> string \<Rightarrow>
   js_error + etf_holdings option" where
  "fmpEtfHoldings settings response Number symbol =
     (if \<not> ENABLE_FMP settings then Inr None
      else if FMP_API_KEY settings = [] then Inr None
      else
        let data = (case response of Inl _ \<Rightarrow> JNull | Inr j \<Rightarrow> j)
        in if \<not> js_truthy data then Inr None
           else if js_length_is_0 data then Inr None
           else
             (case data of
                JArray rows \<Rightarrow>
                  and_then (map_throwing (fmp_holding Number) rows) (\<lambda>holdings.
                    Inr (Some
                      \<lparr>eh_symbol = symbol,
                       eh_asOf = js_nullish (js_get (js_first data) ''date'') JUndefined,
                       eh_topHoldings = take 10 holdings,
                       eh_allHoldings = Some holdings,
                       eh_dataSources = [''fmp'']\<rparr>))
              | _ \<Rightarrow> Inl not_a_function))"

subsection \<open>finnhubEtfProfile (providers/finnhub.ts)\<close>

definition finnhubEtfProfile ::
  "rip2etf_settings \<Rightarrow> (js_error + jsval) \<Rightarrow> (jsval \<Rightarrow> js_error + jsnum) \<Rightarrow>
   js_error + fragment option" where
  "finnhubEtfProfile settings response Number =
     (if \<not> ENABLE_FINNHUB settings then Inr None
      else if FINNHUB_API_KEY settings = [] then Inr None
      else
        let profile = (case response of Inl _ \<Rightarrow> JNull | Inr j \<Rightarrow> j)
        in if \<not> js_truthy profile then Inr None
           else if js_no_keys profile then Inr None
           else
             and_then (optional_number Number (js_get profile ''expenseRatio''))
               (\<lambda>expenseRatio.
               Inr (Some
                 \<lparr>frag_rest =
                    [(''name'', js_nullish (js_nullish (js_get profile ''name'')
                                   (js_get profile ''displaySymbol''))
                                 (js_get profile ''symbol'')),
                     (''category'', js_get profile ''category''),
                     (''issuer'', js_nullish (js_get profile ''issuerName'')
                                    (js_get profile ''issuer'')),
                     (''expenseRatio'', number_or_undefined expenseRatio),
                     (''benchmark'', js_get profile ''benchmark'')],
                  frag_dataSources = Some [''finnhub'']\<rparr>)))"

section \<open>Numbers and strings\<close>

subsection \<open>Reading a number\<close>

definition digit_value :: "char \<Rightarrow> int option" where
  "digit_value c = map_of (zip digit_chars [0, 1, 2, 3, 4, 5, 6, 7, 8, 9]) c"

text \<open>The value of a non-empty string of decimal digits.\<close>

definition digits_value :: "string \<Rightarrow> int option" where
  "digits_value s =
     (if s = [] \<or> \<not> list_all (\<lambda>c. c \<in> set digit_chars) s then None
      else Some (foldl (\<lambda>n c. 10 * n + (case digit_value c of Some d \<Rightarrow> d | None \<Rightarrow> 0)) 0 s))"

text \<open>
  The literals \<open>digits\<close> and \<open>digits.digits\<close>, with an optional sign: the sign, the two
  strings of digits, or \<open>None\<close> for any other string.
\<close>

definition decimal_literal :: "string \<Rightarrow> (bool \<times> int \<times> int \<times> nat) option" where
  "decimal_literal s =
     (let negative = (case s of c # _ \<Rightarrow> c = CHR ''-'' | [] \<Rightarrow> False);
          body = (case s of c # cs \<Rightarrow> if c = CHR ''-'' \<or> c = CHR ''+'' then cs else s | [] \<Rightarrow> []);
          whole = takeWhile (\<lambda>c. c \<noteq> CHR ''.'') body;
          rest = dropWhile (\<lambda>c. c \<noteq> CHR ''.'') body
      in case digits_value whole of
           None \<Rightarrow> None
         | Some w \<Rightarrow>
             (case rest of
                [] \<Rightarrow> Some (negative, w, 0, 0)
              | _ # decimals \<Rightarrow>
                  (case digits_value decimals of
                     None \<Rightarrow> None
                   | Some f \<Rightarrow> Some (negative, w, f, length decimals))))"

text \<open>
  \<open>Number(s)\<close> for a string \<open>s\<close> that is such a literal: the double nearest to the
  decimal value. The result is \<open>None\<close> for the strings that this development does not
  read (white space, exponents, \<open>Infinity\<close>, hexadecimal literals, and the strings that
  give NaN).
\<close>

definition js_Number :: "string \<Rightarrow> jsnum option" where
  "js_Number s =
     (case decimal_literal s of
        None \<Rightarrow> None
      | Some (negative, w, f, k) \<Rightarrow>
          let q = of_int w + of_int f / 10 ^ k
          in Some (if q = 0 then signed_zero negative
                   else round_double (if negative then - q else q)))"

text \<open>
  \<open>parseFloat(s)\<close> for a string: white space at the start is skipped, and the longest
  prefix of the rest that is a decimal literal is read (a sign, then \<open>Infinity\<close>, or
  digits with an optional point and an optional exponent, with a digit before or after
  the point); whatever follows is ignored. The result is NaN when no prefix is a literal,
  and otherwise the double nearest to the decimal value.
\<close>

definition is_digit :: "char \<Rightarrow> bool" where
  "is_digit c = (c \<in> set digit_chars)"

definition strip_sign :: "string \<Rightarrow> bool \<times> string" where
  "strip_sign s =
     (case s of
        [] \<Rightarrow> (False, [])
      | c # cs \<Rightarrow>
          if c = CHR ''-'' then (True, cs) else if c = CHR ''+'' then (False, cs) else (False, s))"

text \<open>The value of a string of decimal digits, 0 for the empty one.\<close>

definition digits_int :: "string \<Rightarrow> int" where
  "digits_int s = foldl (\<lambda>n c. 10 * n + (case digit_value c of Some d \<Rightarrow> d | None \<Rightarrow> 0)) 0 s"

definition pow10 :: "int \<Rightarrow> rat" where
  "pow10 e = (if 0 \<le> e then 10 ^ nat e else 1 / 10 ^ nat (- e))"

text \<open>
  The exponent part at the start of a text, \<open>e\<close> or \<open>E\<close> with a signed integer: its value,
  and 0 when the text does not start with one.
\<close>

definition exponent_of :: "string \<Rightarrow> int" where
  "exponent_of s =
     (case s of
        [] \<Rightarrow> 0
      | c # cs \<Rightarrow>
          if c = CHR ''e'' \<or> c = CHR ''E'' then
            (case strip_sign cs of
               (negative, ds) \<Rightarrow>
                 let digits = takeWhile is_digit ds
                 in if digits = [] then 0
                    else if negative then - digits_int digits else digits_int digits)
          else 0)"

definition parseFloat_text :: "string \<Rightarrow> jsnum" where
  "parseFloat_text s =
     (case strip_sign (dropWhile is_space s) of
        (negative, u) \<Rightarrow>
          if startsWith u ''Infinity'' then signed_inf negative
          else
            let whole = takeWhile is_digit u;
                r1 = dropWhile is_digit u;
                decimals = (case r1 of
                              [] \<Rightarrow> []
                            | c # cs \<Rightarrow> if c = CHR ''.'' then takeWhile is_digit cs else []);
                r2 = (case r1 of
                        [] \<Rightarrow> []
                      | c # cs \<Rightarrow> if c = CHR ''.'' then dropWhile is_digit cs else r1)
            in if whole = [] \<and> decimals = [] then NaN
               else
                 let q = (of_int (digits_int whole)
                          + of_int (digits_int decimals) / 10 ^ length decimals)
                         * pow10 (exponent_of r2)
                 in if q = 0 then signed_zero negative
                    else round_double (if negative then - q else q))"

text \<open>
  \<open>parseFloat(v)\<close> for a string or \<open>undefined\<close>, which is what the cells of a CSV row are:
  \<open>undefined\<close> is read as the text \<open>undefined\<close> and gives NaN.
\<close>

definition parseFloat_plain :: "jsval \<Rightarrow> jsnum" where
  "parseFloat_plain v =
     (case v of
        JString s \<Rightarrow> parseFloat_text s
      | _ \<Rightarrow> NaN)"

subsection \<open>Writing a number\<close>

text \<open>
  \<open>x.toFixed(f)\<close>. A value that is not finite is written by name. Otherwise the integer
  \<open>n\<close> nearest to \<open>x * 10 ^ f\<close> in absolute value is written, the larger one of two, with
  \<open>f\<close> digits after the point and the sign of \<open>x\<close>. The result is \<open>None\<close> from \<open>10 ^ 21\<close> on,
  where the source's function switches to the exponent notation.
\<close>

definition fixed_digits :: "nat \<Rightarrow> rat \<Rightarrow> string" where
  "fixed_digits f a =
     (let n = \<lfloor>a * 10 ^ f + 1 / 2\<rfloor>;
          m = digits_of_int n;
          padded = (if length m \<le> f then replicate (f + 1 - length m) CHR ''0'' @ m else m);
          k = length padded
      in if f = 0 then m else take (k - f) padded @ ''.'' @ drop (k - f) padded)"

definition toFixed :: "jsnum \<Rightarrow> nat \<Rightarrow> string option" where
  "toFixed x f =
     (case x of
        NaN \<Rightarrow> Some ''NaN''
      | PInf \<Rightarrow> Some ''Infinity''
      | NInf \<Rightarrow> Some ''-Infinity''
      | NegZero \<Rightarrow> Some (fixed_digits f 0)
      | Fin r \<Rightarrow>
          if 10 ^ 21 \<le> \<bar>r\<bar> then None
          else Some ((if r < 0 then ''-'' else []) @ fixed_digits f \<bar>r\<bar>))"

text \<open>
  \<open>x.toFixed(f)\<close> for every number: from \<open>10 ^ 21\<close> on the result is that of the
  conversion of the number to a string, \<open>numberToString\<close>, which is the built-in one.
\<close>

definition js_toFixed :: "(jsnum \<Rightarrow> string) \<Rightarrow> jsnum \<Rightarrow> nat \<Rightarrow> string" where
  "js_toFixed numberToString x f =
     (case toFixed x f of Some s \<Rightarrow> s | None \<Rightarrow> numberToString x)"

subsection \<open>Conversions of loosely typed values\<close>

text \<open>\<open>xs.join(sep)\<close> for an array of strings.\<close>

fun join_with :: "string \<Rightarrow> string list \<Rightarrow> string" where
  "join_with sep [] = []"
| "join_with sep [x] = x"
| "join_with sep (x # y # ys) = x @ sep @ join_with sep (y # ys)"

text \<open>
  The conversion of a value to a string, as a template literal and \<open>parseFloat\<close> apply it.
  The values are those of a parsed JSON text, so no property is a function: an array is
  converted by \<open>join\<close>, which writes \<open>null\<close> and \<open>undefined\<close> as the empty string; an
  object with no property \<open>toString\<close> of its own inherits the method that gives
  \<open>[object Object]\<close>; an object with such a property has no primitive value, and the
  conversion throws.
\<close>

fun js_ToString :: "(jsnum \<Rightarrow> string) \<Rightarrow> jsval \<Rightarrow> js_error + string"
  and js_join :: "(jsnum \<Rightarrow> string) \<Rightarrow> jsval list \<Rightarrow> js_error + string" where
  "js_ToString numberToString JUndefined = Inr ''undefined''"
| "js_ToString numberToString JNull = Inr ''null''"
| "js_ToString numberToString (JBool b) = Inr (if b then ''true'' else ''false'')"
| "js_ToString numberToString (JNumber x) = Inr (numberToString x)"
| "js_ToString numberToString (JString s) = Inr s"
| "js_ToString numberToString (JArray xs) = js_join numberToString xs"
| "js_ToString numberToString (JObject kvs) =
     (if ''toString'' \<in> set (map fst kvs) then Inl not_primitive else Inr ''[object Object]'')"
| "js_join numberToString [] = Inr []"
| "js_join numberToString (x # xs) =
     (case (if x = JUndefined \<or> x = JNull then Inr [] else js_ToString numberToString x) of
        Inl e \<Rightarrow> Inl e
      | Inr s \<Rightarrow>
          (case xs of
             [] \<Rightarrow> Inr s
           | _ # _ \<Rightarrow>
               (case js_join numberToString xs of
                  Inl e \<Rightarrow> Inl e
                | Inr rest \<Rightarrow> Inr (s @ '','' @ rest))))"

text \<open>
  \<open>parseFloat(v)\<close> and \<open>Number(v)\<close>. \<open>stringToNumber\<close> is the built-in conversion of a
  string to a number. An array or an object is converted to a string first.
\<close>

definition js_parseFloat :: "(jsnum \<Rightarrow> string) \<Rightarrow> jsval \<Rightarrow> js_error + jsnum" where
  "js_parseFloat numberToString v =
     and_then (js_ToString numberToString v) (\<lambda>s. Inr (parseFloat_text s))"

definition js_ToNumber ::
  "(jsnum \<Rightarrow> string) \<Rightarrow> (string \<Rightarrow> jsnum) \<Rightarrow> jsval \<Rightarrow> js_error + jsnum" where
  "js_ToNumber numberToString stringToNumber v =
     (case v of
        JUndefined \<Rightarrow> Inr NaN
      | JNull \<Rightarrow> Inr (Fin 0)
      | JBool b \<Rightarrow> Inr (Fin (if b then 1 else 0))
      | JNumber x \<Rightarrow> Inr x
      | JString s \<Rightarrow> Inr (stringToNumber s)
      | _ \<Rightarrow> and_then (js_ToString numberToString v) (\<lambda>s. Inr (stringToNumber s)))"

text \<open>The comparison \<open>x >= y\<close> of numbers.\<close>

definition js_ge :: "jsnum \<Rightarrow> jsnum \<Rightarrow> bool" where
  "js_ge x y =
     (if x = NaN \<or> y = NaN then False
      else if x = PInf \<or> y = NInf then True
      else if x = NInf \<or> y = PInf then False
      else num_val y \<le> num_val x)"

section \<open>The snapshot action (actions/snapshot.ts)\<close>

subsection \<open>Messages, results and state\<close>

text \<open>
  The parts of a message that the action reads: \<open>role\<close> and \<open>author\<close> are those of the
  content (\<open>undefined\<close> when there is none), \<open>source\<close> and \<open>tags\<close> those of the metadata.
  An absent \<open>roomId\<close>, content or \<open>source\<close> is \<open>None\<close>.
\<close>

record snapshot_message =
  msg_entityId :: string
  msg_roomId :: "string option"
  msg_content :: "message_content option"
  msg_role :: jsval
  msg_author :: jsval
  msg_source :: "string option"
  msg_tags :: jsval

text \<open>The attachment of a chart; \<open>IMAGE\<close> is the member of the host's \<open>ContentType\<close>.\<close>

datatype content_type = IMAGE

record media =
  md_id :: string
  md_url :: string
  md_data :: string
  md_filename :: string
  md_mimeType :: string
  md_title :: string
  md_description :: string
  md_source :: string
  md_contentType :: content_type

text \<open>
  What a successful result tells about the snapshot: the object \<open>snapshotPayload\<close>, whose
  fields are also those of \<open>data\<close>, there with the names \<open>symbol\<close> and \<open>compareWith\<close> for
  the first two.
\<close>

record snapshot_payload =
  sp_primarySymbol :: string
  sp_compareSymbols :: "string list"
  sp_overview :: etf_overview
  sp_holdings :: "etf_holdings option"
  sp_chartUrl :: "string option"
  sp_chartAttached :: bool
  sp_priceSources :: "string list"
  sp_summary :: string

text \<open>
  The \<open>data\<close> of a result: besides \<open>actionName\<close>, which is \<open>rip2etf.snapshot\<close> in every
  result, it has a \<open>reason\<close>, an \<open>error\<close>, or the fields of a snapshot.
\<close>

datatype result_data =
    Data_reason string
  | Data_error string
  | Data_snapshot snapshot_payload

record snapshot_values =
  sv_primarySymbol :: string
  sv_compareSymbols :: "string list"
  sv_priceSources :: "string list"
  sv_snapshotSummary :: string
  sv_snapshotData :: snapshot_payload
  sv_snapshotAttachments :: "media list"
  sv_pendingAttachments :: "media list"

record action_result =
  ar_text :: "string option"
  ar_success :: bool
  ar_data :: result_data
  ar_values :: "snapshot_values option"

text \<open>
  The state: \<open>state.values.__snapshotCache\<close>, \<open>None\<close> when it is absent, and whatever else
  the host keeps in the state. A key of the cache contains a colon, so no lookup meets an
  inherited property.
\<close>

record snapshot_state =
  st_snapshotCache :: "(string \<rightharpoonup> action_result) option"
  st_host :: "(string \<times> jsval) list"

subsection \<open>Charts (utils/charts.ts)\<close>

record chart_dataset =
  cd_label :: string
  cd_data :: "jsnum option list"
  cd_borderColor :: "string option"
  cd_backgroundColor :: "string option"

text \<open>
  The configuration of a line chart: the labels, the datasets with their colours, and the
  title. The other options are the same for every chart.
\<close>

record styled_dataset =
  sd_label :: string
  sd_data :: "jsnum option list"
  sd_borderColor :: string
  sd_backgroundColor :: string

record chart_config =
  cc_labels :: "string list"
  cc_datasets :: "styled_dataset list"
  cc_title :: string

record chart_result =
  cr_chartUrl :: string
  cr_config :: chart_config
  cr_mimeType :: string
  cr_buffer :: string
  cr_fileName :: string

definition palette :: "string list" where
  "palette =
     [''#1f78b4'', ''#33a02c'', ''#e31a1c'', ''#ff7f00'', ''#6a3d9a'', ''#b15928'', ''#a6cee3'',
      ''#b2df8a'']"

definition buildLineChartConfig :: "string list \<Rightarrow> chart_dataset list \<Rightarrow> string \<Rightarrow> chart_config" where
  "buildLineChartConfig labels datasets title =
     \<lparr>cc_labels = labels,
      cc_datasets =
        map (\<lambda>(index, dataset).
               let color = (case cd_borderColor dataset of
                              Some c \<Rightarrow> c
                            | None \<Rightarrow> palette ! (index mod length palette))
               in \<lparr>sd_label = cd_label dataset, sd_data = cd_data dataset,
                   sd_borderColor = color,
                   sd_backgroundColor = (case cd_backgroundColor dataset of
                                           Some c \<Rightarrow> c
                                         | None \<Rightarrow> color)\<rparr>)
          (zip [0..<length datasets] datasets),
      cc_title = title\<rparr>"

subsection \<open>The environment\<close>

text \<open>
  What the action takes from outside.

  \<^item> The settings, the id of the agent, and the host's \<open>ensureCorrelationId\<close>, which gives
    the correlation id of a state and a message and may write to the state.

  \<^item> The network: for a symbol, the outcome of \<open>getJSON\<close> on the URL of each provider, and
    for a candidate of Stooq the outcome of \<open>getText\<close>; \<open>Inl\<close> when the promise is
    rejected. During one invocation a request has one outcome.

  \<^item> The tables of \<open>data/manual\<close>, which are not among the sources.

  \<^item> The built-in conversions between numbers and strings and the comparison of strings.

  \<^item> The drawing of a chart by the libraries \<open>canvas\<close> and \<open>chart.js\<close>, which gives the bytes
    of a PNG image or throws; the base64 encoding of a buffer; and the clock: \<open>env_now 0\<close>
    is the value that \<open>Date.now()\<close> gives to \<open>createLineChartImage\<close>, and \<open>env_now 1\<close> the
    one it gives to \<open>buildSnapshot\<close> after that.

  The logging calls have no part in any result.
\<close>

record environment =
  env_settings :: rip2etf_settings
  env_agentId :: string
  env_ensureCorrelationId :: "snapshot_state \<Rightarrow> snapshot_message \<Rightarrow> string \<times> snapshot_state"
  env_fmpProfile :: "string \<Rightarrow> js_error + jsval"
  env_finnhubProfile :: "string \<Rightarrow> js_error + jsval"
  env_fmpHoldings :: "string \<Rightarrow> js_error + jsval"
  env_alphaVantage :: "string \<Rightarrow> js_error + jsval"
  env_stooq :: "string \<Rightarrow> js_error + string"
  env_manualOverview :: "string \<Rightarrow> fragment option"
  env_manualHoldings :: "string \<Rightarrow> etf_holdings option"
  env_numberToString :: "jsnum \<Rightarrow> string"
  env_stringToNumber :: "string \<Rightarrow> jsnum"
  env_localeCompare :: "string \<Rightarrow> string \<Rightarrow> int"
  env_drawChart :: "chart_config \<Rightarrow> js_error + string"
  env_base64 :: "string \<Rightarrow> string"
  env_now :: "nat \<Rightarrow> nat"

definition env_parseFloat :: "environment \<Rightarrow> jsval \<Rightarrow> js_error + jsnum" where
  "env_parseFloat env = js_parseFloat (env_numberToString env)"

definition env_Number :: "environment \<Rightarrow> jsval \<Rightarrow> js_error + jsnum" where
  "env_Number env = js_ToNumber (env_numberToString env) (env_stringToNumber env)"

text \<open>\<open>createLineChartImage\<close>: the clock names the file.\<close>

definition createLineChartImage ::
  "environment \<Rightarrow> string list \<Rightarrow> chart_dataset list \<Rightarrow> string \<Rightarrow> js_error + chart_result" where
  "createLineChartImage env labels datasets title =
     (let config = buildLineChartConfig labels datasets title
      in and_then (env_drawChart env config) (\<lambda>buffer.
           let mimeType = ''image/png''
           in Inr \<lparr>cr_chartUrl = ''data:'' @ mimeType @ '';base64,'' @ env_base64 env buffer,
                   cr_config = config,
                   cr_mimeType = mimeType,
                   cr_buffer = buffer,
                   cr_fileName = ''rip2etf-chart-'' @ digits_of_nat (env_now env 0) @ ''.png''\<rparr>))"

subsection \<open>Formatting\<close>

text \<open>
  \<open>value\<close> is a field of the overview, \<open>undefined\<close> when it is absent. \<open>Number.isNaN\<close> holds
  of the number NaN only. A value that is no number is converted to one by the comparisons
  and by the division, and has no method \<open>toFixed\<close>.
\<close>

definition formatCurrency ::
  "(jsnum \<Rightarrow> string) \<Rightarrow> (string \<Rightarrow> jsnum) \<Rightarrow> jsval \<Rightarrow> js_error + string" where
  "formatCurrency numberToString stringToNumber value =
     (if value = JUndefined \<or> value = JNumber NaN then Inr ''n/d''
      else
        and_then (js_ToNumber numberToString stringToNumber value) (\<lambda>n.
          if js_ge n (Fin 1000000000)
            then Inr (js_toFixed numberToString (js_div n (Fin 1000000000)) 1 @ ''B$'')
          else if js_ge n (Fin 1000000)
            then Inr (js_toFixed numberToString (js_div n (Fin 1000000)) 1 @ ''M$'')
          else
            (case value of
               JNumber x \<Rightarrow> Inr (js_toFixed numberToString x 0 @ ''$'')
             | JNull \<Rightarrow> Inl type_error
             | _ \<Rightarrow> Inl not_a_function)))"

definition formatPercent :: "(jsnum \<Rightarrow> string) \<Rightarrow> jsval \<Rightarrow> js_error + string" where
  "formatPercent numberToString value =
     (if value = JUndefined \<or> value = JNumber NaN then Inr ''n/d''
      else
        (case value of
           JNumber x \<Rightarrow> Inr (js_toFixed numberToString x 2 @ ''%'')
         | JNull \<Rightarrow> Inl type_error
         | _ \<Rightarrow> Inl not_a_function))"

text \<open>
  \<open>pickTop\<close>, called with the default \<open>top = 5\<close>: the name of a holding is written by a
  template literal, which converts it to a string.
\<close>

definition top_line :: "(jsnum \<Rightarrow> string) \<Rightarrow> nat \<times> holding \<Rightarrow> js_error + string" where
  "top_line numberToString entry =
     (case entry of (idx, h) \<Rightarrow>
        and_then (js_ToString numberToString (h_name h)) (\<lambda>name.
          Inr (digits_of_nat (idx + 1) @ ''. '' @ name @
               (case h_weightPct h of
                  None \<Rightarrow> []
                | Some w \<Rightarrow>
                    if truthy_num w then '' ('' @ js_toFixed numberToString w 2 @ ''%)''
                    else []))))"

definition pickTop :: "(jsnum \<Rightarrow> string) \<Rightarrow> holding list \<Rightarrow> js_error + string" where
  "pickTop numberToString holdings =
     (let named = take 5 (filter (\<lambda>h. js_truthy (h_name h)) holdings)
      in and_then (map_throwing (top_line numberToString) (zip [0..<length named] named))
           (\<lambda>lines. Inr (join_with [CHR 0x0A] lines)))"

text \<open>A field of the merged overview, \<open>undefined\<close> when it is absent.\<close>

definition overview_field :: "etf_overview \<Rightarrow> string \<Rightarrow> jsval" where
  "overview_field overview k = (case ov_fields overview k of None \<Rightarrow> JUndefined | Some v \<Rightarrow> v)"

definition hasOverviewData :: "etf_overview \<Rightarrow> bool" where
  "hasOverviewData overview =
     (js_truthy (overview_field overview ''issuer'') \<or>
      js_truthy (overview_field overview ''category'') \<or>
      js_truthy (overview_field overview ''benchmark'') \<or>
      overview_field overview ''expenseRatio'' \<noteq> JUndefined \<or>
      overview_field overview ''aumUSD'' \<noteq> JUndefined \<or>
      overview_field overview ''navUSD'' \<noteq> JUndefined \<or>
      js_truthy (overview_field overview ''name''))"

definition hasHoldingsData :: "etf_holdings option \<Rightarrow> bool" where
  "hasHoldingsData holdings =
     (case holdings of None \<Rightarrow> False | Some h \<Rightarrow> 0 < length (eh_topHoldings h))"

definition hasHistoryData :: "price_history option \<Rightarrow> bool" where
  "hasHistoryData history =
     (case history of None \<Rightarrow> False | Some h \<Rightarrow> 0 < length (ph_bars h))"

subsection \<open>isAgentMessage\<close>

definition isAgentMessage :: "string \<Rightarrow> snapshot_message \<Rightarrow> bool" where
  "isAgentMessage agentId message =
     (if agentId \<noteq> [] \<and> msg_entityId message = agentId then True
      else if (case msg_role message of
                 JString role \<Rightarrow> toLowerCase role = ''assistant''
               | _ \<Rightarrow> False) then True
      else if (case msg_author message of
                 JObject kvs \<Rightarrow> map_of kvs ''id'' = Some (JString agentId)
               | _ \<Rightarrow> False) then True
      else if (case msg_source message of
                 None \<Rightarrow> False
               | Some sourceTag \<Rightarrow> sourceTag \<noteq> [] \<and> startsWith sourceTag ''rip2etf.snapshot'')
        then True
      else if (case msg_tags message of
                 JArray tags \<Rightarrow>
                   list_ex (\<lambda>tag. case tag of JString s \<Rightarrow> includes_str s ''agent'' | _ \<Rightarrow> False) tags
               | _ \<Rightarrow> False) then True
      else False)"

subsection \<open>fetchSymbolDataset\<close>

record symbol_dataset =
  ds_overview :: etf_overview
  ds_holdings :: "etf_holdings option"
  ds_history :: "price_history option"

text \<open>
  The two profiles are requested together, and \<open>Promise.all\<close> is rejected when either
  promise is; the holdings and the histories follow one after the other. Stooq is asked
  when the history of Alpha Vantage is \<open>null\<close> or has no bar. \<open>corrId\<close> only labels the log
  lines of \<open>stooqDaily\<close>. The result is \<open>Inl\<close> when the promise is rejected.
\<close>

definition fetchSymbolDataset :: "environment \<Rightarrow> string \<Rightarrow> string \<Rightarrow> js_error + symbol_dataset" where
  "fetchSymbolDataset env symbol corrId =
     and_then (fmpEtfProfile (env_settings env) (env_fmpProfile env symbol) (env_Number env))
       (\<lambda>overviewPrimary.
     and_then (finnhubEtfProfile (env_settings env) (env_finnhubProfile env symbol)
                 (env_Number env))
       (\<lambda>overviewExtra.
       let overview = reconcileOverview symbol
                        [overviewPrimary, overviewExtra, env_manualOverview env symbol]
       in and_then (fmpEtfHoldings (env_settings env) (env_fmpHoldings env symbol)
                      (env_Number env) symbol)
            (\<lambda>fromFmp.
            let holdings = (case fromFmp of
                              Some h \<Rightarrow> Some h
                            | None \<Rightarrow> env_manualHoldings env symbol)
            in and_then (alphaVantageDaily (env_settings env) (env_alphaVantage env symbol)
                           (env_parseFloat env) (env_localeCompare env) symbol)
                 (\<lambda>fromAlphaVantage.
                 and_then
                   (if (case fromAlphaVantage of
                          None \<Rightarrow> True
                        | Some ph \<Rightarrow> length (ph_bars ph) = 0)
                    then stooqDaily (env_stooq env) parseFloat_plain symbol
                    else Inr fromAlphaVantage)
                   (\<lambda>history.
                      Inr \<lparr>ds_overview = overview, ds_holdings = holdings,
                           ds_history = history\<rparr>)))))"

subsection \<open>buildSnapshot\<close>

text \<open>
  The loop that fills \<open>symbolDataMap\<close>: the \<open>catch\<close> leaves a candidate whose fetch has
  thrown without an entry.
\<close>

fun fetch_datasets ::
  "(string \<Rightarrow> js_error + 'd) \<Rightarrow> (string \<rightharpoonup> 'd) \<Rightarrow> string list \<Rightarrow> (string \<rightharpoonup> 'd)" where
  "fetch_datasets fetchDataset symbolDataMap [] = symbolDataMap"
| "fetch_datasets fetchDataset symbolDataMap (candidate # candidates) =
     (case fetchDataset candidate of
        Inl _ \<Rightarrow> fetch_datasets fetchDataset symbolDataMap candidates
      | Inr dataset \<Rightarrow>
          fetch_datasets fetchDataset (symbolDataMap(candidate \<mapsto> dataset)) candidates)"

definition missing_symbol_result :: action_result where
  "missing_symbol_result =
     \<lparr>ar_text = Some (''Non ho trovato ticker validi nel messaggio. Indica almeno un simbolo '' @
                       ''ETF (es. VOO) e riprovo.''),
      ar_success = False, ar_data = Data_reason ''missing_symbol'', ar_values = None\<rparr>"

definition no_data_result :: action_result where
  "no_data_result =
     \<lparr>ar_text = Some (''Non sono riuscito a trovare dati affidabili per i simboli indicati. '' @
                       ''Controlla i ticker (es. VOO, VWCE) e riprova.''),
      ar_success = False, ar_data = Data_error ''no_data_for_symbols'', ar_values = None\<rparr>"

text \<open>The candidates: the symbols collected from the message, at most six.\<close>

definition snapshot_candidates :: "snapshot_message \<Rightarrow> string list" where
  "snapshot_candidates message =
     array_from_set
       (filter (\<lambda>s. s \<noteq> [])
          (map (\<lambda>symbol. toUpperCase (trim symbol))
             (collectSymbols (msg_content message) None (Some 6))))"

text \<open>The test of the loop that chooses the primary symbol.\<close>

definition has_data :: "(string \<rightharpoonup> symbol_dataset) \<Rightarrow> string \<Rightarrow> bool" where
  "has_data symbolDataMap candidate =
     (case symbolDataMap candidate of
        None \<Rightarrow> False
      | Some dataset \<Rightarrow>
          hasOverviewData (ds_overview dataset) \<or> hasHoldingsData (ds_holdings dataset) \<or>
          hasHistoryData (ds_history dataset))"

text \<open>\<open>symbolDataMap.get(symbol)?.history\<close>.\<close>

definition history_of :: "(string \<rightharpoonup> symbol_dataset) \<Rightarrow> string \<Rightarrow> price_history option" where
  "history_of symbolDataMap symbol =
     (case symbolDataMap symbol of None \<Rightarrow> None | Some dataset \<Rightarrow> ds_history dataset)"

text \<open>\<open>xs.slice(-n)\<close>: the last \<open>n\<close> elements.\<close>

definition last_n :: "nat \<Rightarrow> 'a list \<Rightarrow> 'a list" where
  "last_n n xs = drop (length xs - n) xs"

definition MAX_HISTORY_POINTS :: nat where
  "MAX_HISTORY_POINTS = 180"

definition MAX_COMPARISONS :: nat where
  "MAX_COMPARISONS = 4"

text \<open>A value of a dataset of the chart, and an entry of \<open>latestRow\<close>.\<close>

definition chart_value :: "environment \<Rightarrow> point \<Rightarrow> jsnum option" where
  "chart_value env p =
     (if isFinite (pt_v p)
      then Some (env_stringToNumber env (js_toFixed (env_numberToString env) (pt_v p) 2))
      else None)"

definition latest_entry :: "environment \<Rightarrow> compare_series \<Rightarrow> string" where
  "latest_entry env series =
     cs_symbol series @ '': '' @
     (case find (\<lambda>p. isFinite (pt_v p)) (rev (cs_points series)) of
        Some lastValid \<Rightarrow> js_toFixed (env_numberToString env) (pt_v lastValid) 1
      | None \<Rightarrow> ''n/d'')"

text \<open>\<open>${v ?? "n/d"}\<close> for a field of the overview.\<close>

definition field_text :: "environment \<Rightarrow> jsval \<Rightarrow> js_error + string" where
  "field_text env v = js_ToString (env_numberToString env) (js_nullish v (JString ''n/d''))"

text \<open>
  The part of \<open>buildSnapshot\<close> that follows the choice of the primary symbol. The chart is
  drawn first, then the lines of the text are written in order, and the first exception
  ends the function. The empty sections do not reach the text. The dump of the chart for
  debugging writes a file and log lines, and has no part in the result.
\<close>

definition render_snapshot ::
  "environment \<Rightarrow> string list \<Rightarrow> (string \<rightharpoonup> symbol_dataset) \<Rightarrow> string \<Rightarrow> symbol_dataset \<Rightarrow>
   js_error + action_result" where
  "render_snapshot env candidates symbolDataMap primarySymbol primaryData =
     (let compareSymbols =
            take MAX_COMPARISONS
              (filter (\<lambda>symbol. symbol \<noteq> primarySymbol \<and>
                                hasHistoryData (history_of symbolDataMap symbol))
                 candidates);
          peers = primarySymbol # compareSymbols;
          histories =
            List.map_filter
              (\<lambda>symbol. case history_of symbolDataMap symbol of
                           None \<Rightarrow> None
                         | Some history \<Rightarrow>
                             if 0 < length (ph_bars history) then Some history else None)
              peers;
          rebased = (if 0 < length histories then alignAndRebase histories
                     else \<lparr>rb_dates = [], rb_table = [], rb_sources = []\<rparr>);
          sources = rb_sources rebased;
          limitedDates = last_n MAX_HISTORY_POINTS (rb_dates rebased);
          limitedTable =
            map (\<lambda>series. \<lparr>cs_symbol = cs_symbol series,
                            cs_points = last_n MAX_HISTORY_POINTS (cs_points series)\<rparr>)
              (rb_table rebased);
          datasets =
            map (\<lambda>series. \<lparr>cd_label = cs_symbol series,
                            cd_data = map (chart_value env) (cs_points series),
                            cd_borderColor = None, cd_backgroundColor = None\<rparr>)
              limitedTable;
          hasChartDataset =
            (1 < length limitedDates \<and>
             list_ex (\<lambda>series. list_ex (\<lambda>v. v \<noteq> None) (cd_data series)) datasets);
          days = digits_of_nat (length limitedDates);
          chartTitle = ''Andamento ultimi '' @ days @ '' giorni''
      in and_then
           (if hasChartDataset
            then and_then (createLineChartImage env limitedDates datasets chartTitle)
                   (\<lambda>chart. Inr (Some chart))
            else Inr None)
           (\<lambda>chartResult.
           let chartAttachment =
                 (case chartResult of
                    None \<Rightarrow> None
                  | Some chart \<Rightarrow>
                      Some \<lparr>md_id = ''rip2etf-chart-'' @ primarySymbol @ ''-'' @
                                     digits_of_nat (env_now env 1),
                            md_url = (if startsWith (cr_chartUrl chart) ''data:''
                                      then cr_fileName chart else cr_chartUrl chart),
                            md_data = cr_buffer chart,
                            md_filename = cr_fileName chart,
                            md_mimeType = cr_mimeType chart,
                            md_title = chartTitle,
                            md_description = ''Performance rebased 100 ('' @ days @ '' giorni)'',
                            md_source = ''rip2etf.snapshot'',
                            md_contentType = IMAGE\<rparr>);
               latestRow = map (latest_entry env) limitedTable;
               overview = ds_overview primaryData
           in and_then (field_text env (overview_field overview ''issuer'')) (\<lambda>issuer.
              and_then (field_text env (overview_field overview ''category'')) (\<lambda>category.
              and_then (field_text env (overview_field overview ''benchmark'')) (\<lambda>benchmark.
              and_then (formatPercent (env_numberToString env)
                          (overview_field overview ''expenseRatio'')) (\<lambda>ter.
              and_then (formatCurrency (env_numberToString env) (env_stringToNumber env)
                          (overview_field overview ''aumUSD'')) (\<lambda>aum.
              and_then (formatCurrency (env_numberToString env) (env_stringToNumber env)
                          (overview_field overview ''navUSD'')) (\<lambda>nav.
              and_then (field_text env (overview_field overview ''lastCloseDate''))
                (\<lambda>lastCloseDate.
              and_then
                (case ds_holdings primaryData of
                   None \<Rightarrow> Inr []
                 | Some holdings \<Rightarrow>
                     if hasHoldingsData (ds_holdings primaryData)
                     then and_then (pickTop (env_numberToString env) (eh_topHoldings holdings))
                            (\<lambda>listed. Inr ['''', ''Top holdings:'' @ [CHR 0x0A] @ listed])
                     else Inr [])
                (\<lambda>holdingsSections.
                let responseSections =
                      [''**'' @ primarySymbol @ '' '' @ [CHR 0xC2, CHR 0xB7] @ '' snapshot dati**'',
                       ''- Issuer: '' @ issuer,
                       ''- Categoria: '' @ category,
                       ''- Benchmark: '' @ benchmark,
                       ''- TER: '' @ ter,
                       ''- AUM: '' @ aum,
                       ''- NAV: '' @ nav @ '' (ultimo close '' @ lastCloseDate @ '')'']
                      @ holdingsSections
                      @ (if 0 < length limitedTable
                         then ['''',
                               ''Performance rebased 100 ('' @ days @ '' giorni):'',
                               join_with '' | '' latestRow,
                               (if 0 < length sources
                                then ''Fonti prezzo: '' @ join_with '', '' sources else '''')]
                         else [])
                      @ (if 0 < length compareSymbols
                         then ['''', ''Confronto con: '' @ join_with '', '' compareSymbols]
                         else [])
                      @ (if chartAttachment \<noteq> None
                         then ['''', ''Grafico Chart.js allegato in coda.'']
                         else []);
                    responseText =
                      join_with [CHR 0x0A] (filter (\<lambda>s. s \<noteq> []) responseSections);
                    snapshotPayload =
                      \<lparr>sp_primarySymbol = primarySymbol,
                       sp_compareSymbols = compareSymbols,
                       sp_overview = overview,
                       sp_holdings = ds_holdings primaryData,
                       sp_chartUrl = map_option cr_chartUrl chartResult,
                       sp_chartAttached = (chartAttachment \<noteq> None),
                       sp_priceSources = sources,
                       sp_summary = responseText\<rparr>;
                    snapshotAttachments = (case chartAttachment of None \<Rightarrow> [] | Some a \<Rightarrow> [a])
                in Inr \<lparr>ar_text = Some responseText,
                        ar_success = True,
                        ar_data = Data_snapshot snapshotPayload,
                        ar_values =
                          Some \<lparr>sv_primarySymbol = primarySymbol,
                                sv_compareSymbols = compareSymbols,
                                sv_priceSources = sources,
                                sv_snapshotSummary = responseText,
                                sv_snapshotData = snapshotPayload,
                                sv_snapshotAttachments = snapshotAttachments,
                                sv_pendingAttachments = snapshotAttachments\<rparr>\<rparr>))))))))))"

text \<open>
  \<open>buildSnapshot\<close>, for a message and its correlation id. The result is \<open>Inl\<close> when the
  promise is rejected. The primary symbol has an entry in \<open>symbolDataMap\<close>, since the test
  that chooses it holds of no symbol without one.
\<close>

definition buildSnapshot :: "environment \<Rightarrow> snapshot_message \<Rightarrow> string \<Rightarrow> js_error + action_result" where
  "buildSnapshot env message corrId =
     (let candidates = snapshot_candidates message
      in if length candidates = 0 then Inr missing_symbol_result
         else
           let symbolDataMap =
                 fetch_datasets (\<lambda>candidate. fetchSymbolDataset env candidate corrId)
                   Map.empty candidates
           in (case find (has_data symbolDataMap) candidates of
                 None \<Rightarrow> Inr no_data_result
               | Some primarySymbol \<Rightarrow>
                   (case symbolDataMap primarySymbol of
                      None \<Rightarrow> Inl type_error
                    | Some primaryData \<Rightarrow>
                        render_snapshot env candidates symbolDataMap primarySymbol
                          primaryData)))"

subsection \<open>The handler\<close>

text \<open>What the handler does besides returning: it builds a snapshot, it calls back.\<close>

datatype effect = BuildSnapshot string | Callback string

record handler_run =
  run_result :: "js_error + action_result"
  run_state :: snapshot_state
  run_effects :: "effect list"

definition ignored_result :: action_result where
  "ignored_result =
     \<lparr>ar_text = None, ar_success = False, ar_data = Data_error ''IGNORED_SELF_MESSAGE'',
      ar_values = None\<rparr>"

definition cacheKey_of :: "snapshot_message \<Rightarrow> string \<Rightarrow> string" where
  "cacheKey_of message corrId =
     (case msg_roomId message of None \<Rightarrow> ''room'' | Some r \<Rightarrow> r) @ '':'' @ corrId"

definition failure_reason :: "js_error \<Rightarrow> string" where
  "failure_reason error =
     (case error of
        Error m \<Rightarrow> m
      | Thrown _ \<Rightarrow> ''Errore inatteso durante la generazione snapshot'')"

definition failure_text :: "string \<Rightarrow> string" where
  "failure_text reason =
     ''Impossibile completare la snapshot per ora ('' @ reason @ ''). Riprova tra poco.''"

definition failure_result :: "string \<Rightarrow> action_result" where
  "failure_result reason =
     \<lparr>ar_text = Some (failure_text reason), ar_success = False, ar_data = Data_error reason,
      ar_values = None\<rparr>"

text \<open>
  The handler of \<open>snapshotAction\<close>. An absent state is replaced by an empty one. The host's
  \<open>ensureCorrelationId\<close> runs on the state before the cache is read. \<open>callback\<close> is \<open>None\<close>
  when the handler gets none, and otherwise gives \<open>Some e\<close> when the call with a text
  throws \<open>e\<close>. \<open>run_result\<close> is \<open>Inl\<close> when the promise of the handler is rejected.
\<close>

definition snapshot_handler ::
  "environment \<Rightarrow> snapshot_message \<Rightarrow> snapshot_state option \<Rightarrow>
   (string \<Rightarrow> js_error option) option \<Rightarrow> handler_run" where
  "snapshot_handler env message state callback =
     (let state = (case state of
                     None \<Rightarrow> \<lparr>st_snapshotCache = None, st_host = []\<rparr>
                   | Some s \<Rightarrow> s)
      in if isAgentMessage (env_agentId env) message
         then \<lparr>run_result = Inr ignored_result, run_state = state, run_effects = []\<rparr>
         else
           (case env_ensureCorrelationId env state message of
              (corrId, state) \<Rightarrow>
                let cacheKey = cacheKey_of message corrId;
                    cache = (case st_snapshotCache state of None \<Rightarrow> Map.empty | Some c \<Rightarrow> c)
                in (case cache cacheKey of
                      Some cached \<Rightarrow>
                        \<lparr>run_result = Inr cached, run_state = state, run_effects = []\<rparr>
                    | None \<Rightarrow>
                       (case buildSnapshot env message corrId of
                          Inr result \<Rightarrow>
                            \<lparr>run_result = Inr result,
                             run_state =
                               state\<lparr>st_snapshotCache := Some (cache(cacheKey \<mapsto> result))\<rparr>,
                             run_effects = [BuildSnapshot corrId]\<rparr>
                        | Inl error \<Rightarrow>
                            let reason = failure_reason error;
                                failureText = failure_text reason
                            in (case callback of
                                  None \<Rightarrow>
                                    \<lparr>run_result = Inr (failure_result reason),
                                     run_state = state,
                                     run_effects = [BuildSnapshot corrId]\<rparr>
                                | Some call \<Rightarrow>
                                    (case call failureText of
                                       None \<Rightarrow>
                                         \<lparr>run_result = Inr (failure_result reason),
                                          run_state = state,
                                          run_effects =
                                            [BuildSnapshot corrId, Callback failureText]\<rparr>
                                     | Some e \<Rightarrow>
                                         \<lparr>run_result = Inl e, run_state = state,
                                          run_effects =
                                            [BuildSnapshot corrId, Callback failureText]\<rparr>))))))"

section \<open>The Hyperliquid actions (plugin-hyperliquid)\<close>

subsection \<open>The SDK (declaration of the module \<open>hyperliquid\<close>)\<close>

record token_info =
  tk_name :: string
  tk_szDecimals :: nat

text \<open>A \<open>midPx\<close> that is \<open>null\<close> is \<open>None\<close>.\<close>

record asset_context =
  ctx_coin :: string
  ctx_midPx :: "string option"
  ctx_prevDayPx :: string
  ctx_dayNtlVlm :: string

subsection \<open>priceCheck (actions/priceCheck.ts)\<close>

text \<open>What the callback is called with: the text and the content.\<close>

datatype reply_content =
    PriceContent string jsnum string string
  | ErrorContent string

record reply =
  reply_text :: string
  reply_content :: reply_content

record handler_outcome =
  returned :: bool
  callback_calls :: "reply list"

text \<open>
  The body of the \<open>try\<close> block. \<open>parsed\<close> is the outcome of composing the state, asking the
  model and parsing its answer with \<open>parseKeyValueXml\<close>: \<open>Inl\<close> when one of these throws,
  \<open>Inr None\<close> when the parser gives \<open>null\<close>, and otherwise the keys and values parsed.
  \<open>market\<close> is the outcome of connecting the SDK and calling \<open>getSpotMetaAndAssetCtxs\<close>.
  Token names and symbols are ASCII. The result is \<open>Inl\<close> for a \<open>throw\<close>, and \<open>None\<close> when
  a price is a string that \<open>js_Number\<close> or \<open>toFixed\<close> does not cover.
\<close>

definition priceCheck_body ::
  "js_error + (string \<times> string) list option \<Rightarrow>
   js_error + token_info list \<times> asset_context list \<Rightarrow> (js_error + reply) option" where
  "priceCheck_body parsed market =
     (case parsed of
        Inl e \<Rightarrow> Some (Inl e)
      | Inr parsedContent \<Rightarrow>
          (case (case parsedContent of None \<Rightarrow> None | Some kvs \<Rightarrow> map_of kvs ''symbol'') of
             None \<Rightarrow> Some (Inl (Error ''Could not determine which token price to check''))
           | Some symbol \<Rightarrow>
               if symbol = []
               then Some (Inl (Error ''Could not determine which token price to check''))
               else
                 (case market of
                    Inl e \<Rightarrow> Some (Inl e)
                  | Inr (tokens, assetCtxs) \<Rightarrow>
                      if \<not> list_ex (\<lambda>token. toUpperCase (tk_name token) = toUpperCase symbol) tokens
                      then Some (Inl (Error (''Could not find token '' @ symbol)))
                      else
                        (case find (\<lambda>ctx. ctx_coin ctx = symbol @ ''-SPOT'') assetCtxs of
                           None \<Rightarrow> Some (Inl (Error (''Could not find market for '' @ symbol)))
                         | Some marketCtx \<Rightarrow>
                             (case ctx_midPx marketCtx of
                                None \<Rightarrow>
                                  Some (Inl (Error (''Could not get market price for '' @ symbol)))
                              | Some midPx \<Rightarrow>
                                  if midPx = []
                                  then Some (Inl (Error (''Could not get market price for ''
                                                          @ symbol)))
                                  else
                                    (case (js_Number midPx,
                                           js_Number (ctx_prevDayPx marketCtx),
                                           js_Number (ctx_dayNtlVlm marketCtx)) of
                                       (Some price, Some prevDayPx, Some dayNtlVlm) \<Rightarrow>
                                         (case (toFixed price 2,
                                                toFixed
                                                  (js_mul
                                                     (js_div (js_sub price prevDayPx) prevDayPx)
                                                     (Fin 100)) 2,
                                                toFixed dayNtlVlm 2) of
                                            (Some priceText, Some dayChange, Some volume) \<Rightarrow>
                                              Some (Inr
                                                \<lparr>reply_text =
                                                   symbol @ '' price: '' @ priceText
                                                   @ '' USDC (24h change: '' @ dayChange
                                                   @ ''%, volume: '' @ volume @ '' USDC)'',
                                                 reply_content =
                                                   PriceContent symbol price dayChange volume\<rparr>)
                                          | _ \<Rightarrow> None)
                                     | _ \<Rightarrow> None))))))"

text \<open>
  The handler: the reply goes to the callback, when there is one, and the handler returns
  \<open>true\<close>; an exception is caught and reported the same way, and the handler returns
  \<open>false\<close>. The callback records its calls and does not throw.
\<close>

definition priceCheck_handler ::
  "js_error + (string \<times> string) list option \<Rightarrow>
   js_error + token_info list \<times> asset_context list \<Rightarrow> bool \<Rightarrow> handler_outcome option" where
  "priceCheck_handler parsed market hasCallback =
     (case priceCheck_body parsed market of
        None \<Rightarrow> None
      | Some (Inr r) \<Rightarrow>
          Some \<lparr>returned = True, callback_calls = (if hasCallback then [r] else [])\<rparr>
      | Some (Inl error) \<Rightarrow>
          let errorMessage =
                (case error of
                   Error m \<Rightarrow> m
                 | Thrown rendering \<Rightarrow> rendering)
          in Some \<lparr>returned = False,
                   callback_calls =
                     (if hasCallback
                      then [\<lparr>reply_text = ''Error checking price: '' @ errorMessage,
                             reply_content = ErrorContent errorMessage\<rparr>]
                      else [])\<rparr>)"

text \<open>The market data of the mocked SDK (\<open>mockHyperliquidSdk\<close> of the test utilities).\<close>

definition mock_market :: "token_info list \<times> asset_context list" where
  "mock_market =
     ([\<lparr>tk_name = ''HYPE'', tk_szDecimals = 2\<rparr>,
       \<lparr>tk_name = ''ETH'', tk_szDecimals = 4\<rparr>,
       \<lparr>tk_name = ''PIP'', tk_szDecimals = 2\<rparr>],
      [\<lparr>ctx_coin = ''HYPE-SPOT'', ctx_midPx = Some ''20.50'', ctx_prevDayPx = ''20.00'',
        ctx_dayNtlVlm = ''1000000''\<rparr>,
       \<lparr>ctx_coin = ''ETH-SPOT'', ctx_midPx = Some ''3500.00'', ctx_prevDayPx = ''3400.00'',
        ctx_dayNtlVlm = ''50000000''\<rparr>,
       \<lparr>ctx_coin = ''PIP-SPOT'', ctx_midPx = Some ''19.73'', ctx_prevDayPx = ''20.10'',
        ctx_dayNtlVlm = ''1053445.75''\<rparr>])"

subsection \<open>spotTrade (actions/spotTrade.ts)\<close>

text \<open>
  What the model extracts from the conversation, as the prompt template asks: the coin, the
  side, the size, and the limit price, which is \<open>null\<close> for a market order.
\<close>

record spot_order =
  so_coin :: string
  so_is_buy :: bool
  so_sz :: jsnum
  so_limit_px :: "jsnum option"

datatype order_type = Market | Limit string

text \<open>The fields of the \<open>OrderRequest\<close> that the specification and the tests determine.\<close>

record order_request =
  or_coin :: string
  or_is_buy :: bool
  or_sz :: jsnum
  or_limit_px :: "jsnum option"
  or_order_type :: order_type

record trade_outcome =
  trade_returned :: bool
  trade_orders :: "order_request list"

text \<open>
  Modelled from the spec: the handler of the \<open>spotTrade\<close> action, whose file
  \<open>actions/spotTrade.ts\<close> is not among the sources (its tests, the prompt template and
  the declaration of the SDK are). The specification says that the text "Buy 1 HYPE"
  against a mocked SDK produces a market order call with \<open>sz=1, is_buy=true\<close>. So the
  handler passes one order to \<open>placeOrder\<close>, for the spot market of the coin, with the side
  and the size extracted, as a market order when no limit price is extracted and as a
  limit order otherwise (\<open>Gtc\<close> in the tests); it reports success when no status of the
  response carries an error. \<open>statuses\<close> lists the \<open>error\<close> of each status of the response,
  \<open>None\<close> when it is \<open>null\<close> or absent.
\<close>

definition spotTrade_handler :: "spot_order \<Rightarrow> string option list \<Rightarrow> trade_outcome" where
  "spotTrade_handler order statuses =
     \<lparr>trade_returned = list_all (\<lambda>error. error = None) statuses,
      trade_orders =
        [\<lparr>or_coin = so_coin order @ ''-SPOT'',
          or_is_buy = so_is_buy order,
          or_sz = so_sz order,
          or_limit_px = so_limit_px order,
          or_order_type = (case so_limit_px order of None \<Rightarrow> Market | Some _ \<Rightarrow> Limit ''Gtc'')\<rparr>]\<rparr>"

section \<open>Notions used in the statements\<close>

subsection \<open>Price series\<close>

definition dates_of :: "price_history \<Rightarrow> string list" where
  "dates_of ph = map bar_t (ph_bars ph)"

text \<open>\<open>d\<close> is a common date: every series has a bar of date \<open>d\<close>.\<close>

definition in_every :: "price_history list \<Rightarrow> string \<Rightarrow> bool" where
  "in_every series d = list_all (\<lambda>ph. d \<in> set (dates_of ph)) series"

definition close_bar :: "string \<Rightarrow> jsnum \<Rightarrow> bar" where
  "close_bar d x =
     \<lparr>bar_t = d, bar_o = None, bar_h = None, bar_l = None, bar_c = x, bar_v = None\<rparr>"

definition daily :: "string \<Rightarrow> bar list \<Rightarrow> price_history" where
  "daily s bs =
     \<lparr>ph_symbol = s, ph_interval = ''1d'', ph_bars = bs, ph_adjusted = None,
      ph_dataSources = [''stooq''], ph_sourceSymbol = None\<rparr>"

text \<open>
  The close of a series on a date (that of its last bar of that date), the closes that are
  finite and not zero, and the rebasing of a close on a baseline: NaN where the close is
  zero or NaN.
\<close>

definition close_on :: "price_history \<Rightarrow> string \<Rightarrow> jsnum" where
  "close_on ph d = (case bar_map (ph_bars ph) d of None \<Rightarrow> NaN | Some c \<Rightarrow> c)"

definition finite_nonzero :: "jsnum \<Rightarrow> bool" where
  "finite_nonzero x = (case x of Fin r \<Rightarrow> r \<noteq> 0 | _ \<Rightarrow> False)"

definition rebased_value :: "jsnum \<Rightarrow> jsnum \<Rightarrow> jsnum" where
  "rebased_value price baseline =
     (if price = NaN \<or> is_zero price then NaN else js_mul (js_div price baseline) (Fin 100))"

subsection \<open>Overview fields\<close>

text \<open>
  A key that is neither \<open>dataSources\<close> nor inherited from \<open>Object.prototype\<close>: every
  other field of \<open>EtfOverview\<close> is one.
\<close>

definition ordinary_key :: "string \<Rightarrow> bool" where
  "ordinary_key k = (k \<noteq> ''dataSources'' \<and> k \<notin> set object_prototype_keys)"

definition stored_defined :: "etf_overview \<Rightarrow> bool" where
  "stored_defined m = (\<forall>k v. ov_fields m k = Some v \<longrightarrow> v \<noteq> JUndefined)"

definition frag_fmp :: fragment where
  "frag_fmp =
     \<lparr>frag_rest = [(''issuer'', JNull), (''category'', JString ''Equity'')],
      frag_dataSources = Some [''fmp'']\<rparr>"

definition frag_finnhub :: fragment where
  "frag_finnhub =
     \<lparr>frag_rest = [(''issuer'', JString ''Vanguard''), (''category'', JString ''Blend'')],
      frag_dataSources = Some [''finnhub'', ''fmp'']\<rparr>"

subsection \<open>Tokens\<close>

text \<open>The position reached after \<open>j\<close> characters: the character before it.\<close>

definition prev_after :: "char option \<Rightarrow> string \<Rightarrow> nat \<Rightarrow> char option" where
  "prev_after prev rest j = (if j = 0 then prev else Some (rest ! (j - 1)))"

text \<open>The strings of the form \<open>[A-Z]{2,6}\<close> or \<open>[A-Z]{2,6}\.[A-Z]{1,3}\<close>.\<close>

definition ticker_shaped :: "string \<Rightarrow> bool" where
  "ticker_shaped s =
     (\<exists>run ext. list_all is_upper run \<and> 2 \<le> length run \<and> length run \<le> 6 \<and>
        (s = run \<or>
         (s = run @ CHR ''.'' # ext \<and> list_all is_upper ext \<and>
          1 \<le> length ext \<and> length ext \<le> 3)))"

definition space_or_end :: "string \<Rightarrow> bool" where
  "space_or_end rest = (case rest of [] \<Rightarrow> True | c # _ \<Rightarrow> c = CHR '' '')"

subsection \<open>Providers and handler\<close>

text \<open>
  A consistent comparison function: any two strings are comparable, and the order is
  transitive. \<open>localeCompare\<close> is one.
\<close>

definition consistent :: "('a \<Rightarrow> 'a \<Rightarrow> int) \<Rightarrow> bool" where
  "consistent compare =
     ((\<forall>a b. compare a b \<le> 0 \<or> compare b a \<le> 0) \<and>
      (\<forall>a b c. compare a b \<le> 0 \<and> compare b c \<le> 0 \<longrightarrow> compare a c \<le> 0))"

text \<open>The order of two bars by date.\<close>

definition by_date :: "(string \<Rightarrow> string \<Rightarrow> int) \<Rightarrow> bar \<Rightarrow> bar \<Rightarrow> int" where
  "by_date localeCompare a b = localeCompare (bar_t a) (bar_t b)"

text \<open>The comparison of strings by code units, which \<open>localeCompare\<close> agrees with on dates.\<close>

fun compare_strings :: "string \<Rightarrow> string \<Rightarrow> int" where
  "compare_strings [] [] = 0"
| "compare_strings [] (y # ys) = - 1"
| "compare_strings (x # xs) [] = 1"
| "compare_strings (x # xs) (y # ys) =
     (if (of_char x :: nat) < of_char y then - 1
      else if (of_char y :: nat) < of_char x then 1
      else compare_strings xs ys)"

definition settings_on :: rip2etf_settings where
  "settings_on =
     \<lparr>ALPHAVANTAGE_API_KEY = ''demo'', FMP_API_KEY = [], FINNHUB_API_KEY = [],
      FRED_API_KEY = [], DEBUG = False, ENABLE_ALPHA_VANTAGE = True, ENABLE_FMP = False,
      ENABLE_FINNHUB = False\<rparr>"

text \<open>A payload of Alpha Vantage with two days, the later one first.\<close>

definition av_payload :: jsval where
  "av_payload =
     JObject [(''Meta Data'', JObject [(''2. Symbol'', JString ''VOO'')]),
              (''Time Series (Daily)'',
               JObject [(''2024-01-03'',
                         JObject [(''1. open'', JString ''11''), (''2. high'', JString ''12''),
                                  (''3. low'', JString ''10''), (''4. close'', JString ''11''),
                                  (''6. volume'', JString ''100'')]),
                        (''2024-01-02'',
                         JObject [(''1. open'', JString ''10''), (''2. high'', JString ''11''),
                                  (''3. low'', JString ''9''), (''4. close'', JString ''10''),
                                  (''6. volume'', JString ''100'')])])]"

text \<open>A CSV text of Stooq with two rows, the later day first.\<close>

definition descending_csv :: string where
  "descending_csv =
     ''Date,Open,High,Low,Close,Volume'' @ [CHR 0x0A] @
     ''2024-01-03,11,12,10,11,100'' @ [CHR 0x0A] @
     ''2024-01-02,10,11,9,10,100'' @ [CHR 0x0A]"

definition stooq_serves :: "string \<Rightarrow> string \<Rightarrow> js_error + string" where
  "stooq_serves csv candidate =
     (if candidate = ''voo.us'' then Inr csv else Inl (Error ''Request failed 404''))"

definition offline :: "string \<Rightarrow> js_error + string" where
  "offline candidate = Inl (Error ''fetch failed'')"

text \<open>A payload of Alpha Vantage whose series has an entry that is \<open>null\<close>.\<close>

definition null_entry_payload :: jsval where
  "null_entry_payload = JObject [(''Time Series (Daily)'', JObject [(''2024-01-02'', JNull)])]"

text \<open>A body of FMP that is an object, not an array of profiles.\<close>

definition fmp_object_body :: jsval where
  "fmp_object_body = JObject [(''Error Message'', JString ''Limit Reach'')]"

definition settings_fmp :: rip2etf_settings where
  "settings_fmp =
     \<lparr>ALPHAVANTAGE_API_KEY = [], FMP_API_KEY = ''demo'', FINNHUB_API_KEY = [],
      FRED_API_KEY = [], DEBUG = False, ENABLE_ALPHA_VANTAGE = False, ENABLE_FMP = True,
      ENABLE_FINNHUB = False\<rparr>"

text \<open>A message of a user with the text \<open>VOO\<close>, and the same message sent by the agent.\<close>

definition user_message :: snapshot_message where
  "user_message =
     \<lparr>msg_entityId = ''user-1'', msg_roomId = Some ''room-7'',
      msg_content = Some (text_message ''VOO''), msg_role = JUndefined,
      msg_author = JUndefined, msg_source = None, msg_tags = JUndefined\<rparr>"

definition agent_message :: snapshot_message where
  "agent_message = user_message\<lparr>msg_entityId := ''agent-0''\<rparr>"

text \<open>
  An environment in which the agent is \<open>agent-0\<close> and the host gives every message the
  correlation id \<open>corr-1\<close> and leaves the state as it is; the rest is that of \<open>env\<close>.
\<close>

definition hosted :: "environment \<Rightarrow> environment" where
  "hosted env =
     env\<lparr>env_agentId := ''agent-0'',
         env_ensureCorrelationId := (\<lambda>state message. (''corr-1'', state))\<rparr>"

text \<open>A CSV text of Stooq with one row.\<close>

definition one_day_csv :: string where
  "one_day_csv =
     ''Date,Open,High,Low,Close,Volume'' @ [CHR 0x0A] @
     ''2024-01-02,10,11,9,10,100'' @ [CHR 0x0A]"

text \<open>
  Such an environment in which only Alpha Vantage is enabled and answers every request
  with \<open>payload\<close>, while Stooq serves the CSV text of one row for \<open>voo.us\<close> and the manual
  tables are empty.
\<close>

definition av_world :: "jsval \<Rightarrow> environment \<Rightarrow> environment" where
  "av_world payload env =
     (hosted env)\<lparr>env_settings := settings_on,
                   env_alphaVantage := (\<lambda>symbol. Inr payload),
                   env_stooq := stooq_serves one_day_csv,
                   env_manualOverview := (\<lambda>symbol. None),
                   env_manualHoldings := (\<lambda>symbol. None)\<rparr>"

definition sample_result :: action_result where
  "sample_result =
     \<lparr>ar_text = Some ''VOO snapshot'', ar_success = True, ar_data = Data_reason ''sample'',
      ar_values = None\<rparr>"

definition cached_state :: snapshot_state where
  "cached_state =
     \<lparr>st_snapshotCache = Some [''room-7:corr-1'' \<mapsto> sample_result], st_host = []\<rparr>"

text \<open>The history that Stooq's text of one row gives, and the overview of no fragment.\<close>

definition one_day_history :: price_history where
  "one_day_history =
     \<lparr>ph_symbol = ''VOO'', ph_interval = ''1d'',
      ph_bars = [\<lparr>bar_t = ''2024-01-02'', bar_o = Some (Fin 10), bar_h = Some (Fin 11),
                  bar_l = Some (Fin 9), bar_c = Fin 10, bar_v = Some (Fin 100)\<rparr>],
      ph_adjusted = Some False, ph_dataSources = [''stooq''],
      ph_sourceSymbol = Some ''voo.us''\<rparr>"

definition bare_overview :: etf_overview where
  "bare_overview = \<lparr>ov_fields = [''symbol'' \<mapsto> JString ''VOO''], ov_dataSources = []\<rparr>"

text \<open>The snapshot of \<open>VOO\<close> from that history alone.\<close>

definition one_day_text :: string where
  "one_day_text =
     ''**VOO '' @ [CHR 0xC2, CHR 0xB7] @ '' snapshot dati**'' @ [CHR 0x0A] @
     ''- Issuer: n/d'' @ [CHR 0x0A] @
     ''- Categoria: n/d'' @ [CHR 0x0A] @
     ''- Benchmark: n/d'' @ [CHR 0x0A] @
     ''- TER: n/d'' @ [CHR 0x0A] @
     ''- AUM: n/d'' @ [CHR 0x0A] @
     ''- NAV: n/d (ultimo close n/d)'' @ [CHR 0x0A] @
     ''Performance rebased 100 (1 giorni):'' @ [CHR 0x0A] @
     ''VOO: 100.0'' @ [CHR 0x0A] @
     ''Fonti prezzo: stooq''"

definition one_day_payload :: snapshot_payload where
  "one_day_payload =
     \<lparr>sp_primarySymbol = ''VOO'', sp_compareSymbols = [], sp_overview = bare_overview,
      sp_holdings = None, sp_chartUrl = None, sp_chartAttached = False,
      sp_priceSources = [''stooq''], sp_summary = one_day_text\<rparr>"

definition one_day_snapshot :: action_result where
  "one_day_snapshot =
     \<lparr>ar_text = Some one_day_text, ar_success = True, ar_data = Data_snapshot one_day_payload,
      ar_values = Some
        \<lparr>sv_primarySymbol = ''VOO'', sv_compareSymbols = [], sv_priceSources = [''stooq''],
         sv_snapshotSummary = one_day_text, sv_snapshotData = one_day_payload,
         sv_snapshotAttachments = [], sv_pendingAttachments = []\<rparr>\<rparr>"

section \<open>Properties of the rebasing\<close>





lemma round_double_1: "round_double 1 = Fin 1"
  by code_simp

lemma round_double_100: "round_double 100 = Fin 100"
  by code_simp

lemma js_div_self: "r \<noteq> 0 \<Longrightarrow> js_div (Fin r) (Fin r) = Fin 1"
  by (simp add: js_div_def is_inf_def is_zero_def round_double_1)

lemma js_mul_1_100: "js_mul (Fin 1) (Fin 100) = Fin 100"
  by (simp add: js_mul_def is_inf_def is_zero_def round_double_100)

lemma in_every_Cons:
  "in_every (ph # series) d = (d \<in> set (dates_of ph) \<and> in_every series d)"
  by (simp add: in_every_def)

lemma foldl_commonDates_step:
  "d \<in> set acc \<Longrightarrow> in_every series d \<Longrightarrow>
   foldl commonDates_step acc series = filter (in_every series) acc"
proof (induction series arbitrary: acc)
  case Nil
  then show ?case by (simp add: in_every_def)
next
  case (Cons ph series)
  let ?acc' = "filter (\<lambda>x. x \<in> set (dates_of ph)) acc"
  from Cons.prems have ne: "acc \<noteq> []" by auto
  from Cons.prems have din: "d \<in> set ?acc'" by (simp add: in_every_Cons)
  from Cons.prems have rest: "in_every series d" by (simp add: in_every_Cons)
  have step: "commonDates_step acc ph = ?acc'"
    using ne by (simp add: commonDates_step_def dates_of_def Let_def)
  have "foldl commonDates_step acc (ph # series) = foldl commonDates_step ?acc' series"
    by (simp add: step)
  also have "\<dots> = filter (in_every series) ?acc'"
    by (rule Cons.IH [OF din rest])
  also have "\<dots> = filter (in_every (ph # series)) acc"
    by (auto simp: in_every_Cons intro: filter_cong)
  finally show ?case .
qed

text \<open>
  When the series have a date in common, the date axis is the list of the dates of the
  first series that occur in every series.
\<close>

lemma commonDates_common:
  assumes "in_every series d" and "series \<noteq> []"
  shows "rb_dates (alignAndRebase series) = filter (in_every series) (dates_of (hd series))"
proof -
  from assms obtain ph rest where s: "series = ph # rest" by (cases series) auto
  from assms s have d0: "d \<in> set (dates_of ph)" and dr: "in_every rest d"
    by (simp_all add: in_every_Cons)
  have "foldl commonDates_step [] series = foldl commonDates_step (dates_of ph) rest"
    by (simp add: s commonDates_step_def dates_of_def)
  also have "\<dots> = filter (in_every rest) (dates_of ph)"
    by (rule foldl_commonDates_step [OF d0 dr])
  also have "\<dots> = filter (in_every series) (dates_of ph)"
    by (auto simp: s in_every_Cons intro: filter_cong)
  finally show ?thesis
    by (simp add: alignAndRebase_def Let_def s)
qed

lemma rebase_point_100:
  assumes "m d = Some (Fin r)" and "r \<noteq> 0"
  shows "rebase_point m (Fin r) d = \<lparr>pt_t = d, pt_v = Fin 100\<rparr>"
  using assms
  by (simp add: rebase_point_def truthy_num_def is_zero_def js_div_self js_mul_1_100)


lemma dom_foldl_bar_map:
  "dom (foldl (\<lambda>m b. m(bar_t b \<mapsto> bar_c b)) m0 bs) = dom m0 \<union> set (map bar_t bs)"
  by (induction bs arbitrary: m0) auto

lemma bar_map_dom: "dom (bar_map bs) = set (map bar_t bs)"
  by (simp add: bar_map_def dom_foldl_bar_map)

lemma bar_map_Some:
  "d \<in> set (dates_of ph) \<Longrightarrow> bar_map (ph_bars ph) d = Some (close_on ph d)"
proof -
  assume "d \<in> set (dates_of ph)"
  then have "d \<in> dom (bar_map (ph_bars ph))" by (simp add: bar_map_dom dates_of_def)
  then show ?thesis by (auto simp: close_on_def)
qed

lemma in_every_nth:
  "in_every series d \<Longrightarrow> i < length series \<Longrightarrow> d \<in> set (dates_of (series ! i))"
  by (simp add: in_every_def list_all_length)

lemma rebase_point_common:
  assumes "t \<in> set (dates_of ph)"
  shows "rebase_point (bar_map (ph_bars ph)) c t =
         \<lparr>pt_t = t, pt_v = rebased_value (close_on ph t) c\<rparr>"
  using bar_map_Some [OF assms]
  by (simp add: rebase_point_def rebased_value_def truthy_num_def)

lemma rebased_value_self:
  "rebased_value c c = (if finite_nonzero c then Fin 100 else NaN)"
proof (cases c)
  case (Fin r)
  show ?thesis
  proof (cases "r = 0")
    case True
    with Fin show ?thesis by (simp add: rebased_value_def finite_nonzero_def is_zero_def)
  next
    case False
    with Fin show ?thesis
      by (simp add: rebased_value_def finite_nonzero_def is_zero_def js_div_self js_mul_1_100)
  qed
qed (simp_all add: rebased_value_def finite_nonzero_def is_zero_def js_div_def js_mul_def
       is_inf_def)

text \<open>
  C1, as amended. For a non-empty list of series with a date in common, the date axis is not
  empty and starts with the first common date; every date of the axis is a date of every
  series; the point of a series at a date of the axis is the close of that date divided by
  the close of the series on the first common date and multiplied by 100, and NaN where
  the close of that date is zero or NaN; so the first point is exactly 100 when the close
  on the first common date is a finite number other than zero, and NaN when that close is
  zero, NaN or infinite. The close of a series on a date is that of its last bar of that
  date.
\<close>

theorem alignAndRebase_first_point_100:
  assumes "in_every series d" and "i < length series"
  shows "rb_dates (alignAndRebase series) = filter (in_every series) (dates_of (hd series)) \<and>
         rb_dates (alignAndRebase series) \<noteq> [] \<and>
         set (rb_dates (alignAndRebase series)) \<subseteq> set (dates_of (series ! i)) \<and>
         cs_points (rb_table (alignAndRebase series) ! i) =
           map (\<lambda>t. \<lparr>pt_t = t,
                      pt_v = rebased_value (close_on (series ! i) t)
                               (close_on (series ! i) (hd (rb_dates (alignAndRebase series))))\<rparr>)
             (rb_dates (alignAndRebase series)) \<and>
         hd (cs_points (rb_table (alignAndRebase series) ! i)) =
           \<lparr>pt_t = hd (rb_dates (alignAndRebase series)),
            pt_v = (if finite_nonzero
                         (close_on (series ! i) (hd (rb_dates (alignAndRebase series))))
                    then Fin 100 else NaN)\<rparr>"
proof -
  let ?dates = "rb_dates (alignAndRebase series)"
  let ?ph = "series ! i"
  let ?m = "bar_map (ph_bars ?ph)"
  from assms(2) have ne: "series \<noteq> []" by auto
  have dates: "?dates = filter (in_every series) (dates_of (hd series))"
    by (rule commonDates_common [OF assms(1) ne])
  from ne assms(1) have "d \<in> set (dates_of (hd series))"
    by (cases series) (simp_all add: in_every_Cons)
  with assms(1) have dne: "?dates \<noteq> []"
    by (auto simp: dates filter_empty_conv)
  have sub: "set ?dates \<subseteq> set (dates_of ?ph)"
    using in_every_nth [OF _ assms(2)] by (auto simp: dates)
  from dne obtain d0 ds where split: "?dates = d0 # ds" by (cases ?dates) auto
  have cd: "foldl commonDates_step [] series = d0 # ds"
    using split ne by (simp add: alignAndRebase_def Let_def)
  from sub split have d0: "d0 \<in> set (dates_of ?ph)" by simp
  have base: "baseline_of ?m (d0 # ds) = close_on ?ph d0"
    by (simp add: baseline_of_def bar_map_Some [OF d0])
  have "cs_points (rb_table (alignAndRebase series) ! i) =
        map (rebase_point ?m (close_on ?ph d0)) (d0 # ds)"
    using assms(2) ne by (simp add: alignAndRebase_def Let_def rebase_series_def cd base)
  also have "\<dots> = map (\<lambda>t. \<lparr>pt_t = t, pt_v = rebased_value (close_on ?ph t) (close_on ?ph d0)\<rparr>)
                       (d0 # ds)"
  proof (rule map_cong [OF refl])
    fix t assume "t \<in> set (d0 # ds)"
    with sub split have "t \<in> set (dates_of ?ph)" by auto
    then show "rebase_point ?m (close_on ?ph d0) t =
               \<lparr>pt_t = t, pt_v = rebased_value (close_on ?ph t) (close_on ?ph d0)\<rparr>"
      by (rule rebase_point_common)
  qed
  finally have points: "cs_points (rb_table (alignAndRebase series) ! i) =
      map (\<lambda>t. \<lparr>pt_t = t, pt_v = rebased_value (close_on ?ph t) (close_on ?ph (hd ?dates))\<rparr>)
        ?dates"
    by (simp add: split)
  have first: "hd (cs_points (rb_table (alignAndRebase series) ! i)) =
      \<lparr>pt_t = hd ?dates,
       pt_v = (if finite_nonzero (close_on ?ph (hd ?dates)) then Fin 100 else NaN)\<rparr>"
    unfolding points using dne by (simp add: hd_map rebased_value_self)
  from dates dne sub points first show ?thesis by (intro conjI)
qed

theorem alignAndRebase_first_point_100_witness:
  "cs_points (rb_table (alignAndRebase
       [daily ''VOO'' [close_bar ''2024-01-02'' (Fin 50), close_bar ''2024-01-03'' (Fin 55)],
        daily ''SPY'' [close_bar ''2024-01-03'' (Fin 200), close_bar ''2024-01-04'' (Fin 210)]])
     ! 0) = [\<lparr>pt_t = ''2024-01-03'', pt_v = Fin 100\<rparr>]"
proof -
  let ?voo = "daily ''VOO'' [close_bar ''2024-01-02'' (Fin 50), close_bar ''2024-01-03'' (Fin 55)]"
  let ?spy = "daily ''SPY'' [close_bar ''2024-01-03'' (Fin 200), close_bar ''2024-01-04'' (Fin 210)]"
  have dates: "rb_dates (alignAndRebase [?voo, ?spy]) = [''2024-01-03'']"
    by (simp add: alignAndRebase_def commonDates_step_def daily_def close_bar_def Let_def)
  have h1: "in_every [?voo, ?spy] ''2024-01-03''"
    by (simp add: in_every_def dates_of_def daily_def close_bar_def)
  have h2: "0 < length [?voo, ?spy]" by simp
  have close: "close_on ?voo ''2024-01-03'' = Fin 55"
    by (simp add: close_on_def bar_map_def daily_def close_bar_def)
  have reb: "rebased_value (Fin 55) (Fin 55) = Fin 100"
    by (simp add: rebased_value_self finite_nonzero_def)
  from alignAndRebase_first_point_100 [OF h1 h2]
  have "cs_points (rb_table (alignAndRebase [?voo, ?spy]) ! 0) =
        map (\<lambda>t. \<lparr>pt_t = t,
                   pt_v = rebased_value (close_on ([?voo, ?spy] ! 0) t)
                            (close_on ([?voo, ?spy] ! 0)
                               (hd (rb_dates (alignAndRebase [?voo, ?spy]))))\<rparr>)
          (rb_dates (alignAndRebase [?voo, ?spy]))"
    by (elim conjE)
  then show ?thesis
    unfolding dates by (simp add: close reb)
qed

text \<open>
  C1 as stated fails where the close on the first common date is zero or infinite: the
  rebased value is NaN, not 100.
\<close>

theorem alignAndRebase_zero_close_counterexample:
  "''2024-01-02'' \<in> set (dates_of (daily ''VOO'' [close_bar ''2024-01-02'' (Fin 0)])) \<and>
   alignAndRebase [daily ''VOO'' [close_bar ''2024-01-02'' (Fin 0)]] =
     \<lparr>rb_dates = [''2024-01-02''],
      rb_table = [\<lparr>cs_symbol = ''VOO'',
                   cs_points = [\<lparr>pt_t = ''2024-01-02'', pt_v = NaN\<rparr>]\<rparr>],
      rb_sources = [''stooq'']\<rparr> \<and>
   alignAndRebase [daily ''VOO'' [close_bar ''2024-01-02'' PInf]] =
     \<lparr>rb_dates = [''2024-01-02''],
      rb_table = [\<lparr>cs_symbol = ''VOO'',
                   cs_points = [\<lparr>pt_t = ''2024-01-02'', pt_v = NaN\<rparr>]\<rparr>],
      rb_sources = [''stooq'']\<rparr>"
  by (simp add: alignAndRebase_def commonDates_step_def rebase_series_def rebase_point_def
      baseline_of_def bar_map_def truthy_num_def is_zero_def array_from_set_def set_add_def
      dates_of_def daily_def close_bar_def js_div_def js_mul_def is_inf_def Let_def)

text \<open>
  The table is aligned with the date axis for every input: one entry per series, in the
  order of the input, and the points of every entry carry the dates of the axis in order.
\<close>

lemma alignAndRebase_aligned:
  "length (rb_table (alignAndRebase series)) = length series \<and>
   map cs_symbol (rb_table (alignAndRebase series)) = map ph_symbol series \<and>
   (\<forall>e \<in> set (rb_table (alignAndRebase series)).
      map pt_t (cs_points e) = rb_dates (alignAndRebase series))"
  by (auto simp: alignAndRebase_def Let_def rebase_series_def rebase_point_def comp_def)

text \<open>
  C8. The entries are aligned with the returned dates, but the returned dates are not always
  the dates common to all series: the accumulator of the \<open>reduce\<close> is replaced by the dates
  of the next series whenever it is empty, also when it has become empty. Here no date is
  common to the three series, and the points lists have one element each.
\<close>

theorem alignAndRebase_empty_intersection:
  "set (dates_of (daily ''VOO'' [close_bar ''2024-01-02'' (Fin 50)])) \<inter>
   set (dates_of (daily ''SPY'' [close_bar ''2024-01-03'' (Fin 200)])) \<inter>
   set (dates_of (daily ''QQQ'' [close_bar ''2024-01-03'' (Fin 300)])) = {} \<and>
   alignAndRebase
     [daily ''VOO'' [close_bar ''2024-01-02'' (Fin 50)],
      daily ''SPY'' [close_bar ''2024-01-03'' (Fin 200)],
      daily ''QQQ'' [close_bar ''2024-01-03'' (Fin 300)]] =
     \<lparr>rb_dates = [''2024-01-03''],
      rb_table =
        [\<lparr>cs_symbol = ''VOO'', cs_points = [\<lparr>pt_t = ''2024-01-03'', pt_v = NaN\<rparr>]\<rparr>,
         \<lparr>cs_symbol = ''SPY'', cs_points = [\<lparr>pt_t = ''2024-01-03'', pt_v = Fin 100\<rparr>]\<rparr>,
         \<lparr>cs_symbol = ''QQQ'', cs_points = [\<lparr>pt_t = ''2024-01-03'', pt_v = Fin 100\<rparr>]\<rparr>],
      rb_sources = [''stooq'']\<rparr>"
  by (simp add: alignAndRebase_def commonDates_step_def rebase_series_def rebase_point_def
      baseline_of_def bar_map_def truthy_num_def is_zero_def array_from_set_def set_add_def
      dates_of_def daily_def close_bar_def js_div_self js_mul_1_100 Let_def)

section \<open>Properties of the reconciliation\<close>

lemma merge_entry_stored: "stored_defined m \<Longrightarrow> stored_defined (merge_entry m kv)"
  by (cases kv) (auto simp: stored_defined_def merge_entry_def)

lemma merge_entry_fields:
  "stored_defined m \<Longrightarrow>
   ov_fields (merge_entry m kv) k =
     (case ov_fields m k of
        Some v \<Rightarrow> Some v
      | None \<Rightarrow> if ordinary_key k \<and> usable k kv then Some (snd kv) else None)"
  by (cases kv)
     (auto simp: stored_defined_def merge_entry_def merged_undefined_def usable_def
        ordinary_key_def split: option.splits)

lemma merge_entry_dataSources: "ov_dataSources (merge_entry m kv) = ov_dataSources m"
  by (cases kv) (simp add: merge_entry_def)

lemma foldl_merge_entry_stored:
  "stored_defined m \<Longrightarrow> stored_defined (foldl merge_entry m es)"
  by (induction es arbitrary: m) (simp_all add: merge_entry_stored)

lemma foldl_merge_entry_dataSources:
  "ov_dataSources (foldl merge_entry m es) = ov_dataSources m"
  by (induction es arbitrary: m) (simp_all add: merge_entry_dataSources)

lemma foldl_merge_entry_fields:
  "stored_defined m \<Longrightarrow>
   ov_fields (foldl merge_entry m es) k =
     (case ov_fields m k of
        Some v \<Rightarrow> Some v
      | None \<Rightarrow> if ordinary_key k then map_option snd (find (usable k) es) else None)"
proof (induction es arbitrary: m)
  case Nil
  then show ?case by (simp split: option.splits)
next
  case (Cons e es)
  have st: "stored_defined (merge_entry m e)"
    by (rule merge_entry_stored [OF Cons.prems])
  show ?case
    by (simp add: Cons.IH [OF st] merge_entry_fields [OF Cons.prems] split: option.splits)
qed

lemma stored_defined_dataSources:
  "stored_defined (m\<lparr>ov_dataSources := ds\<rparr>) = stored_defined m"
  by (simp add: stored_defined_def)

lemma merge_fragment_stored: "stored_defined m \<Longrightarrow> stored_defined (merge_fragment m f)"
  by (cases f)
     (simp_all add: merge_fragment_def Let_def foldl_merge_entry_stored
        stored_defined_dataSources split: option.splits)

lemma merge_fragment_fields:
  "stored_defined m \<Longrightarrow>
   ov_fields (merge_fragment m f) k =
     (case ov_fields m k of
        Some v \<Rightarrow> Some v
      | None \<Rightarrow> if ordinary_key k then first_non_null k [f] else None)"
  by (cases f)
     (auto simp: merge_fragment_def Let_def foldl_merge_entry_fields
        split: option.splits)

lemma foldl_merge_fragment_stored:
  "stored_defined m \<Longrightarrow> stored_defined (foldl merge_fragment m fs)"
  by (induction fs arbitrary: m) (simp_all add: merge_fragment_stored)

lemma first_non_null_Cons:
  "first_non_null k (f # fs) =
     (case first_non_null k [f] of Some v \<Rightarrow> Some v | None \<Rightarrow> first_non_null k fs)"
  by (cases f) (auto split: option.splits)

lemma foldl_merge_fragment_fields:
  "stored_defined m \<Longrightarrow>
   ov_fields (foldl merge_fragment m fs) k =
     (case ov_fields m k of
        Some v \<Rightarrow> Some v
      | None \<Rightarrow> if ordinary_key k then first_non_null k fs else None)"
proof (induction fs arbitrary: m)
  case Nil
  then show ?case by (simp split: option.splits)
next
  case (Cons f fs)
  have st: "stored_defined (merge_fragment m f)"
    by (rule merge_fragment_stored [OF Cons.prems])
  show ?case
    unfolding foldl_Cons Cons.IH [OF st] merge_fragment_fields [OF Cons.prems]
      first_non_null_Cons [of k f fs]
    by (simp split: option.splits)
qed

lemma foldl_merge_fragment_keeps:
  assumes "stored_defined m" and "ov_fields m k = Some v"
  shows "ov_fields (foldl merge_fragment m fs) k = Some v"
  using assms by (simp add: foldl_merge_fragment_fields)

lemma initial_stored:
  "stored_defined \<lparr>ov_fields = [''symbol'' \<mapsto> JString symbol], ov_dataSources = []\<rparr>"
  by (simp add: stored_defined_def)

lemma set_add_distinct: "distinct s \<Longrightarrow> distinct (set_add s x)"
  by (simp add: set_add_def)

lemma foldl_set_add_distinct: "distinct s \<Longrightarrow> distinct (foldl set_add s xs)"
  by (induction xs arbitrary: s) (simp_all add: set_add_distinct)

lemma array_from_set_distinct: "distinct (array_from_set xs)"
  by (simp add: array_from_set_def foldl_set_add_distinct)

lemma reconcile_fields:
  "ov_fields (reconcileOverview symbol fs) k =
     (if k = ''symbol'' then Some (JString symbol)
      else if ordinary_key k then first_non_null k fs else None)"
  by (simp add: reconcileOverview_def Let_def foldl_merge_fragment_fields [OF initial_stored])

lemma reconcile_append_keeps:
  assumes "ov_fields (reconcileOverview symbol fs) k = Some v"
  shows "ov_fields (reconcileOverview symbol (fs @ gs)) k = Some v"
proof -
  let ?m = "foldl merge_fragment
      \<lparr>ov_fields = [''symbol'' \<mapsto> JString symbol], ov_dataSources = []\<rparr> fs"
  have st: "stored_defined ?m"
    by (rule foldl_merge_fragment_stored [OF initial_stored])
  from assms have "ov_fields ?m k = Some v"
    by (simp add: reconcileOverview_def Let_def)
  then have "ov_fields (foldl merge_fragment ?m gs) k = Some v"
    by (rule foldl_merge_fragment_keeps [OF st])
  then show ?thesis
    by (simp add: reconcileOverview_def Let_def)
qed

text \<open>
  C2, as amended. The merged \<open>symbol\<close> is the \<open>symbol\<close> argument, whatever the fragments
  say. Every other field of the overview holds the first value, in fragment order, that is
  neither \<open>null\<close> nor \<open>undefined\<close>, and is absent when there is none. A field that is set
  after some fragments keeps its value whatever fragments follow. The \<open>dataSources\<close> of the
  result has no duplicates.
\<close>

theorem reconcileOverview_first_wins:
  "ov_fields (reconcileOverview symbol fs) ''symbol'' = Some (JString symbol) \<and>
   (k \<noteq> ''symbol'' \<and> ordinary_key k \<longrightarrow>
      ov_fields (reconcileOverview symbol fs) k = first_non_null k fs) \<and>
   (ov_fields (reconcileOverview symbol fs) k = Some v \<longrightarrow>
      ov_fields (reconcileOverview symbol (fs @ gs)) k = Some v) \<and>
   distinct (ov_dataSources (reconcileOverview symbol fs))"
proof (intro conjI impI)
  show "ov_fields (reconcileOverview symbol fs) ''symbol'' = Some (JString symbol)"
    by (simp add: reconcile_fields)
  show "ov_fields (reconcileOverview symbol fs) k = first_non_null k fs"
    if "k \<noteq> ''symbol'' \<and> ordinary_key k"
    using that by (simp add: reconcile_fields)
  show "ov_fields (reconcileOverview symbol (fs @ gs)) k = Some v"
    if "ov_fields (reconcileOverview symbol fs) k = Some v"
    using that by (rule reconcile_append_keeps)
  show "distinct (ov_dataSources (reconcileOverview symbol fs))"
    by (simp add: reconcileOverview_def Let_def array_from_set_distinct)
qed

lemma reconcile_example:
  "ov_fields (reconcileOverview ''VOO'' [Some frag_fmp, None]) ''category''
   = Some (JString ''Equity'')"
  by (simp add: reconcileOverview_def merge_fragment_def merge_entry_def merged_undefined_def
      frag_fmp_def object_prototype_keys_def Let_def)

theorem reconcileOverview_first_wins_witness:
  "ov_fields (reconcileOverview ''VOO'' [Some frag_fmp, None, Some frag_finnhub]) ''symbol''
     = Some (JString ''VOO'') \<and>
   ov_fields (reconcileOverview ''VOO'' [Some frag_fmp, None, Some frag_finnhub]) ''issuer''
     = Some (JString ''Vanguard'') \<and>
   ov_fields (reconcileOverview ''VOO'' ([Some frag_fmp, None] @ [Some frag_finnhub]))
     ''category'' = Some (JString ''Equity'') \<and>
   distinct (ov_dataSources (reconcileOverview ''VOO'' [Some frag_fmp, None, Some frag_finnhub]))"
proof -
  have k: "''issuer'' \<noteq> ''symbol'' \<and> ordinary_key ''issuer''"
    by (simp add: ordinary_key_def object_prototype_keys_def)
  have first: "first_non_null ''issuer'' [Some frag_fmp, None, Some frag_finnhub]
               = Some (JString ''Vanguard'')"
    by (simp add: frag_fmp_def frag_finnhub_def usable_def)
  from reconcileOverview_first_wins
         [of "''VOO''" "[Some frag_fmp, None, Some frag_finnhub]" "''issuer''"]
       k first
  have issuer: "ov_fields (reconcileOverview ''VOO'' [Some frag_fmp, None, Some frag_finnhub])
       ''issuer'' = Some (JString ''Vanguard'')"
    and rest:
      "ov_fields (reconcileOverview ''VOO'' [Some frag_fmp, None, Some frag_finnhub]) ''symbol''
         = Some (JString ''VOO'')"
      "distinct (ov_dataSources (reconcileOverview ''VOO''
         [Some frag_fmp, None, Some frag_finnhub]))"
    by simp_all
  from reconcileOverview_first_wins
         [of "''VOO''" "[Some frag_fmp, None]" "''category''" "JString ''Equity''"
            "[Some frag_finnhub]"]
       reconcile_example
  have "ov_fields (reconcileOverview ''VOO'' ([Some frag_fmp, None] @ [Some frag_finnhub]))
       ''category'' = Some (JString ''Equity'')"
    by blast
  with issuer rest show ?thesis by (intro conjI)
qed

text \<open>
  C2 as stated fails for the field \<open>symbol\<close>: the merged object starts with the \<open>symbol\<close>
  argument, so the value of a fragment never gets there, not even the first one.
\<close>

theorem reconcileOverview_symbol_counterexample:
  "first_non_null ''symbol''
     [Some \<lparr>frag_rest = [(''symbol'', JString ''SPY'')], frag_dataSources = None\<rparr>]
   = Some (JString ''SPY'') \<and>
   ov_fields (reconcileOverview ''VOO''
     [Some \<lparr>frag_rest = [(''symbol'', JString ''SPY'')], frag_dataSources = None\<rparr>]) ''symbol''
   = Some (JString ''VOO'')"
  by (simp add: reconcileOverview_def merge_fragment_def merge_entry_def merged_undefined_def
      usable_def Let_def)

section \<open>Properties of the symbol extraction\<close>

subsection \<open>The matcher\<close>

lemma prev_after_0: "prev_after prev rest 0 = prev"
  by (simp add: prev_after_def)

lemma prev_after_Suc: "prev_after prev (c # cs) (Suc j) = prev_after (Some c) cs j"
  by (cases j) (simp_all add: prev_after_def)

lemma rx_class_Nil: "rx_class P k prev [] n = None"
  by (simp add: rx_class_def)

lemma rx_class_Cons:
  "rx_class P k prev (c # cs) n = (if P c then k (Some c) cs (Suc n) else None)"
  by (simp add: rx_class_def)

lemma rx_repeat_Suc:
  "rx_repeat lo (Suc hi) m k prev rest n =
     (case m (rx_repeat (lo - 1) hi m k) prev rest n of
        Some r \<Rightarrow> Some r
      | None \<Rightarrow> if lo = 0 then k prev rest n else None)"
  by simp

lemma rx_repeat_class_sound:
  "lo \<le> hi \<Longrightarrow> rx_repeat lo hi (rx_class P) k prev rest n = Some r \<Longrightarrow>
   \<exists>j. lo \<le> j \<and> j \<le> hi \<and> j \<le> length rest \<and> list_all P (take j rest) \<and>
       k (prev_after prev rest j) (drop j rest) (n + j) = Some r"
proof (induction hi arbitrary: lo prev rest n)
  case 0
  then show ?case by (auto simp: prev_after_0)
next
  case (Suc hi)
  let ?inner = "rx_class P (rx_repeat (lo - 1) hi (rx_class P) k) prev rest n"
  from Suc.prems(2) have alt:
    "?inner = Some r \<or> (?inner = None \<and> lo = 0 \<and> k prev rest n = Some r)"
    unfolding rx_repeat_Suc by (auto split: option.splits if_splits)
  show ?case
  proof (cases "?inner")
    case None
    with alt have "lo = 0" and "k prev rest n = Some r" by auto
    then show ?thesis by (intro exI [of _ 0]) (simp add: prev_after_0)
  next
    case (Some r')
    with alt have inner: "?inner = Some r" by auto
    then obtain c cs where rest: "rest = c # cs"
      by (cases rest) (auto simp: rx_class_Nil)
    from inner have pc: "P c"
      and rec: "rx_repeat (lo - 1) hi (rx_class P) k (Some c) cs (Suc n) = Some r"
      unfolding rest rx_class_Cons by (auto split: if_splits)
    from Suc.prems have "lo - 1 \<le> hi" by simp
    from Suc.IH [OF this rec] obtain j where j: "lo - 1 \<le> j" "j \<le> hi" "j \<le> length cs"
      "list_all P (take j cs)" "k (prev_after (Some c) cs j) (drop j cs) (Suc n + j) = Some r"
      by blast
    show ?thesis
      using j pc by (intro exI [of _ "Suc j"]) (auto simp: rest prev_after_Suc)
  qed
qed

lemma rx_repeat_class_greedy:
  "list_all P run \<Longrightarrow> (case rest of [] \<Rightarrow> True | c # _ \<Rightarrow> \<not> P c) \<Longrightarrow>
   lo \<le> length run \<Longrightarrow> length run \<le> hi \<Longrightarrow>
   k (prev_after prev (run @ rest) (length run)) rest (n + length run) = Some r \<Longrightarrow>
   rx_repeat lo hi (rx_class P) k prev (run @ rest) n = Some r"
proof (induction run arbitrary: lo hi prev n)
  case Nil
  then have lo: "lo = 0" by simp
  from Nil have k: "k prev rest n = Some r" by (simp add: prev_after_0)
  show ?case
  proof (cases hi)
    case 0
    then show ?thesis using k by simp
  next
    case (Suc h)
    have "rx_class P (rx_repeat (lo - 1) h (rx_class P) k) prev rest n = None"
      using Nil.prems(2) by (cases rest) (simp_all add: rx_class_Nil rx_class_Cons)
    then show ?thesis unfolding Suc append_Nil rx_repeat_Suc using k lo by simp
  qed
next
  case (Cons c run)
  from Cons.prems obtain h where hi: "hi = Suc h" by (cases hi) auto
  have "rx_repeat (lo - 1) h (rx_class P) k (Some c) (run @ rest) (Suc n) = Some r"
    using Cons.prems hi by (intro Cons.IH) (auto simp: prev_after_Suc)
  moreover have "P c" using Cons.prems(1) by simp
  ultimately show ?case
    unfolding hi append_Cons rx_repeat_Suc rx_class_Cons by simp
qed


lemma rx_boundary_end:
  "rx_word_boundary rx_end prev rest n = Some r \<Longrightarrow> r = n"
  by (simp add: rx_word_boundary_def rx_end_def split: if_splits)

lemma TICKER_REGEX_sound:
  assumes "TICKER_REGEX prev rest 0 = Some n"
  shows "n \<le> length rest \<and> ticker_shaped (take n rest)"
proof -
  let ?G = "\<lambda>k. rx_class (\<lambda>c. c = CHR ''.'') (rx_repeat 1 3 (rx_class is_upper) k)"
  let ?K = "rx_optional ?G (rx_word_boundary rx_end)"
  from assms have "rx_repeat 2 6 (rx_class is_upper) ?K prev rest 0 = Some n"
    by (simp add: TICKER_REGEX_def rx_word_boundary_def split: if_splits)
  from rx_repeat_class_sound [OF _ this]
  obtain j where j: "2 \<le> j" "j \<le> 6" "j \<le> length rest" "list_all is_upper (take j rest)"
    and k: "?K (prev_after prev rest j) (drop j rest) j = Some n"
    by auto
  let ?p = "prev_after prev rest j"
  show ?thesis
  proof (cases "?G (rx_word_boundary rx_end) ?p (drop j rest) j")
    case None
    with k have "rx_word_boundary rx_end ?p (drop j rest) j = Some n"
      by (simp add: rx_optional_def)
    then have "n = j" by (rule rx_boundary_end)
    with j show ?thesis
      by (auto simp: ticker_shaped_def)
  next
    case (Some r)
    with k have r: "r = n" by (simp add: rx_optional_def)
    from Some obtain rest2 where d: "drop j rest = CHR ''.'' # rest2"
      by (cases "drop j rest") (auto simp: rx_class_Nil rx_class_Cons split: if_splits)
    from Some have
      "rx_repeat 1 3 (rx_class is_upper) (rx_word_boundary rx_end) (Some CHR ''.'') rest2 (Suc j)
       = Some n"
      unfolding d rx_class_Cons r by simp
    from rx_repeat_class_sound [OF _ this]
    obtain i where i: "1 \<le> i" "i \<le> 3" "i \<le> length rest2" "list_all is_upper (take i rest2)"
      and e: "rx_word_boundary rx_end (prev_after (Some CHR ''.'') rest2 i) (drop i rest2)
                (Suc j + i) = Some n"
      by auto
    from e have n: "n = Suc j + i" by (rule rx_boundary_end)
    have split: "rest = take j rest @ CHR ''.'' # rest2"
      using d by (metis append_take_drop_id)
    have len: "length rest = j + Suc (length rest2)"
      using arg_cong [OF split, of length] j(3) by simp
    have "take n rest = take j rest @ CHR ''.'' # take i rest2"
      unfolding n by (subst split) (simp add: j(3) min_absorb2)
    moreover have "n \<le> length rest" using len i(3) n by simp
    ultimately show ?thesis
      using j i by (auto simp: ticker_shaped_def)
  qed
qed

lemma is_upper_word: "is_upper c \<Longrightarrow> is_word_char c"
  by (auto simp: is_upper_def is_word_char_def)

lemma not_upper_dot: "\<not> is_upper CHR ''.''"
  by (simp add: is_upper_def upper_letters_def)

lemma not_upper_space: "\<not> is_upper CHR '' ''"
  by (simp add: is_upper_def upper_letters_def)

lemma not_word_space: "\<not> is_word_char CHR '' ''"
  by (simp add: is_word_char_def upper_letters_def lower_letters_def digit_chars_def)

lemma prev_after_run:
  "run \<noteq> [] \<Longrightarrow> prev_after prev (run @ rest) (length run) = Some (last run)"
  by (simp add: prev_after_def nth_append last_conv_nth)

lemma boundary_after_run:
  "run \<noteq> [] \<Longrightarrow> list_all is_upper run \<Longrightarrow> space_or_end rest \<Longrightarrow>
   rx_word_boundary rx_end (Some (last run)) rest n = Some n"
proof -
  assume "run \<noteq> []" "list_all is_upper run" "space_or_end rest"
  then have "is_word_char (last run)"
    by (simp add: is_upper_word list_all_iff)
  with \<open>space_or_end rest\<close> show ?thesis
    by (cases rest)
       (simp_all add: rx_word_boundary_def rx_end_def at_word_boundary_def space_or_end_def
          not_word_space)
qed

lemma TICKER_REGEX_token:
  assumes shaped: "ticker_shaped tok"
    and prev: "prev = None \<or> prev = Some CHR '' ''"
    and rest: "space_or_end rest"
  shows "TICKER_REGEX prev (tok @ rest) 0 = Some (length tok)"
proof -
  let ?G = "\<lambda>k. rx_class (\<lambda>c. c = CHR ''.'') (rx_repeat 1 3 (rx_class is_upper) k)"
  let ?K = "rx_optional ?G (rx_word_boundary rx_end)"
  from shaped obtain run ext where run: "list_all is_upper run" "2 \<le> length run" "length run \<le> 6"
    and tok: "tok = run \<or> (tok = run @ CHR ''.'' # ext \<and> list_all is_upper ext \<and>
          1 \<le> length ext \<and> length ext \<le> 3)"
    by (auto simp: ticker_shaped_def)
  from run obtain c cs where rc: "run = c # cs" by (cases run) auto
  then have ne: "run \<noteq> []" by simp
  from run rc have "is_word_char c" by (simp add: is_upper_word)
  with prev have wb: "at_word_boundary prev (tok @ rest)"
    using tok by (auto simp: at_word_boundary_def rc not_word_space)
  have body: "rx_repeat 2 6 (rx_class is_upper) ?K prev (tok @ rest) 0 = Some (length tok)"
  proof (cases "tok = run")
    case True
    have nodot: "?G (rx_word_boundary rx_end) (Some (last run)) rest (length run) = None"
      using rest by (cases rest) (simp_all add: rx_class_Nil rx_class_Cons space_or_end_def)
    have "?K (Some (last run)) rest (length run) = Some (length run)"
      using nodot boundary_after_run [OF ne run(1) rest, of "length run"]
      by (simp add: rx_optional_def)
    then have "?K (prev_after prev (run @ rest) (length run)) rest (0 + length run)
        = Some (length run)"
      by (simp add: prev_after_run [OF ne])
    moreover have "case rest of [] \<Rightarrow> True | c # _ \<Rightarrow> \<not> is_upper c"
      using rest by (cases rest) (simp_all add: space_or_end_def not_upper_space)
    ultimately have "rx_repeat 2 6 (rx_class is_upper) ?K prev (run @ rest) 0 = Some (length run)"
      using run by (intro rx_repeat_class_greedy)
    then show ?thesis by (simp add: True)
  next
    case False
    with tok have t: "tok = run @ CHR ''.'' # ext" and ext: "list_all is_upper ext"
      "1 \<le> length ext" "length ext \<le> 3"
      by auto
    from ext have ene: "ext \<noteq> []" by auto
    have "rx_word_boundary rx_end (prev_after (Some CHR ''.'') (ext @ rest) (length ext)) rest
            (Suc (length run) + length ext) = Some (Suc (length run) + length ext)"
      by (simp add: prev_after_run [OF ene] boundary_after_run [OF ene ext(1) rest])
    moreover have notup: "case rest of [] \<Rightarrow> True | c # _ \<Rightarrow> \<not> is_upper c"
      using rest by (cases rest) (simp_all add: space_or_end_def not_upper_space)
    ultimately have inner:
      "rx_repeat 1 3 (rx_class is_upper) (rx_word_boundary rx_end) (Some CHR ''.'') (ext @ rest)
         (Suc (length run)) = Some (Suc (length run) + length ext)"
      using ext by (intro rx_repeat_class_greedy)
    have "?K (Some (last run)) (CHR ''.'' # ext @ rest) (length run)
          = Some (Suc (length run) + length ext)"
      using inner by (simp add: rx_optional_def rx_class_Cons)
    then have "?K (prev_after prev (run @ CHR ''.'' # ext @ rest) (length run))
        (CHR ''.'' # ext @ rest) (0 + length run) = Some (Suc (length run) + length ext)"
      by (simp add: prev_after_run [OF ne])
    moreover have "case CHR ''.'' # ext @ rest of [] \<Rightarrow> True | c # _ \<Rightarrow> \<not> is_upper c"
      by (simp add: not_upper_dot)
    ultimately have
      "rx_repeat 2 6 (rx_class is_upper) ?K prev (run @ CHR ''.'' # ext @ rest) 0
        = Some (Suc (length run) + length ext)"
      using run by (intro rx_repeat_class_greedy)
    then show ?thesis by (simp add: t)
  qed
  show ?thesis
    unfolding TICKER_REGEX_def rx_word_boundary_def [of _ prev "tok @ rest" 0]
    using wb body by simp
qed

lemma rx_repeat_class_fail:
  "0 < lo \<Longrightarrow> 0 < hi \<Longrightarrow> (case rest of [] \<Rightarrow> True | c # _ \<Rightarrow> \<not> P c) \<Longrightarrow>
   rx_repeat lo hi (rx_class P) k prev rest n = None"
  by (cases hi; cases rest) (simp_all add: rx_class_Nil rx_class_Cons)

lemma TICKER_REGEX_fail:
  "(case rest of [] \<Rightarrow> True | c # _ \<Rightarrow> \<not> is_upper c) \<Longrightarrow> TICKER_REGEX prev rest 0 = None"
  by (simp add: TICKER_REGEX_def rx_word_boundary_def rx_repeat_class_fail)

lemma ticker_shaped_length: "ticker_shaped s \<Longrightarrow> 2 \<le> length s"
  by (auto simp: ticker_shaped_def)

lemma match_all_None_Nil:
  "re prev [] 0 = None \<Longrightarrow> match_all re prev [] = []"
  by (simp add: match_all.simps [of re prev "[]"])

lemma match_all_None_Cons:
  "re prev (c # cs) 0 = None \<Longrightarrow> match_all re prev (c # cs) = match_all re (Some c) cs"
  by (simp add: match_all.simps [of re prev "c # cs"])

lemma last_take:
  assumes "0 < n" and "n \<le> length xs"
  shows "last (take n xs) = xs ! (n - 1)"
proof -
  from assms have ne: "take n xs \<noteq> []" by auto
  from assms have len: "length (take n xs) = n" by simp
  have "last (take n xs) = take n xs ! (n - 1)"
    using last_conv_nth [OF ne] len by simp
  also from assms have "\<dots> = xs ! (n - 1)" by simp
  finally show ?thesis .
qed

lemma match_all_Some:
  assumes "re prev rest 0 = Some n" and "0 < n" and "n \<le> length rest"
  shows "match_all re prev rest
         = take n rest # match_all re (Some (rest ! (n - 1))) (drop n rest)"
proof -
  from assms(2,3) obtain c cs where rest: "rest = c # cs" by (cases rest) auto
  have "match_all re prev rest
        = take n rest # match_all re (Some (last (take n rest))) (drop n rest)"
    using assms(1,2) unfolding rest by (subst match_all.simps) simp
  then show ?thesis by (simp add: last_take [OF assms(2,3)])
qed

lemma match_all_shaped:
  "tok \<in> set (match_all TICKER_REGEX prev rest) \<Longrightarrow> ticker_shaped tok"
proof (induction rest arbitrary: prev rule: length_induct)
  case (1 rest)
  show ?case
  proof (cases "TICKER_REGEX prev rest 0")
    case None
    show ?thesis
    proof (cases rest)
      case Nil
      with None "1.prems" show ?thesis
        by (simp add: match_all_None_Nil)
    next
      case (Cons c cs)
      with None "1.prems" have "tok \<in> set (match_all TICKER_REGEX (Some c) cs)"
        by (simp add: match_all_None_Cons)
      moreover have "length cs < length rest" using Cons by simp
      ultimately show ?thesis
        using "1.IH" by blast
    qed
  next
    case (Some n)
    from TICKER_REGEX_sound [OF Some] have n: "n \<le> length rest" "ticker_shaped (take n rest)"
      by auto
    from ticker_shaped_length [OF n(2)] n(1) have n2: "2 \<le> n" by simp
    then have "0 < n" by simp
    from match_all_Some [of TICKER_REGEX prev rest n, OF Some this n(1)] "1.prems" have
      "tok = take n rest \<or> tok \<in> set (match_all TICKER_REGEX (Some (rest ! (n - 1))) (drop n rest))"
      by simp
    moreover have "length (drop n rest) < length rest"
      using n n2 by simp
    ultimately show ?thesis
      using n(2) "1.IH" by blast
  qed
qed

lemma ticker_shaped_nonempty: "ticker_shaped tok \<Longrightarrow> tok \<noteq> []"
  by (auto simp: ticker_shaped_def)

lemma match_all_token:
  assumes "ticker_shaped tok" and "prev = None \<or> prev = Some CHR '' ''" and "space_or_end rest"
  shows "match_all TICKER_REGEX prev (tok @ rest)
         = tok # match_all TICKER_REGEX (Some (last tok)) rest"
proof -
  from assms(1) have ne: "tok \<noteq> []" by (rule ticker_shaped_nonempty)
  then have nth: "(tok @ rest) ! (length tok - 1) = last tok"
    by (simp add: nth_append last_conv_nth)
  from ne have pos: "0 < length tok" by simp
  have le: "length tok \<le> length (tok @ rest)" by simp
  show ?thesis
    using match_all_Some [of TICKER_REGEX prev "tok @ rest" "length tok",
        OF TICKER_REGEX_token [OF assms] pos le]
    using nth by simp
qed

lemma match_all_end: "match_all TICKER_REGEX prev [] = []"
  by (rule match_all_None_Nil) (simp add: TICKER_REGEX_fail)

lemma match_all_space:
  "match_all TICKER_REGEX prev (CHR '' '' # rest) = match_all TICKER_REGEX (Some CHR '' '') rest"
  by (rule match_all_None_Cons) (simp add: TICKER_REGEX_fail not_upper_space)

lemma upper_not_lower: "c \<in> set upper_letters \<Longrightarrow> c \<notin> set lower_letters"
  by (auto simp: upper_letters_def lower_letters_def)

lemma letters_length: "length lower_letters = length upper_letters"
  by (simp add: upper_letters_def lower_letters_def)

lemma toUpperCase_char_other: "c \<notin> set lower_letters \<Longrightarrow> toUpperCase_char c = c"
  using map_of_zip_is_None [OF letters_length, of c]
  by (simp add: toUpperCase_char_def)

lemma toUpperCase_char_upper: "is_upper c \<Longrightarrow> toUpperCase_char c = c"
  by (simp add: is_upper_def upper_not_lower toUpperCase_char_other)

lemma toUpperCase_char_dot: "toUpperCase_char CHR ''.'' = CHR ''.''"
  by (rule toUpperCase_char_other) (simp add: lower_letters_def)

lemma ticker_shaped_chars:
  "ticker_shaped tok \<Longrightarrow> c \<in> set tok \<Longrightarrow> is_upper c \<or> c = CHR ''.''"
  by (auto simp: ticker_shaped_def list_all_iff)

lemma ticker_shaped_token:
  assumes "ticker_shaped tok"
  shows "filter (\<lambda>c. is_word_char c \<or> c = CHR ''.'') tok = tok" and "toUpperCase tok = tok"
proof -
  have "\<forall>c \<in> set tok. is_word_char c \<or> c = CHR ''.''"
    using ticker_shaped_chars [OF assms] is_upper_word by blast
  then show "filter (\<lambda>c. is_word_char c \<or> c = CHR ''.'') tok = tok"
    by (simp add: filter_id_conv)
  have "\<forall>c \<in> set tok. toUpperCase_char c = c"
    using ticker_shaped_chars [OF assms] toUpperCase_char_upper toUpperCase_char_dot by blast
  then show "toUpperCase tok = tok"
    by (simp add: toUpperCase_def map_idI)
qed

lemma extract_token_shaped:
  assumes "ticker_shaped raw"
  shows "extract_token raw =
     (if length raw < 3 \<or> raw \<in> set STOP_WORDS \<or> primary_alias raw \<in> set STOP_WORDS
      then None else Some (primary_alias raw))"
proof -
  have "raw \<noteq> []" using assms by (rule ticker_shaped_nonempty)
  then show ?thesis
    unfolding extract_token_def Let_def ticker_shaped_token [OF assms] primary_alias_def
    by simp
qed

lemma match_all_join:
  "\<forall>tok \<in> set toks. ticker_shaped tok \<Longrightarrow> prev = None \<or> prev = Some CHR '' '' \<Longrightarrow>
   match_all TICKER_REGEX prev (join_space toks) = toks"
proof (induction toks arbitrary: prev rule: join_space.induct)
  case 1
  show ?case by (simp add: match_all_end)
next
  case (2 x)
  then have sh: "ticker_shaped x" by simp
  have "match_all TICKER_REGEX prev (x @ []) = x # match_all TICKER_REGEX (Some (last x)) []"
    using sh "2.prems"(2) by (intro match_all_token) (simp_all add: space_or_end_def)
  then show ?case by (simp add: match_all_end)
next
  case (3 x y ys)
  then have sh: "ticker_shaped x" by simp
  let ?rest = "CHR '' '' # join_space (y # ys)"
  have "match_all TICKER_REGEX prev (x @ ?rest) = x # match_all TICKER_REGEX (Some (last x)) ?rest"
    using sh "3.prems"(2) by (intro match_all_token) (simp_all add: space_or_end_def)
  moreover have "match_all TICKER_REGEX (Some CHR '' '') (join_space (y # ys)) = y # ys"
    using "3.prems"(1) by (intro "3.IH") simp_all
  ultimately show ?case by (simp add: match_all_space)
qed

subsection \<open>The extraction\<close>

lemma set_foldl_set_add: "set (foldl set_add t xs) = set t \<union> set xs"
  by (induction xs arbitrary: t) (auto simp: set_add_def)

lemma foldl_set_add_fresh: "distinct (t @ xs) \<Longrightarrow> foldl set_add t xs = t @ xs"
  by (induction xs arbitrary: t) (auto simp: set_add_def)

lemma foldl_add_match:
  "foldl add_match t ms = foldl set_add t (List.map_filter extract_token ms)"
  by (induction ms arbitrary: t) (simp_all add: add_match_def split: option.splits)

lemma map_filter_id: "\<forall>x \<in> set xs. f x = Some x \<Longrightarrow> List.map_filter f xs = xs"
  by (induction xs) simp_all

lemma set_map_filter: "set (List.map_filter f xs) = {y. \<exists>x \<in> set xs. f x = Some y}"
  by (induction xs) (auto split: option.splits)

lemma symbols_of_text_eq: "symbols_of_text text = extractFromText [] text"
  by (simp add: symbols_of_text_def collectSymbols_def text_message_def limitResult_def Let_def)

lemma normalizePhrases_Nil: "normalizePhrases [] = []"
  by code_simp

lemma extractFromText_eq:
  "extractFromText [] text =
     array_from_set (List.map_filter extract_token (string_match (normalizePhrases text) TICKER_REGEX))"
  by (simp add: extractFromText_def foldl_add_match array_from_set_def string_match_def
      normalizePhrases_Nil match_all_end)

lemma alias_values:
  "map_of PRIMARY_ALIAS_MAP raw = Some a \<Longrightarrow> a = ''SPY'' \<or> a = ''QQQ'' \<or> a = ''DIA''"
proof -
  assume "map_of PRIMARY_ALIAS_MAP raw = Some a"
  then have "(raw, a) \<in> set PRIMARY_ALIAS_MAP" by (rule map_of_SomeD)
  then show ?thesis by (auto simp: PRIMARY_ALIAS_MAP_def)
qed

lemma shaped3: "list_all is_upper s \<Longrightarrow> length s = 3 \<Longrightarrow> ticker_shaped s"
  by (auto simp: ticker_shaped_def)

lemma alias_stable:
  "a = ''SPY'' \<or> a = ''QQQ'' \<or> a = ''DIA'' \<Longrightarrow> ticker_shaped a \<and> extract_token a = Some a"
proof -
  have "extract_token ''SPY'' = Some ''SPY''" by code_simp
  moreover have "extract_token ''QQQ'' = Some ''QQQ''" by code_simp
  moreover have "extract_token ''DIA'' = Some ''DIA''" by code_simp
  moreover have "ticker_shaped ''SPY''" "ticker_shaped ''QQQ''" "ticker_shaped ''DIA''"
    by (rule shaped3; simp add: is_upper_def upper_letters_def)+
  moreover assume "a = ''SPY'' \<or> a = ''QQQ'' \<or> a = ''DIA''"
  ultimately show ?thesis by blast
qed

lemma extract_token_stable:
  assumes "ticker_shaped raw" and "extract_token raw = Some s"
  shows "ticker_shaped s \<and> extract_token s = Some s"
proof (cases "map_of PRIMARY_ALIAS_MAP raw")
  case None
  with assms have "s = raw"
    by (simp add: extract_token_shaped primary_alias_def split: if_splits)
  with assms show ?thesis by simp
next
  case (Some a)
  with assms have "s = a"
    by (simp add: extract_token_shaped primary_alias_def split: if_splits)
  with alias_stable [OF alias_values [OF Some]] show ?thesis by simp
qed

lemma symbols_stable:
  assumes "s \<in> set (symbols_of_text text)"
  shows "ticker_shaped s \<and> extract_token s = Some s"
proof -
  from assms obtain raw where raw: "raw \<in> set (string_match (normalizePhrases text) TICKER_REGEX)"
    and ex: "extract_token raw = Some s"
    by (auto simp: symbols_of_text_eq extractFromText_eq array_from_set_def set_foldl_set_add
        set_map_filter)
  from raw have "ticker_shaped raw"
    by (simp add: string_match_def match_all_shaped)
  then show ?thesis using ex by (rule extract_token_stable)
qed

lemma symbols_distinct: "distinct (symbols_of_text text)"
  by (simp add: symbols_of_text_eq extractFromText_eq array_from_set_def foldl_set_add_distinct)


text \<open>
  C7, as amended. Extraction is a function of the text. The symbols of a text are the symbols
  of the matches, in order of first appearance and without duplicates; and extracting from
  the symbols joined by spaces gives the same list again, provided that the joined text
  contains no phrase of \<open>PHRASE_ALIAS_MAP\<close> (\<open>normalizePhrases\<close> leaves it as it is).
\<close>

theorem symbols_of_text_stable:
  "distinct (symbols_of_text text) \<and>
   symbols_of_text text =
     array_from_set
       (List.map_filter extract_token (string_match (normalizePhrases text) TICKER_REGEX)) \<and>
   (normalizePhrases (join_space (symbols_of_text text)) = join_space (symbols_of_text text) \<longrightarrow>
      symbols_of_text (join_space (symbols_of_text text)) = symbols_of_text text)"
proof (intro conjI impI)
  show "distinct (symbols_of_text text)" by (rule symbols_distinct)
  show "symbols_of_text text =
     array_from_set
       (List.map_filter extract_token (string_match (normalizePhrases text) TICKER_REGEX))"
    by (simp add: symbols_of_text_eq extractFromText_eq)
next
  let ?out = "symbols_of_text text"
  assume same: "normalizePhrases (join_space ?out) = join_space ?out"
  have st: "\<forall>s \<in> set ?out. ticker_shaped s" "\<forall>s \<in> set ?out. extract_token s = Some s"
    using symbols_stable by blast+
  have "string_match (join_space ?out) TICKER_REGEX = ?out"
    unfolding string_match_def using st(1) by (intro match_all_join) simp_all
  then have "symbols_of_text (join_space ?out) = array_from_set (List.map_filter extract_token ?out)"
    by (simp add: symbols_of_text_eq [of "join_space ?out"] extractFromText_eq same)
  also have "\<dots> = array_from_set ?out"
    by (simp add: map_filter_id st(2))
  also have "\<dots> = ?out"
    unfolding array_from_set_def using foldl_set_add_fresh [of "[]" ?out] symbols_distinct by simp
  finally show "symbols_of_text (join_space ?out) = ?out" .
qed

theorem symbols_of_text_stable_witness:
  "symbols_of_text ''Compare VOO, VWCE.DE and VOO'' = [''VOO'', ''VWCE.DE''] \<and>
   symbols_of_text ''VOO VWCE.DE'' = [''VOO'', ''VWCE.DE'']"
proof -
  have out: "symbols_of_text ''Compare VOO, VWCE.DE and VOO'' = [''VOO'', ''VWCE.DE'']"
    by code_simp
  have same: "normalizePhrases (join_space (symbols_of_text ''Compare VOO, VWCE.DE and VOO''))
      = join_space (symbols_of_text ''Compare VOO, VWCE.DE and VOO'')"
    unfolding out by code_simp
  from symbols_of_text_stable [of "''Compare VOO, VWCE.DE and VOO''"] same
  have "symbols_of_text (join_space (symbols_of_text ''Compare VOO, VWCE.DE and VOO''))
      = symbols_of_text ''Compare VOO, VWCE.DE and VOO''"
    by blast
  then show ?thesis unfolding out by simp
qed

text \<open>
  C7 as stated fails: the phrases are replaced wherever they occur, also across two symbols
  and inside one. The text \<open>SHADOW, JONES\<close> gives the two symbols \<open>SHADOW\<close> and \<open>JONES\<close>;
  joined by a space they contain \<open>DOW JONES\<close>, and the extraction gives \<open>SHA\<close> alone.
\<close>

theorem symbols_of_text_idempotence_counterexample:
  "symbols_of_text ''SHADOW, JONES'' = [''SHADOW'', ''JONES''] \<and>
   symbols_of_text (join_space [''SHADOW'', ''JONES'']) = [''SHA'']"
  by code_simp

text \<open>
  C3, as amended. A match of \<open>TICKER_REGEX\<close> in the normalised text is dropped on length
  grounds exactly when it is shorter than 3 characters: a match of length 2 is never added,
  and every match of length 3 or more that is not a stop word, before or after the mapping
  by \<open>PRIMARY_ALIAS_MAP\<close>, is added to the result set as its image under that mapping.
\<close>

theorem extractFromText_length_threshold:
  assumes "raw \<in> set (string_match (normalizePhrases text) TICKER_REGEX)" and "text \<noteq> []"
  shows "(length raw < 3 \<longrightarrow> extract_token raw = None) \<and>
         (3 \<le> length raw \<and> raw \<notin> set STOP_WORDS \<and> primary_alias raw \<notin> set STOP_WORDS \<longrightarrow>
            extract_token raw = Some (primary_alias raw) \<and>
            primary_alias raw \<in> set (extractFromText target text))"
proof -
  from assms(1) have sh: "ticker_shaped raw"
    by (simp add: string_match_def match_all_shaped)
  have "primary_alias raw \<in> set (extractFromText target text)"
    if "extract_token raw = Some (primary_alias raw)"
    using that assms
    by (auto simp: extractFromText_def foldl_add_match set_foldl_set_add set_map_filter)
  then show ?thesis
    by (auto simp: extract_token_shaped [OF sh])
qed

theorem extractFromText_length_threshold_witness:
  "''QQQ'' \<in> set (extractFromText [] ''VT or NASDAQ'')"
proof -
  have h1: "''NASDAQ'' \<in> set (string_match (normalizePhrases ''VT or NASDAQ'') TICKER_REGEX)"
    by code_simp
  have h2: "''VT or NASDAQ'' \<noteq> []" by simp
  have h3: "3 \<le> length ''NASDAQ'' \<and> ''NASDAQ'' \<notin> set STOP_WORDS \<and>
            primary_alias ''NASDAQ'' \<notin> set STOP_WORDS"
    by code_simp
  have h4: "primary_alias ''NASDAQ'' = ''QQQ''" by code_simp
  from extractFromText_length_threshold [OF h1 h2, of "[]"] h3
  have "primary_alias ''NASDAQ'' \<in> set (extractFromText [] ''VT or NASDAQ'')" by blast
  then show ?thesis unfolding h4 .
qed

text \<open>
  C3 as stated fails at length 2: \<open>VT\<close> matches the expression, is no stop word before or
  after the mapping, and is not added.
\<close>

theorem extractFromText_two_letters_counterexample:
  "string_match (normalizePhrases ''VT'') TICKER_REGEX = [''VT''] \<and>
   ''VT'' \<notin> set STOP_WORDS \<and> primary_alias ''VT'' \<notin> set STOP_WORDS \<and>
   extractFromText [] ''VT'' = []"
  by code_simp

section \<open>Properties of the providers\<close>

lemma set_sort_insert: "set (sort_insert compare x ys) = insert x (set ys)"
  by (induction ys) auto

lemma sorted_sort_insert:
  assumes "consistent compare"
  shows "sorted_wrt (\<lambda>a b. compare a b \<le> 0) ys \<Longrightarrow>
         sorted_wrt (\<lambda>a b. compare a b \<le> 0) (sort_insert compare x ys)"
proof (induction ys)
  case Nil
  then show ?case by simp
next
  case (Cons y ys)
  from assms have total: "\<And>a b. compare a b \<le> 0 \<or> compare b a \<le> 0"
    and trans: "\<And>a b c. compare a b \<le> 0 \<Longrightarrow> compare b c \<le> 0 \<Longrightarrow> compare a c \<le> 0"
    unfolding consistent_def by blast+
  show ?case
  proof (cases "compare x y \<le> 0")
    case True
    with Cons.prems trans show ?thesis by auto
  next
    case False
    with total have "compare y x \<le> 0" by blast
    with False Cons show ?thesis by (auto simp: set_sort_insert)
  qed
qed

lemma sorted_js_sort:
  "consistent compare \<Longrightarrow> sorted_wrt (\<lambda>a b. compare a b \<le> 0) (js_sort compare xs)"
  unfolding js_sort_def by (induction xs) (simp_all add: sorted_sort_insert)

lemma set_js_sort: "set (js_sort compare xs) = set xs"
  unfolding js_sort_def by (induction xs) (simp_all add: set_sort_insert)

lemma consistent_by_date: "consistent localeCompare \<Longrightarrow> consistent (by_date localeCompare)"
  unfolding consistent_def by_date_def by blast

lemma by_date_eq: "by_date localeCompare = (\<lambda>a b. localeCompare (bar_t a) (bar_t b))"
  by (rule ext)+ (simp add: by_date_def)

lemma alphaVantageDaily_bars:
  assumes "alphaVantageDaily settings response parseFloat localeCompare symbol = Inr (Some ph)"
  shows "\<exists>parsed. ph_bars ph =
           js_sort (by_date localeCompare) (filter (\<lambda>bar. isFinite (bar_c bar)) parsed)"
  using assms
  by (auto simp: alphaVantageDaily_def Let_def by_date_eq split: if_splits sum.splits)

text \<open>
  A history of Alpha Vantage is sorted by date, in the order of \<open>localeCompare\<close>, and its
  closes are finite.
\<close>

lemma alphaVantageDaily_sorted_finite:
  assumes "consistent localeCompare"
    and "alphaVantageDaily settings response parseFloat localeCompare symbol = Inr (Some ph)"
  shows "sorted_wrt (\<lambda>a b. localeCompare (bar_t a) (bar_t b) \<le> 0) (ph_bars ph) \<and>
         list_all (\<lambda>bar. isFinite (bar_c bar)) (ph_bars ph)"
proof -
  from alphaVantageDaily_bars [OF assms(2)] obtain parsed where
    bars: "ph_bars ph = js_sort (by_date localeCompare) (filter (\<lambda>bar. isFinite (bar_c bar)) parsed)"
    by blast
  have "sorted_wrt (\<lambda>a b. by_date localeCompare a b \<le> 0) (ph_bars ph)"
    unfolding bars by (rule sorted_js_sort [OF consistent_by_date [OF assms(1)]])
  moreover have "list_all (\<lambda>bar. isFinite (bar_c bar)) (ph_bars ph)"
    unfolding bars by (simp add: list_all_iff set_js_sort)
  ultimately show ?thesis by (simp add: by_date_def)
qed

lemma stooq_parse_finite:
  "stooq_parse parseFloat symbol candidate csv = Some ph \<Longrightarrow>
   list_all (\<lambda>bar. isFinite (bar_c bar)) (ph_bars ph) \<and> ph_bars ph \<noteq> []"
  by (auto simp: stooq_parse_def Let_def list_all_iff split: if_splits list.splits)

lemma stooq_loop_finite:
  "stooq_loop getText parseFloat symbol candidates = Some ph \<Longrightarrow>
   list_all (\<lambda>bar. isFinite (bar_c bar)) (ph_bars ph) \<and> ph_bars ph \<noteq> []"
  by (induction candidates) (auto split: sum.splits option.splits dest: stooq_parse_finite)

text \<open>The closes of a history of Stooq are finite as well, and it has a bar.\<close>

lemma stooqDaily_finite:
  "stooqDaily getText parseFloat symbol = Inr (Some ph) \<Longrightarrow>
   list_all (\<lambda>bar. isFinite (bar_c bar)) (ph_bars ph) \<and> ph_bars ph \<noteq> []"
  by (auto simp: stooqDaily_def split: sum.splits dest: stooq_loop_finite)

lemma variants_voo: "buildTickerVariants ''VOO'' = Inr [''voo.us'', ''voo'']"
  by code_simp

lemma parse_descending:
  "stooq_parse parseFloat_plain ''VOO'' ''voo.us'' descending_csv =
     Some \<lparr>ph_symbol = ''VOO'', ph_interval = ''1d'',
            ph_bars =
              [\<lparr>bar_t = ''2024-01-03'', bar_o = Some (Fin 11), bar_h = Some (Fin 12),
                bar_l = Some (Fin 10), bar_c = Fin 11, bar_v = Some (Fin 100)\<rparr>,
               \<lparr>bar_t = ''2024-01-02'', bar_o = Some (Fin 10), bar_h = Some (Fin 11),
                bar_l = Some (Fin 9), bar_c = Fin 10, bar_v = Some (Fin 100)\<rparr>],
            ph_adjusted = Some False, ph_dataSources = [''stooq''],
            ph_sourceSymbol = Some ''voo.us''\<rparr>"
  by code_simp

text \<open>
  C4. The closes of every history are finite, and a history of Alpha Vantage is sorted, but
  \<open>stooqDaily\<close> keeps the rows in the order of the CSV text and never sorts them: for a text
  whose rows are in descending order of date the bars are in descending order.
\<close>

theorem stooqDaily_keeps_row_order:
  "stooqDaily (stooq_serves descending_csv) parseFloat_plain ''VOO'' =
     Inr (Some \<lparr>ph_symbol = ''VOO'', ph_interval = ''1d'',
            ph_bars =
              [\<lparr>bar_t = ''2024-01-03'', bar_o = Some (Fin 11), bar_h = Some (Fin 12),
                bar_l = Some (Fin 10), bar_c = Fin 11, bar_v = Some (Fin 100)\<rparr>,
               \<lparr>bar_t = ''2024-01-02'', bar_o = Some (Fin 10), bar_h = Some (Fin 11),
                bar_l = Some (Fin 9), bar_c = Fin 10, bar_v = Some (Fin 100)\<rparr>],
            ph_adjusted = Some False, ph_dataSources = [''stooq''],
            ph_sourceSymbol = Some ''voo.us''\<rparr>) \<and>
   compare_strings ''2024-01-03'' ''2024-01-02'' = 1"
  by (simp add: stooqDaily_def variants_voo stooq_serves_def parse_descending)

section \<open>Properties of the handler and of the failures\<close>

lemma js_get_primitive [simp]:
  "js_get JUndefined k = JUndefined" "js_get JNull k = JUndefined"
  "js_get (JBool b) k = JUndefined" "js_get (JNumber x) k = JUndefined"
  "js_get (JString s) k = JUndefined" "js_get (JArray xs) k = JUndefined"
  "js_get (JObject []) k = JUndefined"
  by (simp_all add: js_get_def)

lemma js_truthy_simps [simp]:
  "\<not> js_truthy JUndefined" "\<not> js_truthy JNull" "js_truthy (JArray xs)" "js_truthy (JObject kvs)"
  by (simp_all add: js_truthy_def)

lemma and_then_simps [simp]:
  "and_then (Inl e) f = Inl e" "and_then (Inr x) f = f x"
  by (simp_all add: and_then_def)

text \<open>
  On a payload of two days, the later one first, \<open>alphaVantageDaily\<close> gives the bars in
  ascending order of date.
\<close>

lemma parse_cells:
  "parseFloat_text ''9'' = Fin 9" "parseFloat_text ''10'' = Fin 10"
  "parseFloat_text ''11'' = Fin 11" "parseFloat_text ''12'' = Fin 12"
  "parseFloat_text ''100'' = Fin 100"
  by code_simp+

lemma compare_dates: "compare_strings ''2024-01-03'' ''2024-01-02'' = 1"
  by code_simp

lemma alphaVantageDaily_example:
  "alphaVantageDaily settings_on (Inr av_payload) (js_parseFloat numberToString)
     compare_strings ''VOO'' =
     Inr (Some \<lparr>ph_symbol = ''VOO'', ph_interval = ''1d'',
            ph_bars =
              [\<lparr>bar_t = ''2024-01-02'', bar_o = Some (Fin 10), bar_h = Some (Fin 11),
                bar_l = Some (Fin 9), bar_c = Fin 10, bar_v = Some (Fin 100)\<rparr>,
               \<lparr>bar_t = ''2024-01-03'', bar_o = Some (Fin 11), bar_h = Some (Fin 12),
                bar_l = Some (Fin 10), bar_c = Fin 11, bar_v = Some (Fin 100)\<rparr>],
            ph_adjusted = Some True, ph_dataSources = [''alphaVantage''],
            ph_sourceSymbol = None\<rparr>)"
  by (simp add: alphaVantageDaily_def settings_on_def av_payload_def js_get_def js_or_def
      js_truthy_def typeof_object_def entries_of_def av_bar_def js_prop_def js_parseFloat_def
      parse_cells isFinite_def js_sort_def compare_dates Let_def)

text \<open>
  A request that fails is contained by every fetcher: each of the four that read JSON
  resolves to \<open>null\<close> when the promise of \<open>getJSON\<close> is rejected, and \<open>stooqDaily\<close> does
  when every request is rejected (for a symbol that names no inherited property).
\<close>

lemma alphaVantageDaily_rejected:
  "alphaVantageDaily settings (Inl e) parseFloat localeCompare symbol = Inr None"
  by (simp add: alphaVantageDaily_def Let_def js_or_def)

lemma fmpEtfProfile_rejected: "fmpEtfProfile settings (Inl e) Number = Inr None"
  by (simp add: fmpEtfProfile_def Let_def)

lemma fmpEtfHoldings_rejected: "fmpEtfHoldings settings (Inl e) Number symbol = Inr None"
  by (simp add: fmpEtfHoldings_def Let_def)

lemma finnhubEtfProfile_rejected: "finnhubEtfProfile settings (Inl e) Number = Inr None"
  by (simp add: finnhubEtfProfile_def Let_def)

lemma stooq_loop_offline:
  "\<forall>candidate. isl (getText candidate) \<Longrightarrow> stooq_loop getText parseFloat symbol candidates = None"
proof (induction candidates)
  case Nil
  then show ?case by simp
next
  case (Cons c cs)
  from Cons.prems have "isl (getText c)" by blast
  then obtain e where "getText c = Inl e" by (cases "getText c") auto
  with Cons show ?case by simp
qed

lemma stooqDaily_offline:
  "toLowerCase symbol \<notin> set object_prototype_keys \<Longrightarrow> \<forall>candidate. isl (getText candidate) \<Longrightarrow>
   stooqDaily getText parseFloat symbol = Inr None"
  by (simp add: stooqDaily_def buildTickerVariants_def Let_def stooq_loop_offline
      split: option.splits)

lemma stooqDaily_offline_example: "stooqDaily offline parseFloat ''VOO'' = Inr None"
  by (simp add: stooqDaily_def variants_voo offline_def)

text \<open>A payload of Alpha Vantage with no series object gives \<open>null\<close> as well.\<close>

lemma alphaVantageDaily_no_series:
  assumes "\<not> typeof_object (js_get json ''Time Series (Daily)'')"
  shows "alphaVantageDaily settings (Inr json) parseFloat localeCompare symbol = Inr None"
proof -
  let ?j = "if json = JNull \<or> json = JUndefined then JObject [] else json"
  have same: "js_get ?j ''Time Series (Daily)'' = js_get json ''Time Series (Daily)''"
    by auto
  show ?thesis
    unfolding alphaVantageDaily_def Let_def sum.case same using assms by simp
qed

lemma alphaVantageDaily_empty_object:
  "alphaVantageDaily settings (Inr (JObject [])) parseFloat localeCompare symbol = Inr None"
  by (simp add: alphaVantageDaily_def Let_def js_or_def)

text \<open>
  A body that is not of the expected shape makes a fetcher throw after the request has
  succeeded: an entry of the series that is \<open>null\<close>, a body of FMP that is an object.
\<close>

lemma alphaVantageDaily_null_entry:
  "alphaVantageDaily settings_on (Inr null_entry_payload) parseFloat localeCompare symbol
   = Inl type_error"
  by (simp add: alphaVantageDaily_def settings_on_def null_entry_payload_def js_get_def
      js_or_def typeof_object_def entries_of_def av_bar_def js_prop_def Let_def)

lemma fmpEtfProfile_object_body:
  "fmpEtfProfile settings_fmp (Inr fmp_object_body) Number = Inl type_error"
  by (simp add: fmpEtfProfile_def settings_fmp_def fmp_object_body_def js_length_is_0_def
      js_first_def js_prop_def Let_def)

lemma fmpEtfHoldings_object_body:
  "fmpEtfHoldings settings_fmp (Inr fmp_object_body) Number symbol = Inl not_a_function"
  by (simp add: fmpEtfHoldings_def settings_fmp_def fmp_object_body_def js_length_is_0_def
      Let_def)

text \<open>
  \<open>stooqDaily\<close> throws before any request for a symbol that names a property inherited
  from \<open>Object.prototype\<close>.
\<close>

lemma variants_constructor: "buildTickerVariants ''constructor'' = Inl type_error"
  by code_simp

lemma stooqDaily_constructor: "stooqDaily getText parseFloat ''constructor'' = Inl type_error"
  by (simp add: stooqDaily_def variants_constructor)

text \<open>
  The handler is not rejected when it has no callback, or one that does not throw: what
  \<open>buildSnapshot\<close> throws becomes a result.
\<close>

lemma handler_resolves:
  "callback = None \<or> callback = Some (\<lambda>text. None) \<Longrightarrow>
   \<not> isl (run_result (snapshot_handler env message state callback))"
  by (auto simp: snapshot_handler_def Let_def split: option.splits sum.splits prod.splits)

text \<open>
  What \<open>buildSnapshot\<close> throws becomes a result with \<open>success = false\<close> and the text of
  the failure, which the callback gets first; a callback that throws there makes the
  handler throw.
\<close>

lemma handler_failure:
  assumes "\<not> isAgentMessage (env_agentId env) message"
    and "env_ensureCorrelationId env state message = (corrId, state')"
    and "(case st_snapshotCache state' of None \<Rightarrow> Map.empty | Some c \<Rightarrow> c)
           (cacheKey_of message corrId) = None"
    and "buildSnapshot env message corrId = Inl error"
  shows "run_result (snapshot_handler env message (Some state) None)
           = Inr (failure_result (failure_reason error))"
    and "run_result (snapshot_handler env message (Some state) (Some (\<lambda>text. None)))
           = Inr (failure_result (failure_reason error))"
    and "run_result (snapshot_handler env message (Some state) (Some (\<lambda>text. Some e))) = Inl e"
  using assms by (simp_all add: snapshot_handler_def Let_def)

lemma not_agent_user: "\<not> isAgentMessage ''agent-0'' user_message"
  by (simp add: isAgentMessage_def user_message_def)

lemma candidates_user: "snapshot_candidates user_message = [''VOO'']"
  by code_simp

lemma parse_one_day:
  "stooq_parse parseFloat_plain ''VOO'' ''voo.us'' one_day_csv = Some one_day_history"
  by code_simp

lemma stooq_one_day:
  "stooqDaily (stooq_serves one_day_csv) parseFloat_plain ''VOO'' = Inr (Some one_day_history)"
  by (simp add: stooqDaily_def variants_voo stooq_serves_def parse_one_day)

lemma av_world_fields:
  "env_settings (av_world payload env) = settings_on"
  "env_agentId (av_world payload env) = ''agent-0''"
  "env_ensureCorrelationId (av_world payload env) state message = (''corr-1'', state)"
  "env_alphaVantage (av_world payload env) symbol = Inr payload"
  "env_stooq (av_world payload env) = stooq_serves one_day_csv"
  "env_manualOverview (av_world payload env) symbol = None"
  "env_manualHoldings (av_world payload env) symbol = None"
  "env_numberToString (av_world payload env) = env_numberToString env"
  "env_stringToNumber (av_world payload env) = env_stringToNumber env"
  by (simp_all add: av_world_def hosted_def)

lemma fmp_disabled:
  "fmpEtfProfile settings_on response Number = Inr None"
  "fmpEtfHoldings settings_on response Number symbol = Inr None"
  "finnhubEtfProfile settings_on response Number = Inr None"
  by (simp_all add: fmpEtfProfile_def fmpEtfHoldings_def finnhubEtfProfile_def settings_on_def)

lemma fetch_null_entry:
  "fetchSymbolDataset (av_world null_entry_payload env) ''VOO'' corrId = Inl type_error"
  by (simp add: fetchSymbolDataset_def av_world_fields fmp_disabled
      alphaVantageDaily_null_entry Let_def)

lemma build_null_entry:
  "buildSnapshot (av_world null_entry_payload env) user_message corrId = Inr no_data_result"
  by (simp add: buildSnapshot_def candidates_user fetch_null_entry has_data_def)

text \<open>
  C5. A failure of a provider is not always contained. Alpha Vantage is enabled and answers
  the request for \<open>VOO\<close> with a body whose series has an entry that is \<open>null\<close>; Stooq
  serves a history for \<open>voo.us\<close>. Then \<open>alphaVantageDaily\<close> is rejected with a \<open>TypeError\<close>
  instead of resolving to \<open>null\<close>; the rejection ends \<open>fetchSymbolDataset\<close> before Stooq
  is asked; and the handler answers that it has found no data for the symbol.
\<close>

theorem null_entry_escalates:
  "alphaVantageDaily settings_on (Inr null_entry_payload) parseFloat localeCompare ''VOO''
     = Inl type_error \<and>
   stooqDaily (stooq_serves one_day_csv) parseFloat_plain ''VOO'' = Inr (Some one_day_history) \<and>
   fetchSymbolDataset (av_world null_entry_payload env) ''VOO'' ''corr-1'' = Inl type_error \<and>
   run_result (snapshot_handler (av_world null_entry_payload env) user_message None None)
     = Inr no_data_result"
proof -
  have "run_result (snapshot_handler (av_world null_entry_payload env) user_message None None)
        = Inr no_data_result"
    by (simp add: snapshot_handler_def av_world_fields Let_def not_agent_user build_null_entry)
  then show ?thesis
    by (simp add: alphaVantageDaily_null_entry stooq_one_day fetch_null_entry)
qed

text \<open>
  When the body of Alpha Vantage is the empty object instead, in the same environment,
  the failure is contained: the history is that of Stooq, and the handler gives the
  snapshot with \<open>n/d\<close> for every absent field.
\<close>

lemma reconcile_nothing: "reconcileOverview ''VOO'' [None, None, None] = bare_overview"
  by (simp add: reconcileOverview_def merge_fragment_def array_from_set_def bare_overview_def)

lemma fetch_empty_payload:
  "fetchSymbolDataset (av_world (JObject []) env) ''VOO'' corrId =
     Inr \<lparr>ds_overview = bare_overview, ds_holdings = None, ds_history = Some one_day_history\<rparr>"
  by (simp add: fetchSymbolDataset_def av_world_fields fmp_disabled alphaVantageDaily_empty_object
      stooq_one_day reconcile_nothing Let_def)

lemma rebase_one_day:
  "alignAndRebase [one_day_history] =
     \<lparr>rb_dates = [''2024-01-02''],
      rb_table = [\<lparr>cs_symbol = ''VOO'', cs_points = [\<lparr>pt_t = ''2024-01-02'', pt_v = Fin 100\<rparr>]\<rparr>],
      rb_sources = [''stooq'']\<rparr>"
  by code_simp

lemma toFixed_100: "toFixed (Fin 100) (Suc 0) = Some ''100.0''"
  by code_simp

lemma digits_1: "digits_of_nat (Suc 0) = ''1''"
  by code_simp

lemma overview_bare:
  "overview_field bare_overview k = (if k = ''symbol'' then JString ''VOO'' else JUndefined)"
  by (simp add: overview_field_def bare_overview_def)

lemma one_day_bars: "ph_bars one_day_history \<noteq> []"
  by (simp add: one_day_history_def)

lemma render_one_day:
  "render_snapshot (av_world (JObject []) env) [''VOO'']
     [''VOO'' \<mapsto> \<lparr>ds_overview = bare_overview, ds_holdings = None,
                     ds_history = Some one_day_history\<rparr>]
     ''VOO''
     \<lparr>ds_overview = bare_overview, ds_holdings = None, ds_history = Some one_day_history\<rparr>
   = Inr one_day_snapshot"
  by (simp add: render_snapshot_def Let_def history_of_def one_day_bars
      hasHistoryData_def hasHoldingsData_def rebase_one_day last_n_def MAX_HISTORY_POINTS_def
      MAX_COMPARISONS_def chart_value_def latest_entry_def isFinite_def js_toFixed_def
      toFixed_100 digits_1 field_text_def js_nullish_def overview_bare formatPercent_def
      formatCurrency_def one_day_text_def one_day_payload_def one_day_snapshot_def
      av_world_fields)

lemma build_empty_payload:
  "buildSnapshot (av_world (JObject []) env) user_message corrId = Inr one_day_snapshot"
  by (simp add: buildSnapshot_def candidates_user fetch_empty_payload has_data_def
      hasHistoryData_def one_day_bars render_one_day)

lemma empty_payload_contained:
  "run_result (snapshot_handler (av_world (JObject []) env) user_message None None)
     = Inr one_day_snapshot"
  by (simp add: snapshot_handler_def av_world_fields Let_def not_agent_user build_empty_payload)

text \<open>
  C6, as amended. For a message that \<open>isAgentMessage\<close> does not take for the agent's own:
  if the cache of the state, read once the host's \<open>ensureCorrelationId\<close> has run on the
  state, holds a result under the key made of the \<open>roomId\<close> of the message and the
  correlation id, the handler returns that result and builds no snapshot.
\<close>

theorem snapshot_cache_hit:
  assumes "\<not> isAgentMessage (env_agentId env) message"
    and "env_ensureCorrelationId env state message = (corrId, state')"
    and "st_snapshotCache state' = Some cache"
    and "cache (cacheKey_of message corrId) = Some cached"
  shows "run_result (snapshot_handler env message (Some state) callback) = Inr cached \<and>
         run_effects (snapshot_handler env message (Some state) callback) = []"
  using assms by (simp add: snapshot_handler_def Let_def)

lemma hosted_fields:
  "env_agentId (hosted env) = ''agent-0''"
  "env_ensureCorrelationId (hosted env) state message = (''corr-1'', state)"
  by (simp_all add: hosted_def)

theorem snapshot_cache_hit_witness:
  "\<forall>env callback.
     run_result (snapshot_handler (hosted env) user_message (Some cached_state) callback)
       = Inr sample_result \<and>
     run_effects (snapshot_handler (hosted env) user_message (Some cached_state) callback) = []"
proof (intro allI)
  fix env :: environment and callback :: "(string \<Rightarrow> js_error option) option"
  have h1: "\<not> isAgentMessage (env_agentId (hosted env)) user_message"
    by (simp add: hosted_fields not_agent_user)
  have h2: "env_ensureCorrelationId (hosted env) cached_state user_message
            = (''corr-1'', cached_state)"
    by (simp add: hosted_fields)
  have h3: "st_snapshotCache cached_state = Some [''room-7:corr-1'' \<mapsto> sample_result]"
    by (simp add: cached_state_def)
  have h4: "[''room-7:corr-1'' \<mapsto> sample_result] (cacheKey_of user_message ''corr-1'')
            = Some sample_result"
    by (simp add: cacheKey_of_def user_message_def)
  from snapshot_cache_hit [OF h1 h2 h3 h4, of callback]
  show "run_result (snapshot_handler (hosted env) user_message (Some cached_state) callback)
          = Inr sample_result \<and>
        run_effects (snapshot_handler (hosted env) user_message (Some cached_state) callback)
          = []" .
qed

text \<open>
  C6 as stated fails for a message of the agent itself: the test \<open>isAgentMessage\<close> comes
  before the cache is read, and the handler returns the result \<open>IGNORED_SELF_MESSAGE\<close>
  although the cache holds a result under the key of the message.
\<close>

theorem snapshot_cache_agent_counterexample:
  "\<forall>env callback.
     st_snapshotCache cached_state = Some [''room-7:corr-1'' \<mapsto> sample_result] \<and>
     cacheKey_of agent_message ''corr-1'' = ''room-7:corr-1'' \<and>
     env_ensureCorrelationId (hosted env) cached_state agent_message
       = (''corr-1'', cached_state) \<and>
     run_result (snapshot_handler (hosted env) agent_message (Some cached_state) callback)
       = Inr ignored_result \<and>
     ignored_result \<noteq> sample_result"
  by (simp add: snapshot_handler_def Let_def hosted_fields isAgentMessage_def agent_message_def
      user_message_def cached_state_def cacheKey_of_def ignored_result_def sample_result_def)

text \<open>The message of the agent is ignored whatever the state holds.\<close>

lemma snapshot_agent_ignored:
  "isAgentMessage (env_agentId env) message \<Longrightarrow>
   run_result (snapshot_handler env message state callback) = Inr ignored_result \<and>
   run_effects (snapshot_handler env message state callback) = []"
  by (simp add: snapshot_handler_def Let_def)

section \<open>Properties of the Hyperliquid actions\<close>

lemma pip_numbers:
  "js_Number ''19.73'' = Some (Fin (5553501290501243 / 281474976710656))"
  "js_Number ''20.10'' = Some (Fin (2828823515942093 / 140737488355328))"
  "js_Number ''1053445.75'' = Some (Fin (4213783 / 4))"
  by code_simp+

lemma pip_change:
  "js_mul (js_div (js_sub (Fin (5553501290501243 / 281474976710656))
                          (Fin (2828823515942093 / 140737488355328)))
                  (Fin (2828823515942093 / 140737488355328)))
          (Fin 100)
   = Fin (- (4145104134644497 / 2251799813685248))"
  by code_simp

lemma pip_texts:
  "toFixed (Fin (5553501290501243 / 281474976710656)) 2 = Some ''19.73''"
  "toFixed (Fin (- (4145104134644497 / 2251799813685248))) 2 = Some ''-1.84''"
  "toFixed (Fin (4213783 / 4)) 2 = Some ''1053445.75''"
  by code_simp+

lemma pip_token:
  "list_ex (\<lambda>token. toUpperCase (tk_name token) = toUpperCase ''PIP'') (fst mock_market)"
  by code_simp

lemma pip_market:
  "find (\<lambda>ctx. ctx_coin ctx = ''PIP'' @ ''-SPOT'') (snd mock_market)
   = Some \<lparr>ctx_coin = ''PIP-SPOT'', ctx_midPx = Some ''19.73'', ctx_prevDayPx = ''20.10'',
           ctx_dayNtlVlm = ''1053445.75''\<rparr>"
  by code_simp


lemma priceCheck_body_PIP:
  "priceCheck_body (Inr (Some [(''symbol'', ''PIP'')])) (Inr mock_market) =
     Some (Inr \<lparr>reply_text =
                  ''PIP price: 19.73 USDC (24h change: -1.84%, volume: 1053445.75 USDC)'',
                reply_content =
                  PriceContent ''PIP'' (Fin (5553501290501243 / 281474976710656)) ''-1.84''
                    ''1053445.75''\<rparr>)"
proof -
  obtain tokens assetCtxs where m: "mock_market = (tokens, assetCtxs)"
    by (cases mock_market)
  from pip_token pip_market have t: "list_ex (\<lambda>token. toUpperCase (tk_name token) = toUpperCase ''PIP'') tokens"
    and c: "find (\<lambda>ctx. ctx_coin ctx = ''PIP'' @ ''-SPOT'') assetCtxs
      = Some \<lparr>ctx_coin = ''PIP-SPOT'', ctx_midPx = Some ''19.73'', ctx_prevDayPx = ''20.10'',
           ctx_dayNtlVlm = ''1053445.75''\<rparr>"
    by (simp_all add: m)
  show ?thesis
    unfolding priceCheck_body_def m
    using t c by (simp add: pip_numbers pip_change pip_texts)
qed

text \<open>
  C9. With the market data of the mocked SDK and the symbol \<open>PIP\<close> parsed from the answer of
  the model, the handler calls the callback once, with the text
  \<open>PIP price: 19.73 USDC (24h change: -1.84%, volume: 1053445.75 USDC)\<close>, and returns
  \<open>true\<close>.
\<close>

theorem priceCheck_PIP_reply:
  "priceCheck_handler (Inr (Some [(''symbol'', ''PIP'')])) (Inr mock_market) True =
     Some \<lparr>returned = True,
           callback_calls =
             [\<lparr>reply_text =
                 ''PIP price: 19.73 USDC (24h change: -1.84%, volume: 1053445.75 USDC)'',
               reply_content =
                 PriceContent ''PIP'' (Fin (5553501290501243 / 281474976710656)) ''-1.84''
                   ''1053445.75''\<rparr>]\<rparr>"
  by (simp add: priceCheck_handler_def priceCheck_body_PIP)

text \<open>
  C10. For the extraction of "Buy 1 HYPE" (coin \<open>HYPE\<close>, a buy, size 1, no limit price) and
  the response of the mocked SDK, whose one status has no error, the handler passes one
  order to \<open>placeOrder\<close>, a market order with \<open>sz = 1\<close> and \<open>is_buy = true\<close>, and reports
  success.
\<close>

theorem spotTrade_buy_1_HYPE:
  "spotTrade_handler
     \<lparr>so_coin = ''HYPE'', so_is_buy = True, so_sz = Fin 1, so_limit_px = None\<rparr> [None]
   = \<lparr>trade_returned = True,
      trade_orders =
        [\<lparr>or_coin = ''HYPE-SPOT'', or_is_buy = True, or_sz = Fin 1, or_limit_px = None,
          or_order_type = Market\<rparr>]\<rparr>"
  by (simp add: spotTrade_handler_def)

end
